theory Spec2Isabelle
  imports Complex_Main
begin

section \<open>Numbers, vectors and errors\<close>

text \<open>
  The agent computes on NumPy float arrays. The model computes on the reals, so the
  statements below are about the exact arithmetic the floating-point code approximates.
  The one exception is the velocity limiting step of the action decoder: whether its bound
  holds is decided by the rounding, so that step is modelled in binary64 as well.
  A vector of fixed size is a tuple (\<open>vec2\<close> for an XY position, \<open>vec3\<close> for a 3-D
  position or a puck pose), a per-joint vector is a list.

  Where NumPy divides a float by zero it does not raise: it yields \<open>inf\<close> or \<open>nan\<close> with a
  RuntimeWarning. The reals have no such values, so the model stops there with
  \<open>NotFinite\<close>. The other errors are the Python exceptions of the same name.
\<close>

type_synonym vec2 = "real \<times> real"
type_synonym vec3 = "real \<times> real \<times> real"

datatype py_error =
    ValueError
  | AssertionError
  | IndexError
  | AttributeError
  | ZeroDivisionError
  | NotFinite

text \<open>
  \<open>MAX_TIME_UNTIL_PENALTY_S\<close> of \<open>utils/config.py\<close>; \<open>TournamentReward\<close> declares a class
  constant of the same name and value.
\<close>

definition MAX_TIME_UNTIL_PENALTY_S :: real where
  "MAX_TIME_UNTIL_PENALTY_S = 15"

definition clip :: "real \<Rightarrow> real \<Rightarrow> real \<Rightarrow> real" where
  "clip x lo hi = min (max x lo) hi"

definition np_sign :: "real \<Rightarrow> real" where
  "np_sign x = (if x < 0 then - 1 else if x = 0 then 0 else 1)"

definition copysign :: "real \<Rightarrow> real \<Rightarrow> real" where
  "copysign m s = (if s < 0 then - \<bar>m\<bar> else \<bar>m\<bar>)"

section \<open>SpaceRAgent: normalisation\<close>

definition normalize_value :: "real \<Rightarrow> real \<Rightarrow> real \<Rightarrow> real" where
  "normalize_value v low_in high_in = 2 * (v - low_in) / (high_in - low_in) - 1"

definition unnormalize_value :: "real \<Rightarrow> real \<Rightarrow> real \<Rightarrow> real" where
  "unnormalize_value v low_out high_out = (high_out - low_out) * (v + 1) / 2 + low_out"

section \<open>SpaceRAgent: data\<close>

text \<open>
  \<open>raw_obs\<close> holds the three index groups \<open>process_raw_obs\<close> reads from the raw
  observation: \<open>obs[joint_pos_ids]\<close>, \<open>obs[puck_pos_ids]\<close> (x, y, yaw) and
  \<open>obs[opponent_ee_ids]\<close>. \<open>kinematics\<close> holds what the agent takes from the robot model
  and from \<open>numpy.linalg\<close>: the end-effector position of a joint configuration, and, for
  the first three rows \<open>J\<close> of the Jacobian at a joint configuration, the rows of
  \<open>pinv(J)\<close> (one per joint) and the three singular values of \<open>J\<close>. \<open>randomness\<close> holds
  the samples one tick draws from \<open>np.random\<close>; a run with other samples is another
  value of this record.
\<close>

record raw_obs =
  obs_joint_pos :: "real list"
  obs_puck_pos :: vec3
  obs_opponent_ee_pos :: vec3

record kinematics =
  forward_kinematics :: "real list \<Rightarrow> vec3"
  jac_pinv :: "real list \<Rightarrow> vec3 list"
  jac_svd :: "real list \<Rightarrow> vec3"

record randomness =
  noise_obs_ee_pos :: vec3
  noise_obs_opponent_ee_pos :: vec2
  noise_obs_puck_pos :: vec3
  rand_uniform :: real
  rand_int :: int
  noise_act :: vec2

text \<open>
  The attributes of \<open>self\<close>. The first group is fixed by the constructor arguments and
  by \<open>extract_env_info\<close> (the limits and table ranges are the derived arrays, a 2xN array
  being the pair of its rows); the second is the state a tick changes. A deque is the
  list of its elements, oldest first, its \<open>maxlen\<close> being the matching \<open>n_stacked\<close>
  attribute. An attribute that may be \<open>None\<close> or not yet assigned is an option.
\<close>

record agent =
  evaluate :: bool
  scheme :: int
  filter_actions_enabled :: bool
  filter_actions_coefficient :: real
  z_position_control_tolerance :: real
  loss_of_tracking_prob_inc_per_step :: real
  loss_of_tracking_min_steps :: int
  loss_of_tracking_max_steps :: int
  sim_dt :: real
  robot_ee_desired_height :: real
  robot_joint_pos_limit :: "real list \<times> real list"
  robot_joint_vel_limit_scaled :: "real list \<times> real list"
  ee_table_minmax :: "vec2 \<times> vec2"
  puck_table_minmax :: "vec2 \<times> vec2"
  lose_tracking_probability :: real
  lose_tracking_n_steps_remaining :: int
  penalty_side :: "real option"
  penalty_timer :: real
  n_stacked_obs :: nat
  n_stacked_obs_participant_ee_pos :: nat
  n_stacked_obs_opponent_ee_pos :: nat
  n_stacked_obs_puck_pos :: nat
  n_stacked_obs_puck_rot :: nat
  stacked_obs_participant_ee_pos :: "vec2 list"
  stacked_obs_opponent_ee_pos :: "vec2 list"
  stacked_obs_puck_pos :: "vec2 list"
  stacked_obs_puck_rot :: "vec2 list"
  new_episode :: bool
  previous_ee_pos_xy_norm :: "vec2 option"
  current_joint_pos :: "real list option"
  current_ee_pos :: "vec3 option"
  current_ee_pos_xy_norm :: "vec2 option"

subsection \<open>Deques\<close>

text \<open>
  \<open>collections.deque\<close> with a \<open>maxlen\<close>: an append to a full deque drops the oldest
  element, \<open>extend\<close> appends one element after the other. \<open>fill_deque\<close> is the loop
  \<^verbatim>\<open>while not n == len(d): d.append(x.copy())\<close>.
\<close>

definition deque_append :: "nat \<Rightarrow> 'a list \<Rightarrow> 'a \<Rightarrow> 'a list" where
  "deque_append maxlen xs x = drop (Suc (length xs) - maxlen) (xs @ [x])"

definition deque_extend :: "nat \<Rightarrow> 'a list \<Rightarrow> 'a list \<Rightarrow> 'a list" where
  "deque_extend maxlen xs ys = foldl (deque_append maxlen) xs ys"

function fill_deque :: "nat \<Rightarrow> 'a list \<Rightarrow> 'a \<Rightarrow> 'a list" where
  "fill_deque n xs x = (if n = length xs then xs else fill_deque n (deque_append n xs x) x)"
  by pat_completeness auto
termination
  by (relation "measure (\<lambda>(n, xs, x). if n < length xs then Suc n else n - length xs)")
     (auto simp: deque_append_def)

declare fill_deque.simps [simp del]

definition stack_fill :: "nat \<Rightarrow> 'a list \<Rightarrow> 'a \<Rightarrow> 'a list" where
  "stack_fill n xs x = fill_deque n (deque_append n xs x) x"

definition stack_episode :: "bool \<Rightarrow> nat \<Rightarrow> nat \<Rightarrow> 'a list \<Rightarrow> 'a \<Rightarrow> 'a list" where
  "stack_episode new k maxlen xs x =
     (if new then deque_extend maxlen xs (replicate k x) else deque_append maxlen xs x)"

definition flatten2 :: "vec2 list \<Rightarrow> real list" where
  "flatten2 xs = concat (map (\<lambda>p. [fst p, snd p]) xs)"

subsection \<open>Construction and reset\<close>

definition reset :: "agent \<Rightarrow> agent" where
  "reset self =
     self\<lparr> lose_tracking_probability := 0,
           lose_tracking_n_steps_remaining := 0,
           previous_ee_pos_xy_norm :=
             (if filter_actions_enabled self then None else previous_ee_pos_xy_norm self),
           penalty_timer := 0,
           penalty_side := (if scheme self \<noteq> 2 then None else penalty_side self),
           stacked_obs_participant_ee_pos := [],
           stacked_obs_opponent_ee_pos := [],
           stacked_obs_puck_pos := [],
           stacked_obs_puck_rot :=
             (if scheme self = 7 then [] else stacked_obs_puck_rot self),
           new_episode := True \<rparr>"

text \<open>
  The scheme table of \<open>__init__\<close>: the history depths of each scheme (own end-effector,
  opponent end-effector, puck position, puck rotation, and the common \<open>n_stacked_obs\<close> of
  schemes 5 and 6). A depth the constructor does not assign is left as it is.
\<close>

definition set_depths :: "agent \<Rightarrow> nat \<Rightarrow> nat \<Rightarrow> nat \<Rightarrow> agent" where
  "set_depths self n_ee n_opp n_puck =
     self\<lparr> penalty_timer := 0,
           n_stacked_obs_participant_ee_pos := n_ee,
           stacked_obs_participant_ee_pos := [],
           n_stacked_obs_opponent_ee_pos := n_opp,
           stacked_obs_opponent_ee_pos := [],
           n_stacked_obs_puck_pos := n_puck,
           stacked_obs_puck_pos := [] \<rparr>"

definition scheme_setup :: "agent \<Rightarrow> py_error + agent" where
  "scheme_setup self =
     (if scheme self = 1 then Inl ValueError
      else if scheme self = 2 then Inr (set_depths self 1 1 1)
      else if scheme self = 3 then Inr (set_depths (self\<lparr>penalty_side := None\<rparr>) 3 5 9)
      else if scheme self = 4 then Inr (set_depths (self\<lparr>penalty_side := None\<rparr>) 2 2 2)
      else if scheme self = 5 then
        Inr (set_depths (self\<lparr>penalty_side := None, n_stacked_obs := 4\<rparr>) 4 4 4)
      else if scheme self = 6 then
        Inr (set_depths (self\<lparr>penalty_side := None, n_stacked_obs := 4\<rparr>) 4 4 4)
      else if scheme self = 7 then
        Inr ((set_depths (self\<lparr>penalty_side := None\<rparr>) 2 2 10)
               \<lparr>n_stacked_obs_puck_rot := 2, stacked_obs_puck_rot := []\<rparr>)
      else Inl ValueError)"

text \<open>
  \<open>__init__\<close>: the argument carries the constructor arguments and the environment
  information in its configuration fields; the attributes assigned only by
  \<open>process_raw_obs\<close> do not exist yet.
\<close>

definition SpaceRAgent_init :: "agent \<Rightarrow> py_error + agent" where
  "SpaceRAgent_init args =
     (case scheme_setup (args\<lparr> lose_tracking_probability := 0,
                               lose_tracking_n_steps_remaining := 0,
                               previous_ee_pos_xy_norm := None,
                               current_joint_pos := None,
                               current_ee_pos := None,
                               current_ee_pos_xy_norm := None \<rparr>) of
        Inl e \<Rightarrow> Inl e
      | Inr self \<Rightarrow> Inr (reset self))"

definition observation_space :: "agent \<Rightarrow> nat" where
  "observation_space self =
     1 + 2 * n_stacked_obs_participant_ee_pos self
       + 2 * n_stacked_obs_opponent_ee_pos self
       + 2 * n_stacked_obs_puck_pos self
       + (if scheme self = 6 \<or> scheme self = 7 then 7 else 0)
       + (if scheme self = 7 then 2 * n_stacked_obs_puck_rot self else 0)"

section \<open>SpaceRAgent: the observation encoder\<close>

subsection \<open>Normalised features\<close>

text \<open>
  \<open>norm_clip_xy\<close> is \<^verbatim>\<open>np.clip(_normalize_value(p, minmax[:, 0], minmax[:, 1]), -1, 1)\<close>
  for a table range \<open>[[x_low, x_high], [y_low, y_high]]\<close>; \<open>norm_clip_joints\<close> is the
  same on the joint positions, against the two rows of the joint position limits.
\<close>

definition norm_clip_xy :: "vec2 \<times> vec2 \<Rightarrow> vec2 \<Rightarrow> vec2" where
  "norm_clip_xy minmax p =
     (clip (normalize_value (fst p) (fst (fst minmax)) (snd (fst minmax))) (- 1) 1,
      clip (normalize_value (snd p) (fst (snd minmax)) (snd (snd minmax))) (- 1) 1)"

definition norm_clip_joints :: "real list \<times> real list \<Rightarrow> real list \<Rightarrow> real list" where
  "norm_clip_joints limits q =
     map (\<lambda>(v, lo, hi). clip (normalize_value v lo hi) (- 1) 1)
       (zip q (zip (fst limits) (snd limits)))"

record features =
  joint_pos_norm :: "real list"
  ee_pos_xy_norm :: vec2
  opponent_ee_pos_xy_norm :: vec2
  puck_pos_xy_norm :: vec2
  puck_rot_yaw_norm :: vec2

definition add3 :: "vec3 \<Rightarrow> vec3 \<Rightarrow> vec3" where
  "add3 a b = (fst a + fst b, fst (snd a) + fst (snd b), snd (snd a) + snd (snd b))"

definition add2 :: "vec2 \<Rightarrow> vec2 \<Rightarrow> vec2" where
  "add2 a b = (fst a + fst b, snd a + snd b)"

definition scale2 :: "real \<Rightarrow> vec2 \<Rightarrow> vec2" where
  "scale2 c a = (c * fst a, c * snd a)"

definition xy :: "vec3 \<Rightarrow> vec2" where
  "xy a = (fst a, fst (snd a))"

text \<open>
  Lines 307 to 363, after the joint positions: the positions the tick works on (with the
  Gaussian samples added when the agent trains) and their normalised, clipped values.
\<close>

definition noisy_ee_pos :: "kinematics \<Rightarrow> agent \<Rightarrow> randomness \<Rightarrow> raw_obs \<Rightarrow> vec3" where
  "noisy_ee_pos kin self rnd obs =
     (if evaluate self then forward_kinematics kin (obs_joint_pos obs)
      else add3 (forward_kinematics kin (obs_joint_pos obs)) (noise_obs_ee_pos rnd))"

definition noisy_opponent_xy :: "agent \<Rightarrow> randomness \<Rightarrow> raw_obs \<Rightarrow> vec2" where
  "noisy_opponent_xy self rnd obs =
     (if evaluate self then xy (obs_opponent_ee_pos obs)
      else add2 (xy (obs_opponent_ee_pos obs)) (noise_obs_opponent_ee_pos rnd))"

definition noisy_puck_pos :: "agent \<Rightarrow> randomness \<Rightarrow> raw_obs \<Rightarrow> vec3" where
  "noisy_puck_pos self rnd obs =
     (if evaluate self then obs_puck_pos obs
      else add3 (obs_puck_pos obs) (noise_obs_puck_pos rnd))"

definition extract_features :: "kinematics \<Rightarrow> agent \<Rightarrow> randomness \<Rightarrow> raw_obs \<Rightarrow> features" where
  "extract_features kin self rnd obs =
     \<lparr> joint_pos_norm = norm_clip_joints (robot_joint_pos_limit self) (obs_joint_pos obs),
       ee_pos_xy_norm = norm_clip_xy (puck_table_minmax self) (xy (noisy_ee_pos kin self rnd obs)),
       opponent_ee_pos_xy_norm =
         norm_clip_xy (puck_table_minmax self) (noisy_opponent_xy self rnd obs),
       puck_pos_xy_norm =
         norm_clip_xy (puck_table_minmax self) (xy (noisy_puck_pos self rnd obs)),
       puck_rot_yaw_norm =
         (sin (snd (snd (noisy_puck_pos self rnd obs))),
          cos (snd (snd (noisy_puck_pos self rnd obs)))) \<rparr>"

subsection \<open>Penalty timers\<close>

text \<open>
  Scheme 2 (lines 390 to 395) counts the time the puck spends on the agent's side.
  Schemes 3 to 7 (lines 439 to 448, repeated at 470, 522 and 575) keep a side and a
  timer; the value returned with the new state is \<open>side * timer / MAX_TIME_UNTIL_PENALTY_S\<close>
  of the new state, before any clipping.
\<close>

definition unsigned_penalty_timer :: "agent \<Rightarrow> real \<Rightarrow> agent \<times> real" where
  "unsigned_penalty_timer self x =
     (if x < 0
      then (self\<lparr>penalty_timer := penalty_timer self + sim_dt self\<rparr>,
            penalty_timer self / MAX_TIME_UNTIL_PENALTY_S)
      else (self\<lparr>penalty_timer := 0\<rparr>, - 1))"

definition signed_penalty_timer :: "agent \<Rightarrow> real \<Rightarrow> agent \<times> real" where
  "signed_penalty_timer self x =
     (case penalty_side self of
        None \<Rightarrow>
          (self\<lparr>penalty_side := Some (np_sign x)\<rparr>,
           np_sign x * penalty_timer self / MAX_TIME_UNTIL_PENALTY_S)
      | Some s \<Rightarrow>
          if np_sign x = s
          then (self\<lparr>penalty_timer := penalty_timer self + sim_dt self\<rparr>,
                s * (penalty_timer self + sim_dt self) / MAX_TIME_UNTIL_PENALTY_S)
          else (self\<lparr>penalty_side := Some (s * (- 1)), penalty_timer := 0\<rparr>,
                s * (- 1) * 0 / MAX_TIME_UNTIL_PENALTY_S))"

subsection \<open>The scheme branches\<close>

definition clip_all :: "real list \<Rightarrow> real list" where
  "clip_all v = map (\<lambda>x. clip x (- 1) 1) v"

definition stack_fill_all :: "agent \<Rightarrow> features \<Rightarrow> agent" where
  "stack_fill_all self f =
     self\<lparr> stacked_obs_puck_pos :=
             stack_fill (n_stacked_obs_puck_pos self) (stacked_obs_puck_pos self)
               (puck_pos_xy_norm f),
           stacked_obs_participant_ee_pos :=
             stack_fill (n_stacked_obs_participant_ee_pos self)
               (stacked_obs_participant_ee_pos self) (ee_pos_xy_norm f),
           stacked_obs_opponent_ee_pos :=
             stack_fill (n_stacked_obs_opponent_ee_pos self)
               (stacked_obs_opponent_ee_pos self) (opponent_ee_pos_xy_norm f) \<rparr>"

definition stacked_obs_flat :: "agent \<Rightarrow> real list" where
  "stacked_obs_flat self =
     flatten2 (stacked_obs_puck_pos self)
     @ flatten2 (stacked_obs_participant_ee_pos self)
     @ flatten2 (stacked_obs_opponent_ee_pos self)"

definition obs_scheme2 :: "agent \<Rightarrow> features \<Rightarrow> agent \<times> real list" where
  "obs_scheme2 self f =
     (let self1 = stack_fill_all self f;
          (self2, current_penalty_timer) =
             unsigned_penalty_timer self1 (fst (puck_pos_xy_norm f))
      in (self2, clip_all (current_penalty_timer # stacked_obs_flat self2)))"

definition obs_scheme34 :: "agent \<Rightarrow> features \<Rightarrow> agent \<times> real list" where
  "obs_scheme34 self f =
     (let self1 = stack_fill_all self f;
          (self2, current_penalty_timer) =
             signed_penalty_timer self1 (fst (puck_pos_xy_norm f))
      in (self2, clip_all (current_penalty_timer # stacked_obs_flat self2)))"

text \<open>
  Schemes 5 and 6 (lines 484 to 498 and 536 to 550): on the first tick of an episode each
  deque is extended with \<open>n_stacked_obs\<close> copies, later the new value is appended.
\<close>

definition stack_episode_all :: "agent \<Rightarrow> features \<Rightarrow> agent" where
  "stack_episode_all self f =
     self\<lparr> stacked_obs_puck_pos :=
             stack_episode (new_episode self) (n_stacked_obs self)
               (n_stacked_obs_puck_pos self) (stacked_obs_puck_pos self) (puck_pos_xy_norm f),
           stacked_obs_participant_ee_pos :=
             stack_episode (new_episode self) (n_stacked_obs self)
               (n_stacked_obs_participant_ee_pos self) (stacked_obs_participant_ee_pos self)
               (ee_pos_xy_norm f),
           stacked_obs_opponent_ee_pos :=
             stack_episode (new_episode self) (n_stacked_obs self)
               (n_stacked_obs_opponent_ee_pos self) (stacked_obs_opponent_ee_pos self)
               (opponent_ee_pos_xy_norm f),
           new_episode := False \<rparr>"

definition obs_scheme5 :: "agent \<Rightarrow> features \<Rightarrow> agent \<times> real list" where
  "obs_scheme5 self f =
     (let (self1, t) = signed_penalty_timer self (fst (puck_pos_xy_norm f));
          current_penalty_timer = clip t (- 1) 1;
          self2 = stack_episode_all self1 f
      in (self2, current_penalty_timer # stacked_obs_flat self2))"

definition obs_scheme6 :: "agent \<Rightarrow> features \<Rightarrow> agent \<times> real list" where
  "obs_scheme6 self f =
     (let (self1, t) = signed_penalty_timer self (fst (puck_pos_xy_norm f));
          current_penalty_timer = clip t (- 1) 1;
          self2 = stack_episode_all self1 f
      in (self2, current_penalty_timer # joint_pos_norm f @ stacked_obs_flat self2))"

text \<open>
  Scheme 7, later ticks (lines 606 to 627): the puck reading that enters the history.
  In evaluation it is the current one. In training, while tracking is lost, the last
  stored reading is repeated (\<open>d[-1]\<close> of an empty deque raises \<open>IndexError\<close>); otherwise
  the current one is stored and tracking is lost with the current probability, for
  \<open>np.random.randint(min, max)\<close> steps (\<open>ValueError\<close> unless \<open>min < max\<close>).
\<close>

definition push_puck :: "agent \<Rightarrow> vec2 \<Rightarrow> vec2 \<Rightarrow> agent" where
  "push_puck self p r =
     self\<lparr> stacked_obs_puck_pos :=
             deque_append (n_stacked_obs_puck_pos self) (stacked_obs_puck_pos self) p,
           stacked_obs_puck_rot :=
             deque_append (n_stacked_obs_puck_rot self) (stacked_obs_puck_rot self) r \<rparr>"

definition track_puck :: "agent \<Rightarrow> randomness \<Rightarrow> features \<Rightarrow> py_error + agent" where
  "track_puck self rnd f =
     (if evaluate self then Inr (push_puck self (puck_pos_xy_norm f) (puck_rot_yaw_norm f))
      else if lose_tracking_n_steps_remaining self > 0 then
        (if stacked_obs_puck_pos self = [] \<or> stacked_obs_puck_rot self = []
         then Inl IndexError
         else Inr ((push_puck self (last (stacked_obs_puck_pos self))
                               (last (stacked_obs_puck_rot self)))
                     \<lparr>lose_tracking_n_steps_remaining :=
                        lose_tracking_n_steps_remaining self - 1\<rparr>))
      else
        (let self1 = push_puck self (puck_pos_xy_norm f) (puck_rot_yaw_norm f)
         in if rand_uniform rnd < lose_tracking_probability self1
            then (if loss_of_tracking_min_steps self1 \<ge> loss_of_tracking_max_steps self1
                  then Inl ValueError
                  else Inr (self1\<lparr>lose_tracking_n_steps_remaining := rand_int rnd,
                                  lose_tracking_probability := 0\<rparr>))
            else Inr (self1\<lparr>lose_tracking_probability :=
                              lose_tracking_probability self1
                              + loss_of_tracking_prob_inc_per_step self1\<rparr>)))"

definition stack_scheme7 :: "agent \<Rightarrow> randomness \<Rightarrow> features \<Rightarrow> py_error + agent" where
  "stack_scheme7 self rnd f =
     (if new_episode self
      then Inr (self\<lparr> stacked_obs_puck_pos :=
                       deque_extend (n_stacked_obs_puck_pos self) (stacked_obs_puck_pos self)
                         (replicate (n_stacked_obs_puck_pos self) (puck_pos_xy_norm f)),
                     stacked_obs_puck_rot :=
                       deque_extend (n_stacked_obs_puck_rot self) (stacked_obs_puck_rot self)
                         (replicate (n_stacked_obs_puck_rot self) (puck_rot_yaw_norm f)),
                     stacked_obs_participant_ee_pos :=
                       deque_extend (n_stacked_obs_participant_ee_pos self)
                         (stacked_obs_participant_ee_pos self)
                         (replicate (n_stacked_obs_participant_ee_pos self) (ee_pos_xy_norm f)),
                     stacked_obs_opponent_ee_pos :=
                       deque_extend (n_stacked_obs_opponent_ee_pos self)
                         (stacked_obs_opponent_ee_pos self)
                         (replicate (n_stacked_obs_opponent_ee_pos self)
                            (opponent_ee_pos_xy_norm f)),
                     new_episode := False \<rparr>)
      else (case track_puck self rnd f of
              Inl e \<Rightarrow> Inl e
            | Inr self1 \<Rightarrow>
                Inr (self1\<lparr> stacked_obs_participant_ee_pos :=
                              deque_append (n_stacked_obs_participant_ee_pos self1)
                                (stacked_obs_participant_ee_pos self1) (ee_pos_xy_norm f),
                            stacked_obs_opponent_ee_pos :=
                              deque_append (n_stacked_obs_opponent_ee_pos self1)
                                (stacked_obs_opponent_ee_pos self1)
                                (opponent_ee_pos_xy_norm f) \<rparr>)))"

definition obs_scheme7 :: "agent \<Rightarrow> randomness \<Rightarrow> features \<Rightarrow> py_error + (agent \<times> real list)" where
  "obs_scheme7 self rnd f =
     (let (self1, t) = signed_penalty_timer self (fst (puck_pos_xy_norm f));
          current_penalty_timer = clip t (- 1) 1
      in case stack_scheme7 self1 rnd f of
           Inl e \<Rightarrow> Inl e
         | Inr self2 \<Rightarrow>
             Inr (self2,
                  current_penalty_timer # joint_pos_norm f
                  @ flatten2 (stacked_obs_puck_pos self2)
                  @ flatten2 (stacked_obs_puck_rot self2)
                  @ flatten2 (stacked_obs_participant_ee_pos self2)
                  @ flatten2 (stacked_obs_opponent_ee_pos self2)))"

subsection \<open>process_raw_obs\<close>

text \<open>
  NumPy raises \<open>ValueError\<close> when the joint positions and a row of the joint limits
  differ in length (the broadcasting of a row of length one is not modelled: the
  environment gives one limit per joint). A range whose two ends are equal makes the
  normalisation divide by zero. An agent whose scheme is none of 2 to 7 does not exist
  (the constructor raised); for such a record the model stops with \<open>AttributeError\<close>.
  The last step is the assertion on the shape of the result.
\<close>

definition degenerate_ranges :: "agent \<Rightarrow> bool" where
  "degenerate_ranges self =
     (list_ex (\<lambda>(lo, hi). hi = lo)
        (zip (fst (robot_joint_pos_limit self)) (snd (robot_joint_pos_limit self)))
      \<or> snd (fst (puck_table_minmax self)) = fst (fst (puck_table_minmax self))
      \<or> snd (snd (puck_table_minmax self)) = fst (snd (puck_table_minmax self)))"

definition encode_scheme :: "agent \<Rightarrow> randomness \<Rightarrow> features \<Rightarrow> py_error + (agent \<times> real list)" where
  "encode_scheme self rnd f =
     (if scheme self = 2 then Inr (obs_scheme2 self f)
      else if scheme self = 3 \<or> scheme self = 4 then Inr (obs_scheme34 self f)
      else if scheme self = 5 then Inr (obs_scheme5 self f)
      else if scheme self = 6 then Inr (obs_scheme6 self f)
      else if scheme self = 7 then obs_scheme7 self rnd f
      else Inl AttributeError)"

definition process_raw_obs ::
  "kinematics \<Rightarrow> agent \<Rightarrow> randomness \<Rightarrow> raw_obs \<Rightarrow> py_error + (agent \<times> real list)" where
  "process_raw_obs kin self rnd obs =
     (if length (obs_joint_pos obs) \<noteq> length (fst (robot_joint_pos_limit self))
         \<or> length (obs_joint_pos obs) \<noteq> length (snd (robot_joint_pos_limit self))
      then Inl ValueError
      else if degenerate_ranges self then Inl NotFinite
      else
        (let f = extract_features kin self rnd obs;
             self1 = self\<lparr> current_joint_pos := Some (obs_joint_pos obs),
                          current_ee_pos := Some (noisy_ee_pos kin self rnd obs),
                          current_ee_pos_xy_norm := Some (ee_pos_xy_norm f) \<rparr>
         in case encode_scheme self1 rnd f of
              Inl e \<Rightarrow> Inl e
            | Inr (self2, out) \<Rightarrow>
                if length out = observation_space self2 then Inr (self2, out)
                else Inl AssertionError))"

text \<open>
  An episode: the ticks in order, each with its samples and its raw observation; the
  first error ends the run.
\<close>

fun run_obs ::
  "kinematics \<Rightarrow> agent \<Rightarrow> (randomness \<times> raw_obs) list \<Rightarrow> py_error + (agent \<times> real list list)" where
  "run_obs kin self [] = Inr (self, [])"
| "run_obs kin self (t # ts) =
     (case process_raw_obs kin self (fst t) (snd t) of
        Inl e \<Rightarrow> Inl e
      | Inr (self1, out) \<Rightarrow>
          (case run_obs kin self1 ts of
             Inl e \<Rightarrow> Inl e
           | Inr (self2, outs) \<Rightarrow> Inr (self2, out # outs)))"

text \<open>
  The calls an environment makes on an agent once it is constructed: \<open>reset\<close> before
  each later episode and \<open>process_raw_obs\<close> on every tick, in any order. A run executes
  the calls one after the other from the state the constructor returns; the first error
  ends it. \<open>observations\<close> are the raw observations of a run's ticks. (In evaluation
  \<open>reset\<close> also resets the policy driver, which is outside the model.)
\<close>

datatype agent_call = Observe randomness raw_obs | Reset

fun run_calls ::
  "kinematics \<Rightarrow> agent \<Rightarrow> agent_call list \<Rightarrow> py_error + (agent \<times> real list list)" where
  "run_calls kin self [] = Inr (self, [])"
| "run_calls kin self (Reset # cs) = run_calls kin (reset self) cs"
| "run_calls kin self (Observe rnd obs # cs) =
     (case process_raw_obs kin self rnd obs of
        Inl e \<Rightarrow> Inl e
      | Inr (self1, out) \<Rightarrow>
          (case run_calls kin self1 cs of
             Inl e \<Rightarrow> Inl e
           | Inr (self2, outs) \<Rightarrow> Inr (self2, out # outs)))"


section \<open>SpaceRAgent: the action decoder\<close>

subsection \<open>Action filter\<close>

text \<open>
  Lines 649 to 658. \<open>current_xy_norm\<close> is \<open>self.current_ee_pos_xy_norm\<close>, read when
  \<open>previous_ee_pos_xy_norm\<close> is \<open>None\<close>.
\<close>

definition filter_action :: "agent \<Rightarrow> vec2 \<Rightarrow> vec2 \<Rightarrow> agent \<times> vec2" where
  "filter_action self current_xy_norm action =
     (if filter_actions_enabled self
      then (let previous = (case previous_ee_pos_xy_norm self of
                              None \<Rightarrow> current_xy_norm
                            | Some p \<Rightarrow> p);
                target_ee_pos_xy =
                  add2 (scale2 (filter_actions_coefficient self) previous)
                       (scale2 (1 - filter_actions_coefficient self) action)
            in (self\<lparr>previous_ee_pos_xy_norm := Some target_ee_pos_xy\<rparr>, target_ee_pos_xy))
      else (self, action))"

subsection \<open>Target and joint velocities\<close>

definition sub3 :: "vec3 \<Rightarrow> vec3 \<Rightarrow> vec3" where
  "sub3 a b = (fst a - fst b, fst (snd a) - fst (snd b), snd (snd a) - snd (snd b))"

definition mul3 :: "vec3 \<Rightarrow> vec3 \<Rightarrow> vec3" where
  "mul3 a b = (fst a * fst b, fst (snd a) * fst (snd b), snd (snd a) * snd (snd b))"

definition sum3 :: "vec3 \<Rightarrow> real" where
  "sum3 a = fst a + fst (snd a) + snd (snd a)"

text \<open>Lines 660 to 678: the 3-D target, with the action noise when the agent trains.\<close>

definition target_ee_pos :: "agent \<Rightarrow> randomness \<Rightarrow> vec2 \<Rightarrow> vec3" where
  "target_ee_pos self rnd target_ee_pos_xy =
     (let x = unnormalize_value (fst target_ee_pos_xy)
                (fst (fst (ee_table_minmax self))) (snd (fst (ee_table_minmax self)));
          y = unnormalize_value (snd target_ee_pos_xy)
                (fst (snd (ee_table_minmax self))) (snd (snd (ee_table_minmax self)))
      in if evaluate self then (x, y, robot_ee_desired_height self)
         else (x + fst (noise_act rnd), y + snd (noise_act rnd), robot_ee_desired_height self))"

text \<open>
  Lines 684 to 688: the weights from the singular values. \<open>1 / s\<close> and the division by
  the sum are float divisions.
\<close>

definition ik_weights :: "real \<Rightarrow> vec3 \<Rightarrow> py_error + vec3" where
  "ik_weights tolerance s =
     (let m = (fst s + fst (snd s)) / 2;
          z = snd (snd s) * tolerance
      in if m = 0 \<or> z = 0 then Inl NotFinite
         else (let inv = (1 / m, 1 / m, 1 / z)
               in if sum3 inv = 0 then Inl NotFinite
                  else Inr (fst inv / sum3 inv, fst (snd inv) / sum3 inv,
                            snd (snd inv) / sum3 inv)))"

text \<open>
  \<open>np.average(a, axis=1, weights=w)\<close> for an Nx3 array: it raises \<open>ZeroDivisionError\<close>
  when the weights sum to zero, and else divides the weighted sum of each row by the sum
  of the weights.
\<close>

definition np_average_rows :: "vec3 list \<Rightarrow> vec3 \<Rightarrow> py_error + real list" where
  "np_average_rows a w =
     (if sum3 w = 0 then Inl ZeroDivisionError
      else Inr (map (\<lambda>row. sum3 (mul3 row w) / sum3 w) a))"

text \<open>Lines 680 to 693: the joint velocities before the limits are enforced.\<close>

definition joint_vel_raw :: "kinematics \<Rightarrow> agent \<Rightarrow> real list \<Rightarrow> vec3 \<Rightarrow> py_error + real list" where
  "joint_vel_raw kin self q target_ee_disp =
     (case ik_weights (z_position_control_tolerance self) (jac_svd kin q) of
        Inl e \<Rightarrow> Inl e
      | Inr s \<Rightarrow>
          (case np_average_rows (map (\<lambda>row. mul3 row target_ee_disp) (jac_pinv kin q)) s of
             Inl e \<Rightarrow> Inl e
           | Inr joint_disp \<Rightarrow>
               if sim_dt self = 0 then Inl NotFinite
               else Inr (map (\<lambda>d. d / sim_dt self) joint_disp)))"

subsection \<open>Velocity limits\<close>

text \<open>
  Lines 695 to 718. The loop runs over the joints outside their limits, in order; the
  limit compared with is the upper one when the joint is above it, else the lower one.
  Dividing by a joint velocity of zero would be a float division by zero.
\<close>

definition outside_vel_limit :: "real \<times> real \<times> real \<Rightarrow> bool" where
  "outside_vel_limit j = (fst j < fst (snd j) \<or> fst j > snd (snd j))"

fun downscaling_loop :: "real \<Rightarrow> (real \<times> real \<times> real) list \<Rightarrow> py_error + real" where
  "downscaling_loop downscaling_factor [] = Inr downscaling_factor"
| "downscaling_loop downscaling_factor ((v, lo, hi) # js) =
     (if outside_vel_limit (v, lo, hi)
      then (if v = 0 then Inl NotFinite
            else downscaling_loop
                   (min downscaling_factor (1 - (v - (if v > hi then hi else lo)) / v)) js)
      else downscaling_loop downscaling_factor js)"

definition limit_joint_vel :: "real list \<times> real list \<Rightarrow> real list \<Rightarrow> py_error + real list" where
  "limit_joint_vel limits joint_vel =
     (if length (fst limits) \<noteq> length joint_vel \<or> length (snd limits) \<noteq> length joint_vel
      then Inl ValueError
      else (let js = zip joint_vel (zip (fst limits) (snd limits))
            in if list_ex outside_vel_limit js
               then (case downscaling_loop 1 js of
                       Inl e \<Rightarrow> Inl e
                     | Inr downscaling_factor \<Rightarrow>
                         Inr (map (\<lambda>v. v * downscaling_factor) joint_vel))
               else Inr joint_vel))"

subsection \<open>Velocity limits in binary64\<close>

text \<open>
  The arrays of lines 695 to 718 hold binary64 numbers, and every operation on them rounds
  its exact result to the nearest binary64 number, ties to the even significand. A
  binary64 number is modelled by a pair \<open>(m, e)\<close> of integers that stands for
  \<open>m * 2 ^ e\<close>; \<open>round_f64 p q e\<close> is the binary64 number nearest to
  \<open>(p / q) * 2 ^ e\<close> for \<open>q > 0\<close>, with a significand of exactly 53 bits (zero
  is \<open>(0, 0)\<close>), so that two results are equal as numbers exactly when they are equal
  as pairs. It scales the quotient to at least 55 bits, cuts it to 53 and rounds on the
  bits cut off and the remainder of the division. \<open>bit_length\<close> is the number of
  binary digits of a positive integer (Python's \<open>int.bit_length\<close>). The exponent
  range is not modelled (no overflow and no subnormal numbers: the velocities and limits
  are far inside the range), nor is the sign of zero.

  \<open>downscaling_candidate_f64\<close> is the expression
  \<^verbatim>\<open>1 - ((joint_vel[i] - limit[int(above_i), i]) / joint_vel[i])\<close> of lines 706 to 715,
  \<open>downscaling_loop_f64\<close> the loop with Python's \<open>min\<close> (the new value is taken
  when it is less than the old one), and \<open>limit_joint_vel_f64\<close> lines 695 to 718 as
  \<open>limit_joint_vel\<close> above, each operation rounded.
\<close>

type_synonym float64 = "int \<times> int"

function bit_length :: "int \<Rightarrow> nat" where
  "bit_length i = (if i \<le> 0 then 0 else Suc (bit_length (i div 2)))"
  by pat_completeness auto
termination
  by (relation "measure nat") auto

declare bit_length.simps [simp del]

definition float64_val :: "float64 \<Rightarrow> real" where
  "float64_val x =
     (if 0 \<le> snd x then real_of_int (fst x) * 2 ^ nat (snd x)
      else real_of_int (fst x) / 2 ^ nat (- snd x))"

definition round_f64 :: "int \<Rightarrow> int \<Rightarrow> int \<Rightarrow> float64" where
  "round_f64 p q e =
     (if p = 0 then (0, 0)
      else
        (let a = \<bar>p\<bar>;
             s = nat (55 + int (bit_length q) - int (bit_length a));
             n = a * 2 ^ s;
             k = bit_length (n div q) - 53;
             m = n div q div 2 ^ k;
             r = n div q mod 2 ^ k;
             half = 2 ^ (k - 1);
             up = (half < r \<or> (r = half \<and> (0 < n mod q \<or> odd m)));
             m1 = (if up then m + 1 else m);
             e1 = e - int s + int k
         in if m1 = 2 ^ 53 then (sgn p * 2 ^ 52, e1 + 1) else (sgn p * m1, e1)))"

definition f64_of_int :: "int \<Rightarrow> float64" where
  "f64_of_int i = round_f64 i 1 0"

definition f64_less :: "float64 \<Rightarrow> float64 \<Rightarrow> bool" where
  "f64_less a b =
     (fst a * 2 ^ nat (snd a - min (snd a) (snd b)) < fst b * 2 ^ nat (snd b - min (snd a) (snd b)))"

definition f64_sub :: "float64 \<Rightarrow> float64 \<Rightarrow> float64" where
  "f64_sub a b =
     round_f64 (fst a * 2 ^ nat (snd a - min (snd a) (snd b))
                - fst b * 2 ^ nat (snd b - min (snd a) (snd b))) 1 (min (snd a) (snd b))"

definition f64_mul :: "float64 \<Rightarrow> float64 \<Rightarrow> float64" where
  "f64_mul a b = round_f64 (fst a * fst b) 1 (snd a + snd b)"

definition f64_div :: "float64 \<Rightarrow> float64 \<Rightarrow> float64" where
  "f64_div a b = round_f64 (fst a * sgn (fst b)) \<bar>fst b\<bar> (snd a - snd b)"

definition outside_vel_limit_f64 :: "float64 \<times> float64 \<times> float64 \<Rightarrow> bool" where
  "outside_vel_limit_f64 j = (f64_less (fst j) (fst (snd j)) \<or> f64_less (snd (snd j)) (fst j))"

definition downscaling_candidate_f64 :: "float64 \<times> float64 \<times> float64 \<Rightarrow> float64" where
  "downscaling_candidate_f64 j =
     f64_sub (f64_of_int 1)
       (f64_div (f64_sub (fst j) (if f64_less (snd (snd j)) (fst j) then snd (snd j) else fst (snd j)))
          (fst j))"

fun downscaling_loop_f64 :: "float64 \<Rightarrow> (float64 \<times> float64 \<times> float64) list \<Rightarrow> py_error + float64" where
  "downscaling_loop_f64 downscaling_factor [] = Inr downscaling_factor"
| "downscaling_loop_f64 downscaling_factor ((v, lo, hi) # js) =
     (if outside_vel_limit_f64 (v, lo, hi)
      then (if fst v = 0 then Inl NotFinite
            else downscaling_loop_f64
                   (if f64_less (downscaling_candidate_f64 (v, lo, hi)) downscaling_factor
                    then downscaling_candidate_f64 (v, lo, hi) else downscaling_factor) js)
      else downscaling_loop_f64 downscaling_factor js)"

definition limit_joint_vel_f64 ::
  "float64 list \<times> float64 list \<Rightarrow> float64 list \<Rightarrow> py_error + float64 list" where
  "limit_joint_vel_f64 limits joint_vel =
     (if length (fst limits) = length joint_vel \<and> length (snd limits) = length joint_vel
      then (let js = zip joint_vel (zip (fst limits) (snd limits))
            in if list_ex outside_vel_limit_f64 js
               then (case downscaling_loop_f64 (f64_of_int 1) js of
                       Inl e \<Rightarrow> Inl e
                     | Inr downscaling_factor \<Rightarrow>
                         Inr (map (\<lambda>v. f64_mul v downscaling_factor) joint_vel))
               else Inr joint_vel)
      else Inl ValueError)"

subsection \<open>process_raw_act\<close>

text \<open>
  The three \<open>current\<close> attributes are assigned together by \<open>process_raw_obs\<close>; reading
  them before the first observation raises \<open>AttributeError\<close>. The result is the agent
  and the two rows of the returned array, joint positions and joint velocities.
\<close>

definition process_raw_act ::
  "kinematics \<Rightarrow> agent \<Rightarrow> randomness \<Rightarrow> vec2 \<Rightarrow> py_error + (agent \<times> real list \<times> real list)" where
  "process_raw_act kin self rnd action =
     (case current_joint_pos self of
        None \<Rightarrow> Inl AttributeError
      | Some q \<Rightarrow>
     (case current_ee_pos self of
        None \<Rightarrow> Inl AttributeError
      | Some ee \<Rightarrow>
     (case current_ee_pos_xy_norm self of
        None \<Rightarrow> Inl AttributeError
      | Some ee_xy_norm \<Rightarrow>
          (let (self1, target_ee_pos_xy) = filter_action self ee_xy_norm action;
               target_ee_disp = sub3 (target_ee_pos self1 rnd target_ee_pos_xy) ee
           in case joint_vel_raw kin self1 q target_ee_disp of
                Inl e \<Rightarrow> Inl e
              | Inr v \<Rightarrow>
                  (case limit_joint_vel (robot_joint_vel_limit_scaled self1) v of
                     Inl e \<Rightarrow> Inl e
                   | Inr joint_vel \<Rightarrow>
                       if length q \<noteq> length joint_vel then Inl ValueError
                       else Inr (self1,
                                 map (\<lambda>(p, v). p + sim_dt self1 * v) (zip q joint_vel),
                                 joint_vel))))))"

section \<open>HitReward: the bounce point\<close>

text \<open>
  Lines 89 to 106 of \<open>HitReward.__call__\<close>: the fixed goal point, the effective width of
  the table, and the point on the side wall where a bank shot has to bounce. The
  quotient \<open>w\<close> divides by \<open>abs(puck_y) + goal_y - 2 * effective_width\<close>.
\<close>

definition hit_goal :: vec2 where
  "hit_goal = (0.98, 0)"

definition effective_width :: "real \<Rightarrow> real \<Rightarrow> real" where
  "effective_width table_width puck_radius = table_width / 2 - puck_radius"

definition bounce_denominator :: "real \<Rightarrow> real \<Rightarrow> vec2 \<Rightarrow> real" where
  "bounce_denominator table_width puck_radius puck_pos =
     \<bar>snd puck_pos\<bar> + snd hit_goal - 2 * effective_width table_width puck_radius"

definition hit_side_point :: "real \<Rightarrow> real \<Rightarrow> vec2 \<Rightarrow> py_error + vec2" where
  "hit_side_point table_width puck_radius puck_pos =
     (let ew = effective_width table_width puck_radius;
          num = \<bar>snd puck_pos\<bar> * fst hit_goal + snd hit_goal * fst puck_pos
                - ew * fst puck_pos - ew * fst hit_goal;
          den = bounce_denominator table_width puck_radius puck_pos
      in if den = 0 then Inl NotFinite
         else Inr (num / den, copysign ew (snd puck_pos)))"

section \<open>TournamentReward\<close>

text \<open>
  The reward object keeps five configured reward values and its own penalty timer and
  penalty side (\<open>None\<close> while unset). One call reads from the simulator the puck position
  and velocity of the next state, the time step, the simulation time and the table
  dimensions; they are the fields of \<open>mdp_view\<close>.
\<close>

record tournament_reward =
  reward_agent_score_goal :: real
  reward_agent_receive_goal :: real
  reward_opponent_faul :: real
  reward_agent_faul :: real
  reward_agent_cause_puck_stuck :: real
  penalty_threshold :: real
  tr_penalty_timer :: real
  tr_penalty_side :: "real option"

record mdp_view =
  puck_pos :: vec2
  puck_vel :: vec2
  mdp_dt :: real
  mdp_time :: real
  table_length :: real
  table_goal_width :: real

definition TournamentReward_init :: "real \<Rightarrow> real \<Rightarrow> real \<Rightarrow> real \<Rightarrow> real \<Rightarrow> tournament_reward" where
  "TournamentReward_init score_goal receive_goal opponent_faul agent_faul puck_stuck =
     \<lparr> reward_agent_score_goal = score_goal,
       reward_agent_receive_goal = receive_goal,
       reward_opponent_faul = opponent_faul,
       reward_agent_faul = agent_faul,
       reward_agent_cause_puck_stuck = puck_stuck,
       penalty_threshold = 0.75 * MAX_TIME_UNTIL_PENALTY_S,
       tr_penalty_timer = 0,
       tr_penalty_side = None \<rparr>"

text \<open>Lines 29 to 41: the timer update, done on every call.\<close>

definition tournament_timer_update :: "tournament_reward \<Rightarrow> mdp_view \<Rightarrow> tournament_reward" where
  "tournament_timer_update self mdp =
     (let x = fst (puck_pos mdp);
          side = (case tr_penalty_side self of None \<Rightarrow> np_sign x | Some s \<Rightarrow> s)
      in if np_sign x = side
         then self\<lparr>tr_penalty_side := Some side,
                   tr_penalty_timer := tr_penalty_timer self + mdp_dt mdp\<rparr>
         else self\<lparr>tr_penalty_side := Some (side * (- 1)), tr_penalty_timer := 0\<rparr>)"

text \<open>
  Lines 46 to 57: the fault reward; a side that is neither \<open>-1\<close> nor \<open>1\<close> raises
  \<open>ValueError\<close>. Lines 60 to 71: the stuck puck, then the goal check.
\<close>

definition tournament_fault :: "tournament_reward \<Rightarrow> mdp_view \<Rightarrow> real \<Rightarrow> py_error + real" where
  "tournament_fault self mdp r =
     (if tr_penalty_timer self > penalty_threshold self \<and> \<bar>fst (puck_pos mdp)\<bar> \<ge> 0.15
      then (if tr_penalty_side self = Some (- 1) then Inr (reward_agent_faul self)
            else if tr_penalty_side self = Some 1 then Inr (reward_opponent_faul self)
            else Inl ValueError)
      else Inr r)"

definition tournament_stuck :: "tournament_reward \<Rightarrow> mdp_view \<Rightarrow> real \<Rightarrow> real" where
  "tournament_stuck self mdp r =
     (if \<bar>fst (puck_pos mdp)\<bar> < 0.15 \<and> \<bar>fst (puck_vel mdp)\<bar> < 0.025
      then reward_agent_cause_puck_stuck self else r)"

definition tournament_goal :: "tournament_reward \<Rightarrow> mdp_view \<Rightarrow> real \<Rightarrow> real" where
  "tournament_goal self mdp r =
     (if \<bar>snd (puck_pos mdp)\<bar> - table_goal_width mdp / 2 \<le> 0
      then (if fst (puck_pos mdp) > table_length mdp / 2 then reward_agent_score_goal self
            else if fst (puck_pos mdp) < - table_length mdp / 2 then reward_agent_receive_goal self
            else r)
      else r)"

definition TournamentReward_call ::
  "tournament_reward \<Rightarrow> mdp_view \<Rightarrow> bool \<Rightarrow> py_error + (tournament_reward \<times> real)" where
  "TournamentReward_call self mdp absorbing =
     (let self1 = tournament_timer_update self mdp
      in if absorbing \<or> mdp_time mdp < mdp_dt mdp * 2
         then (case tournament_fault self1 mdp 0 of
                 Inl e \<Rightarrow> Inl e
               | Inr r1 \<Rightarrow>
                   Inr (self1\<lparr>tr_penalty_timer := 0, tr_penalty_side := None\<rparr>,
                        tournament_goal self1 mdp (tournament_stuck self1 mdp r1)))
         else Inr (self1, 0))"

section \<open>Specification-side definitions and invariants\<close>

text \<open>
  The quantities the specification names (the limit a joint violates, the downscaling
  factors of the offending joints, the weights of the three Cartesian directions, the
  weighted velocity of one joint), and the invariants of an agent between two ticks: the
  history depths are those of the constructor's table, the histories are full once the
  first tick of the episode is over, and every stored value lies in \<open>[-1, 1]\<close>.
\<close>

definition violated_limit :: "real \<times> real \<times> real \<Rightarrow> real" where
  "violated_limit j = (if fst j > snd (snd j) then snd (snd j) else fst (snd j))"

definition offending_factors :: "real list \<times> real list \<Rightarrow> real list \<Rightarrow> real list" where
  "offending_factors limits joint_vel =
     map (\<lambda>j. 1 - (fst j - violated_limit j) / fst j)
       (filter outside_vel_limit (zip joint_vel (zip (fst limits) (snd limits))))"

definition limits_straddle_zero :: "real list \<times> real list \<Rightarrow> bool" where
  "limits_straddle_zero limits =
     (list_all (\<lambda>lo. lo < 0) (fst limits) \<and> list_all (\<lambda>hi. 0 < hi) (snd limits))"

definition joint_factor :: "real \<times> real \<times> real \<Rightarrow> real" where
  "joint_factor j = 1 - (fst j - violated_limit j) / fst j"

definition spec_weights :: "real \<Rightarrow> vec3 \<Rightarrow> vec3" where
  "spec_weights tolerance s =
     (let mean12 = (fst s + fst (snd s)) / 2;
          inv = (1 / mean12, 1 / mean12, 1 / (snd (snd s) * tolerance));
          total = fst inv + fst (snd inv) + snd (snd inv)
      in (fst inv / total, fst (snd inv) / total, snd (snd inv) / total))"

definition weighted_joint_vel :: "vec3 \<Rightarrow> vec3 \<Rightarrow> real \<Rightarrow> vec3 \<Rightarrow> real" where
  "weighted_joint_vel w delta_ee dt row =
     (fst w * fst row * fst delta_ee
      + fst (snd w) * fst (snd row) * fst (snd delta_ee)
      + snd (snd w) * snd (snd row) * snd (snd delta_ee)) / dt"

definition in_unit :: "real \<Rightarrow> bool" where
  "in_unit x \<longleftrightarrow> - 1 \<le> x \<and> x \<le> 1"

definition in_unit2 :: "vec2 \<Rightarrow> bool" where
  "in_unit2 p \<longleftrightarrow> in_unit (fst p) \<and> in_unit (snd p)"

definition scheme_depths :: "agent \<Rightarrow> bool" where
  "scheme_depths self \<longleftrightarrow>
     (scheme self = 2 \<and> n_stacked_obs_participant_ee_pos self = 1
        \<and> n_stacked_obs_opponent_ee_pos self = 1 \<and> n_stacked_obs_puck_pos self = 1)
   \<or> (scheme self = 3 \<and> n_stacked_obs_participant_ee_pos self = 3
        \<and> n_stacked_obs_opponent_ee_pos self = 5 \<and> n_stacked_obs_puck_pos self = 9)
   \<or> (scheme self = 4 \<and> n_stacked_obs_participant_ee_pos self = 2
        \<and> n_stacked_obs_opponent_ee_pos self = 2 \<and> n_stacked_obs_puck_pos self = 2)
   \<or> ((scheme self = 5 \<or> scheme self = 6) \<and> n_stacked_obs self = 4
        \<and> n_stacked_obs_participant_ee_pos self = 4
        \<and> n_stacked_obs_opponent_ee_pos self = 4 \<and> n_stacked_obs_puck_pos self = 4)
   \<or> (scheme self = 7 \<and> n_stacked_obs_participant_ee_pos self = 2
        \<and> n_stacked_obs_opponent_ee_pos self = 2 \<and> n_stacked_obs_puck_pos self = 10
        \<and> n_stacked_obs_puck_rot self = 2)"

definition buffers_full :: "agent \<Rightarrow> bool" where
  "buffers_full self \<longleftrightarrow>
     length (stacked_obs_participant_ee_pos self) = n_stacked_obs_participant_ee_pos self
   \<and> length (stacked_obs_opponent_ee_pos self) = n_stacked_obs_opponent_ee_pos self
   \<and> length (stacked_obs_puck_pos self) = n_stacked_obs_puck_pos self
   \<and> (scheme self = 7 \<longrightarrow>
        length (stacked_obs_puck_rot self) = n_stacked_obs_puck_rot self)"

definition buffers_in_unit :: "agent \<Rightarrow> bool" where
  "buffers_in_unit self \<longleftrightarrow>
     list_all in_unit2 (stacked_obs_participant_ee_pos self)
   \<and> list_all in_unit2 (stacked_obs_opponent_ee_pos self)
   \<and> list_all in_unit2 (stacked_obs_puck_pos self)
   \<and> (scheme self = 7 \<longrightarrow> list_all in_unit2 (stacked_obs_puck_rot self))"

definition agent_inv :: "agent \<Rightarrow> bool" where
  "agent_inv self \<longleftrightarrow>
     scheme_depths self \<and> (\<not> new_episode self \<longrightarrow> buffers_full self) \<and> buffers_in_unit self"

definition same_config :: "agent \<Rightarrow> agent \<Rightarrow> bool" where
  "same_config a b \<longleftrightarrow>
     evaluate a = evaluate b \<and> scheme a = scheme b
   \<and> filter_actions_enabled a = filter_actions_enabled b
   \<and> filter_actions_coefficient a = filter_actions_coefficient b
   \<and> z_position_control_tolerance a = z_position_control_tolerance b
   \<and> loss_of_tracking_prob_inc_per_step a = loss_of_tracking_prob_inc_per_step b
   \<and> loss_of_tracking_min_steps a = loss_of_tracking_min_steps b
   \<and> loss_of_tracking_max_steps a = loss_of_tracking_max_steps b
   \<and> sim_dt a = sim_dt b
   \<and> robot_ee_desired_height a = robot_ee_desired_height b
   \<and> robot_joint_pos_limit a = robot_joint_pos_limit b
   \<and> robot_joint_vel_limit_scaled a = robot_joint_vel_limit_scaled b
   \<and> ee_table_minmax a = ee_table_minmax b
   \<and> puck_table_minmax a = puck_table_minmax b
   \<and> n_stacked_obs a = n_stacked_obs b
   \<and> n_stacked_obs_participant_ee_pos a = n_stacked_obs_participant_ee_pos b
   \<and> n_stacked_obs_opponent_ee_pos a = n_stacked_obs_opponent_ee_pos b
   \<and> n_stacked_obs_puck_pos a = n_stacked_obs_puck_pos b
   \<and> n_stacked_obs_puck_rot a = n_stacked_obs_puck_rot b"

definition features_in_unit :: "features \<Rightarrow> bool" where
  "features_in_unit f \<longleftrightarrow>
     list_all in_unit (joint_pos_norm f) \<and> in_unit2 (ee_pos_xy_norm f)
   \<and> in_unit2 (opponent_ee_pos_xy_norm f) \<and> in_unit2 (puck_pos_xy_norm f)
   \<and> in_unit2 (puck_rot_yaw_norm f)"

definition tick_post :: "agent \<Rightarrow> features \<Rightarrow> agent \<Rightarrow> real list \<Rightarrow> bool" where
  "tick_post self f self' out \<longleftrightarrow>
     same_config self self' \<and> buffers_full self' \<and> buffers_in_unit self'
   \<and> list_all in_unit out
   \<and> ((scheme self = 6 \<or> scheme self = 7 \<longrightarrow> length (joint_pos_norm f) = 7)
        \<longrightarrow> length out = observation_space self')"

definition well_shaped :: "agent \<Rightarrow> raw_obs \<Rightarrow> bool" where
  "well_shaped self obs \<longleftrightarrow>
     length (fst (robot_joint_pos_limit self)) = length (obs_joint_pos obs)
   \<and> length (snd (robot_joint_pos_limit self)) = length (obs_joint_pos obs)"

text \<open>
  The penalty timer as the specification words it: the sign observed on a tick, and the
  side and the timer after a tick whose observed sign is given.
\<close>

definition puck_x_sign :: "kinematics \<Rightarrow> agent \<Rightarrow> randomness \<Rightarrow> raw_obs \<Rightarrow> real" where
  "puck_x_sign kin self rnd obs =
     np_sign (fst (puck_pos_xy_norm (extract_features kin self rnd obs)))"

definition next_side :: "real option \<Rightarrow> real \<Rightarrow> real" where
  "next_side side observed = (case side of None \<Rightarrow> observed | Some s \<Rightarrow> if observed = s then s else - s)"

definition next_timer :: "real option \<Rightarrow> real \<Rightarrow> real \<Rightarrow> real \<Rightarrow> real" where
  "next_timer side timer dt observed =
     (case side of None \<Rightarrow> timer | Some s \<Rightarrow> if observed = s then timer + dt else 0)"

section \<open>Example inputs\<close>

text \<open>
  A 7-joint agent on a table whose puck range is \<open>[0.5, 2.5] x [-0.5, 0.5]\<close> in the robot
  frame, with a time step of 0.1 s, and the inputs of one tick; they instantiate the
  theorems below.
\<close>

definition example_args :: "int \<Rightarrow> bool \<Rightarrow> agent" where
  "example_args sch ev =
     \<lparr> evaluate = ev, scheme = sch,
       filter_actions_enabled = True, filter_actions_coefficient = 3/4,
       z_position_control_tolerance = 7/20,
       loss_of_tracking_prob_inc_per_step = 1/200000,
       loss_of_tracking_min_steps = 2, loss_of_tracking_max_steps = 5,
       sim_dt = 1/10, robot_ee_desired_height = 1/5,
       robot_joint_pos_limit = ([- 2, - 2, - 2, - 2, - 2, - 2, - 2], [2, 2, 2, 2, 2, 2, 2]),
       robot_joint_vel_limit_scaled = ([- 1, - 1, - 1, - 1, - 1, - 1, - 1], [1, 1, 1, 1, 1, 1, 1]),
       ee_table_minmax = ((3/5, 13/10), (- 2/5, 2/5)),
       puck_table_minmax = ((1/2, 5/2), (- 1/2, 1/2)),
       lose_tracking_probability = 0, lose_tracking_n_steps_remaining = 0,
       penalty_side = None, penalty_timer = 0,
       n_stacked_obs = 0, n_stacked_obs_participant_ee_pos = 0,
       n_stacked_obs_opponent_ee_pos = 0, n_stacked_obs_puck_pos = 0,
       n_stacked_obs_puck_rot = 0,
       stacked_obs_participant_ee_pos = [], stacked_obs_opponent_ee_pos = [],
       stacked_obs_puck_pos = [], stacked_obs_puck_rot = [],
       new_episode = True, previous_ee_pos_xy_norm = None,
       current_joint_pos = None, current_ee_pos = None, current_ee_pos_xy_norm = None \<rparr>"

definition example_kin :: kinematics where
  "example_kin =
     \<lparr> forward_kinematics = (\<lambda>q. (1, 0, 1/5)),
       jac_pinv = (\<lambda>q. [(30, 0, 0), (0, 1, 0), (0, 0, 1), (1, 1, 0), (0, 0, 0), (- 1, 0, 0), (0, - 20, 0)]),
       jac_svd = (\<lambda>q. (3, 1, 1)) \<rparr>"

definition example_rnd :: randomness where
  "example_rnd =
     \<lparr> noise_obs_ee_pos = (0, 0, 0), noise_obs_opponent_ee_pos = (0, 0),
       noise_obs_puck_pos = (0, 0, 0), rand_uniform = 1/2, rand_int = 3,
       noise_act = (0, 0) \<rparr>"

definition example_observed :: agent where
  "example_observed =
     (example_args 7 True)
       \<lparr> current_joint_pos := Some [0, 0, 0, 0, 0, 0, 0],
         current_ee_pos := Some (1, 0, 1/5),
         current_ee_pos_xy_norm := Some (- 1/2, 0) \<rparr>"

definition example_obs :: "real \<Rightarrow> raw_obs" where
  "example_obs x =
     \<lparr> obs_joint_pos = [0, 0, 0, 0, 0, 0, 0], obs_puck_pos = (x, 0, 0),
       obs_opponent_ee_pos = (2, 0, 0) \<rparr>"

definition example_agent :: "int \<Rightarrow> bool \<Rightarrow> agent" where
  "example_agent sch ev =
     (case SpaceRAgent_init (example_args sch ev) of
        Inr self \<Rightarrow> self
      | Inl e \<Rightarrow> example_args sch ev)"

definition example_noise :: randomness where
  "example_noise =
     \<lparr> noise_obs_ee_pos = (1/1000, - 1/1000, 1/2000),
       noise_obs_opponent_ee_pos = (1/100, 1/200),
       noise_obs_puck_pos = (1/500, - 1/500, 1/250), rand_uniform = 0, rand_int = 4,
       noise_act = (1/2000, - 1/2000) \<rparr>"




text \<open>
  A call of the action decoder on which every number up to the proposed joint velocities is
  a small dyadic rational, exact in binary64: the first three rows of the Jacobian are
  \<open>[I | 0]\<close> (singular values 1, 1, 1, pseudo-inverse its transpose), the tolerance is
  0.5, the time step 1/64, the action filter is off, and the scaled velocity limits are
  -1 and 1. The action \<open>(0.875, -0.5)\<close> asks for a displacement of
  \<open>(0.4375, -0.25, 0)\<close>, and the proposed joint velocities are
  \<open>[7, -4, 0, 0, 0, 0, 0]\<close>. \<open>binary64_limits\<close> and \<open>binary64_proposed\<close> are the
  limits and the proposed velocities as binary64 numbers.
\<close>

definition dyadic_kin :: kinematics where
  "dyadic_kin =
     \<lparr> forward_kinematics = (\<lambda>q. (1, 0, 1/4)),
       jac_pinv = (\<lambda>q. [(1, 0, 0), (0, 1, 0), (0, 0, 1), (0, 0, 0), (0, 0, 0), (0, 0, 0), (0, 0, 0)]),
       jac_svd = (\<lambda>q. (1, 1, 1)) \<rparr>"

definition dyadic_observed :: agent where
  "dyadic_observed =
     (example_args 7 True)
       \<lparr> filter_actions_enabled := False,
         z_position_control_tolerance := 1/2,
         sim_dt := 1/64,
         robot_ee_desired_height := 1/4,
         ee_table_minmax := ((1/2, 3/2), (- 1/2, 1/2)),
         current_joint_pos := Some [0, 0, 0, 0, 0, 0, 0],
         current_ee_pos := Some (1, 0, 1/4),
         current_ee_pos_xy_norm := Some (- 1/2, 0) \<rparr>"

definition binary64_limits :: "float64 list \<times> float64 list" where
  "binary64_limits =
     ([f64_of_int (- 1), f64_of_int (- 1), f64_of_int (- 1), f64_of_int (- 1), f64_of_int (- 1),
       f64_of_int (- 1), f64_of_int (- 1)],
      [f64_of_int 1, f64_of_int 1, f64_of_int 1, f64_of_int 1, f64_of_int 1, f64_of_int 1,
       f64_of_int 1])"

definition binary64_proposed :: "float64 list" where
  "binary64_proposed =
     [f64_of_int 7, f64_of_int (- 4), f64_of_int 0, f64_of_int 0, f64_of_int 0, f64_of_int 0,
      f64_of_int 0]"

section \<open>Properties\<close>

subsection \<open>Normalisation and the reward functions\<close>

lemma unnormalize_normalize:
  "low \<noteq> high \<Longrightarrow> unnormalize_value (normalize_value x low high) low high = x"
  by (simp add: normalize_value_def unnormalize_value_def field_simps)

text \<open>
  Claim C8. For every \<open>x\<close> strictly inside a physical range \<open>[low, high]\<close>, un-normalising
  the normalised value gives \<open>x\<close> back, exactly (the model computes on the reals).
\<close>

theorem C8_roundtrip:
  assumes "low < x" and "x < high"
  shows "unnormalize_value (normalize_value x low high) low high = x"
proof -
  from assms have "low \<noteq> high" by simp
  then show ?thesis by (rule unnormalize_normalize)
qed

theorem C8_roundtrip_witness:
  "unnormalize_value (normalize_value (1/4) (-1) 3) (-1) 3 = 1/4"
  by (rule C8_roundtrip) simp_all

text \<open>
  Claim C10. For a puck on the table (\<open>|puck_y|\<close> at most the effective width, the puck
  radius positive and smaller than half the table width) the denominator of the bounce
  point is strictly negative, so the side point is computed and nothing is divided by zero.
\<close>

theorem C10_bounce_denominator_negative:
  assumes "0 < puck_radius" and "puck_radius < table_width / 2"
    and "\<bar>snd pos\<bar> \<le> table_width / 2 - puck_radius"
  shows "bounce_denominator table_width puck_radius pos < 0
       \<and> bounce_denominator table_width puck_radius pos \<noteq> 0
       \<and> (\<exists>w. hit_side_point table_width puck_radius pos
              = Inr (w, copysign (effective_width table_width puck_radius) (snd pos)))"
proof -
  have neg: "bounce_denominator table_width puck_radius pos < 0"
    using assms by (simp add: bounce_denominator_def effective_width_def hit_goal_def)
  then have "bounce_denominator table_width puck_radius pos \<noteq> 0" by simp
  with neg show ?thesis by (simp add: hit_side_point_def Let_def)
qed

theorem C10_bounce_denominator_negative_witness:
  "bounce_denominator 1 (1/10) (1/2, 2/5) < 0
   \<and> bounce_denominator 1 (1/10) (1/2, 2/5) \<noteq> 0
   \<and> (\<exists>w. hit_side_point 1 (1/10) (1/2, 2/5)
          = Inr (w, copysign (effective_width 1 (1/10)) (snd ((1/2, 2/5) :: vec2))))"
  by (rule C10_bounce_denominator_negative) simp_all

lemma tournament_fault_no_raise:
  assumes "0 \<le> penalty_threshold self"
  shows "\<exists>r'. tournament_fault (tournament_timer_update self mdp) mdp r = Inr r'"
proof (cases "np_sign (fst (puck_pos mdp))
              = (case tr_penalty_side self of None \<Rightarrow> np_sign (fst (puck_pos mdp)) | Some s \<Rightarrow> s)")
  case True
  then have side: "tr_penalty_side (tournament_timer_update self mdp)
                   = Some (np_sign (fst (puck_pos mdp)))"
    by (simp add: tournament_timer_update_def Let_def)
  show ?thesis
    unfolding tournament_fault_def side
    by (auto simp: np_sign_def)
next
  case False
  then have "tr_penalty_timer (tournament_timer_update self mdp) = 0"
    by (simp add: tournament_timer_update_def Let_def)
  with assms show ?thesis
    by (simp add: tournament_fault_def tournament_timer_update_def Let_def)
qed

text \<open>
  Claim C9. On an absorbing step with the puck near the table centre (\<open>|puck_x| < 0.15\<close>)
  and almost no x velocity (\<open>|puck_vel_x| < 0.025\<close>), the reward is the configured
  puck-stuck value, whatever the penalty timer says; the table is at least 0.3 long, so a
  puck that close to the centre is in no goal. On every absorbing step the call returns
  (the \<open>ValueError\<close> of the fault branch is never raised) with the timer at 0 and the side
  unset.
\<close>

theorem C9_tournament_puck_stuck:
  assumes "0 \<le> penalty_threshold self"
  shows "(\<bar>fst (puck_pos mdp)\<bar> < 0.15 \<and> \<bar>fst (puck_vel mdp)\<bar> < 0.025
            \<and> 0.15 \<le> table_length mdp / 2
          \<longrightarrow> (\<exists>self'. TournamentReward_call self mdp True
                        = Inr (self', reward_agent_cause_puck_stuck self)))
       \<and> (\<exists>self' r. TournamentReward_call self mdp True = Inr (self', r)
              \<and> tr_penalty_timer self' = 0 \<and> tr_penalty_side self' = None)"
proof -
  obtain r1 where r1: "tournament_fault (tournament_timer_update self mdp) mdp 0 = Inr r1"
    using tournament_fault_no_raise [OF assms] by blast
  have stuck: "reward_agent_cause_puck_stuck (tournament_timer_update self mdp)
               = reward_agent_cause_puck_stuck self"
    by (simp add: tournament_timer_update_def Let_def)
  show ?thesis
    using r1 stuck
    by (auto simp: TournamentReward_call_def Let_def tournament_goal_def tournament_stuck_def)
qed

theorem C9_tournament_puck_stuck_witness:
  "(\<exists>self'. TournamentReward_call
       ((TournamentReward_init 1 (- 1) (1/3) (- 1/3) (1/8))
          \<lparr>tr_penalty_timer := 14, tr_penalty_side := Some 1\<rparr>)
       \<lparr>puck_pos = (1/10, 0), puck_vel = (1/100, 0), mdp_dt = 1/50, mdp_time = 20,
        table_length = 1.948, table_goal_width = 1/4\<rparr> True = Inr (self', 1/8))"
proof -
  let ?self = "(TournamentReward_init 1 (- 1) (1/3) (- 1/3) (1/8))
                 \<lparr>tr_penalty_timer := 14, tr_penalty_side := Some 1\<rparr>"
  let ?mdp = "\<lparr>puck_pos = (1/10, 0), puck_vel = (1/100, 0), mdp_dt = 1/50, mdp_time = 20,
               table_length = 1.948, table_goal_width = 1/4\<rparr>"
  have h: "0 \<le> penalty_threshold ?self"
    by (simp add: TournamentReward_init_def MAX_TIME_UNTIL_PENALTY_S_def)
  have p: "\<bar>fst (puck_pos ?mdp)\<bar> < 0.15 \<and> \<bar>fst (puck_vel ?mdp)\<bar> < 0.025
           \<and> 0.15 \<le> table_length ?mdp / 2"
    by simp
  have s: "reward_agent_cause_puck_stuck ?self = 1/8"
    by (simp add: TournamentReward_init_def)
  from C9_tournament_puck_stuck [OF h, of ?mdp] p
  obtain self' where "TournamentReward_call ?self ?mdp True
                      = Inr (self', reward_agent_cause_puck_stuck ?self)"
    by blast
  then show ?thesis unfolding s by blast
qed

subsection \<open>Deques\<close>

lemma length_deque_append: "length (deque_append n xs x) = min (Suc (length xs)) n"
  by (simp add: deque_append_def)

lemma set_deque_append: "set (deque_append n xs x) \<subseteq> insert x (set xs)"
  unfolding deque_append_def using set_drop_subset [of _ "xs @ [x]"] by fastforce

lemma last_deque_append: "0 < n \<Longrightarrow> last (deque_append n xs x) = x"
  by (simp add: deque_append_def)

lemma deque_append_ne: "0 < n \<Longrightarrow> deque_append n xs x \<noteq> []"
  by (simp add: deque_append_def)

lemma length_fill_deque: "length (fill_deque n xs x) = n"
proof (induction n xs x rule: fill_deque.induct)
  case (1 n xs x)
  then show ?case by (subst fill_deque.simps) auto
qed

lemma set_fill_deque: "set (fill_deque n xs x) \<subseteq> insert x (set xs)"
proof (induction n xs x rule: fill_deque.induct)
  case (1 n xs x)
  show ?case
  proof (cases "n = length xs")
    case True
    then show ?thesis by (subst fill_deque.simps) auto
  next
    case False
    with 1 have "set (fill_deque n (deque_append n xs x) x) \<subseteq> insert x (set (deque_append n xs x))"
      by simp
    with set_deque_append [of n xs x] False show ?thesis
      by (subst fill_deque.simps) auto
  qed
qed

lemma length_deque_extend:
  "length (deque_extend n xs ys) = (if ys = [] then length xs else min (length xs + length ys) n)"
  unfolding deque_extend_def
  by (induction ys arbitrary: xs) (auto simp: length_deque_append)

lemma set_deque_extend: "set (deque_extend n xs ys) \<subseteq> set xs \<union> set ys"
  unfolding deque_extend_def
proof (induction ys arbitrary: xs)
  case Nil
  then show ?case by simp
next
  case (Cons y ys)
  from Cons [of "deque_append n xs y"] set_deque_append [of n xs y]
  show ?case by auto
qed

lemma last_deque_extend: "0 < n \<Longrightarrow> ys \<noteq> [] \<Longrightarrow> last (deque_extend n xs ys) = last ys"
  unfolding deque_extend_def
proof (induction ys arbitrary: xs)
  case Nil
  then show ?case by simp
next
  case (Cons y ys)
  then show ?case by (cases ys) (auto simp: last_deque_append)
qed

lemma length_flatten2: "length (flatten2 xs) = 2 * length xs"
  by (induction xs) (auto simp: flatten2_def)

subsection \<open>Velocity limits\<close>

lemma outside_nonzero:
  "outside_vel_limit j \<Longrightarrow> fst (snd j) < 0 \<Longrightarrow> 0 < snd (snd j) \<Longrightarrow> fst j \<noteq> 0"
  by (auto simp: outside_vel_limit_def)

lemma joint_factor_range:
  assumes "outside_vel_limit j" "fst (snd j) < 0" "0 < snd (snd j)"
  shows "0 < joint_factor j \<and> joint_factor j < 1"
proof (cases "fst j > snd (snd j)")
  case True
  with assms have "0 < fst j" by simp
  with True assms show ?thesis
    by (simp add: joint_factor_def violated_limit_def field_simps)
next
  case False
  with assms have neg: "fst j < fst (snd j)" by (simp add: outside_vel_limit_def)
  with assms have "fst j < 0" by simp
  with False neg assms show ?thesis
    by (simp add: joint_factor_def violated_limit_def field_simps)
qed

lemma downscaling_loop_fold:
  assumes "\<forall>j \<in> set js. fst (snd j) < 0 \<and> 0 < snd (snd j)"
  shows "downscaling_loop f js = Inr (fold min (map joint_factor (filter outside_vel_limit js)) f)"
  using assms
proof (induction js arbitrary: f)
  case Nil
  then show ?case by simp
next
  case (Cons j js)
  obtain v lo hi where j: "j = (v, lo, hi)" by (cases j) auto
  show ?case
  proof (cases "outside_vel_limit j")
    case True
    with Cons.prems have "fst j \<noteq> 0" using outside_nonzero [of j] by simp
    with True Cons show ?thesis
      by (simp add: j joint_factor_def violated_limit_def min.commute)
  next
    case False
    with Cons show ?thesis by (simp add: j)
  qed
qed

lemma scaled_within_limits:
  assumes lim: "lo < 0" "0 < hi"
    and f: "0 < f" "f \<le> 1"
    and le: "outside_vel_limit (v, lo, hi) \<Longrightarrow> f \<le> joint_factor (v, lo, hi)"
  shows "lo \<le> v * f \<and> v * f \<le> hi"
proof (cases "outside_vel_limit (v, lo, hi)")
  case False
  then have in_lim: "lo \<le> v" "v \<le> hi" by (auto simp: outside_vel_limit_def)
  show ?thesis
  proof (cases "0 \<le> v")
    case True
    then have "0 \<le> v * f" "v * f \<le> v" using f by (simp_all add: mult_left_le)
    with in_lim lim show ?thesis by simp
  next
    case False
    then have "v \<le> 0" by simp
    then have "v * f \<le> 0" using f by (simp add: mult_nonpos_nonneg)
    moreover have "v \<le> v * f"
    proof -
      from \<open>v \<le> 0\<close> f have "v * 1 \<le> v * f" by (intro mult_left_mono_neg) simp_all
      then show ?thesis by simp
    qed
    ultimately have "v * f \<le> 0" "v \<le> v * f" by simp_all
    with in_lim lim show ?thesis by simp
  qed
next
  case True
  note out = this
  from le [OF out] have fle: "f \<le> joint_factor (v, lo, hi)" .
  show ?thesis
  proof (cases "v > hi")
    case True
    with lim have vpos: "0 < v" by simp
    from True have jf: "joint_factor (v, lo, hi) = hi / v"
      using vpos by (simp add: joint_factor_def violated_limit_def field_simps)
    from fle jf vpos have "v * f \<le> hi" by (simp add: field_simps)
    moreover from vpos f lim have "lo \<le> v * f" by (simp add: order.strict_implies_order order_trans [of lo 0])
    ultimately show ?thesis by simp
  next
    case False
    with out have below: "v < lo" by (simp add: outside_vel_limit_def)
    with lim have vneg: "v < 0" by simp
    from False have jf: "joint_factor (v, lo, hi) = lo / v"
      using vneg by (simp add: joint_factor_def violated_limit_def field_simps)
    from fle jf vneg have "lo \<le> v * f" by (simp add: field_simps)
    moreover from vneg f have "v * f \<le> 0" by (simp add: mult_nonpos_nonneg)
    with lim have "v * f \<le> hi" by simp
    ultimately show ?thesis by simp
  qed
qed

lemma binding_joint:
  assumes "outside_vel_limit j" "fst (snd j) < 0" "0 < snd (snd j)"
  shows "fst j * joint_factor j = violated_limit j"
proof -
  from assms have "fst j \<noteq> 0" by (rule outside_nonzero)
  then show ?thesis by (simp add: joint_factor_def field_simps)
qed

lemma fold_min_Min: "fold min xs (f::real) = Min (set (f # xs))"
  using Min.set_eq_fold [of f xs] by simp

lemma straddle_zip:
  assumes "limits_straddle_zero limits"
  shows "\<forall>j \<in> set (zip v (zip (fst limits) (snd limits))). fst (snd j) < 0 \<and> 0 < snd (snd j)"
proof
  fix j assume "j \<in> set (zip v (zip (fst limits) (snd limits)))"
  then have "snd j \<in> set (zip (fst limits) (snd limits))"
    by (metis prod.collapse set_zip_rightD)
  then have "fst (snd j) \<in> set (fst limits)" "snd (snd j) \<in> set (snd limits)"
    by (metis prod.collapse set_zip_leftD, metis prod.collapse set_zip_rightD)
  with assms show "fst (snd j) < 0 \<and> 0 < snd (snd j)"
    by (auto simp: limits_straddle_zero_def list_all_iff)
qed

lemma limit_joint_vel_scaling:
  assumes straddle: "limits_straddle_zero limits"
    and len: "length (fst limits) = length joint_vel" "length (snd limits) = length joint_vel"
  shows "\<exists>f. limit_joint_vel limits joint_vel = Inr (map (\<lambda>v. v * f) joint_vel)
           \<and> (\<forall>i < length joint_vel.
                 fst limits ! i \<le> joint_vel ! i * f \<and> joint_vel ! i * f \<le> snd limits ! i)
           \<and> (offending_factors limits joint_vel = [] \<longrightarrow> f = 1)
           \<and> (offending_factors limits joint_vel \<noteq> [] \<longrightarrow>
                 f = Min (set (offending_factors limits joint_vel))
                 \<and> (\<exists>i < length joint_vel.
                       outside_vel_limit (joint_vel ! i, fst limits ! i, snd limits ! i)
                       \<and> joint_vel ! i * f
                           = violated_limit (joint_vel ! i, fst limits ! i, snd limits ! i)))"
proof -
  let ?js = "zip joint_vel (zip (fst limits) (snd limits))"
  let ?off = "filter outside_vel_limit ?js"
  let ?fs = "map joint_factor ?off"
  have fs: "offending_factors limits joint_vel = ?fs"
    by (simp add: offending_factors_def joint_factor_def)
  have lims: "\<forall>j \<in> set ?js. fst (snd j) < 0 \<and> 0 < snd (snd j)"
    using straddle by (rule straddle_zip)
  have nth: "\<And>i. i < length joint_vel \<Longrightarrow> ?js ! i = (joint_vel ! i, fst limits ! i, snd limits ! i)"
    using len by simp
  have lenjs: "length ?js = length joint_vel" using len by simp
  have range: "\<forall>x \<in> set ?fs. 0 < x \<and> x < 1"
    using lims joint_factor_range by auto
  define f where "f = Min (set (1 # ?fs))"
  have fpos: "0 < f" and fle1: "f \<le> 1"
    using range by (auto simp: f_def)
  have fle: "\<And>j. j \<in> set ?js \<Longrightarrow> outside_vel_limit j \<Longrightarrow> f \<le> joint_factor j"
    unfolding f_def by (intro Min_le) auto
  have loop: "downscaling_loop 1 ?js = Inr f"
    using downscaling_loop_fold [OF lims, of 1] by (simp add: f_def fold_min_Min)
  have within: "\<forall>i < length joint_vel.
                 fst limits ! i \<le> joint_vel ! i * f \<and> joint_vel ! i * f \<le> snd limits ! i"
  proof (intro allI impI)
    fix i assume i: "i < length joint_vel"
    then have mem: "?js ! i \<in> set ?js" using lenjs by (metis nth_mem)
    with lims have "fst (snd (?js ! i)) < 0 \<and> 0 < snd (snd (?js ! i))" by blast
    then have l: "fst limits ! i < 0" "0 < snd limits ! i" using nth [OF i] by simp_all
    have "outside_vel_limit (joint_vel ! i, fst limits ! i, snd limits ! i)
          \<Longrightarrow> f \<le> joint_factor (joint_vel ! i, fst limits ! i, snd limits ! i)"
      using fle [OF mem] nth [OF i] by simp
    with l fpos fle1 show "fst limits ! i \<le> joint_vel ! i * f \<and> joint_vel ! i * f \<le> snd limits ! i"
      by (intro scaled_within_limits) simp_all
  qed
  show ?thesis
  proof (cases "?off = []")
    case True
    then have f1: "f = 1" by (simp add: f_def)
    from True have "\<not> list_ex outside_vel_limit ?js"
      by (auto simp: list_ex_iff filter_empty_conv)
    then have "limit_joint_vel limits joint_vel = Inr joint_vel"
      using len by (simp add: limit_joint_vel_def Let_def)
    with f1 within True fs show ?thesis
      by (intro exI [of _ f]) simp
  next
    case False
    then have ex: "list_ex outside_vel_limit ?js"
      by (auto simp: list_ex_iff filter_empty_conv)
    then have res: "limit_joint_vel limits joint_vel = Inr (map (\<lambda>v. v * f) joint_vel)"
      using len loop by (simp add: limit_joint_vel_def Let_def)
    from False have ne: "?fs \<noteq> []" by simp
    have fmin: "f = Min (set ?fs)"
    proof -
      from ne have sne: "set ?fs \<noteq> {}" unfolding set_empty .
      have "Min (insert 1 (set ?fs)) = min 1 (Min (set ?fs))"
        by (rule Min_insert [OF finite_set sne])
      then have "Min (set (1 # ?fs)) = min 1 (Min (set ?fs))"
        by simp
      moreover have "Min (set ?fs) \<in> set ?fs" by (rule Min_in [OF finite_set sne])
      then have "Min (set ?fs) < 1" using range by blast
      ultimately show ?thesis by (simp add: f_def)
    qed
    from ne have "set ?fs \<noteq> {}" unfolding set_empty .
    then have "Min (set ?fs) \<in> set ?fs" by (rule Min_in [OF finite_set])
    then obtain j where j: "j \<in> set ?off" "joint_factor j = f" using fmin by auto
    then have jin: "j \<in> set ?js" and jout: "outside_vel_limit j" by auto
    from jin obtain i where i: "i < length ?js" "?js ! i = j" by (auto simp: in_set_conv_nth)
    then have i': "i < length joint_vel" using lenjs by simp
    from lims jin have "fst (snd j) < 0" "0 < snd (snd j)" by auto
    with jout have "fst j * joint_factor j = violated_limit j" by (rule binding_joint)
    with j i nth [OF i'] jout
    have "outside_vel_limit (joint_vel ! i, fst limits ! i, snd limits ! i)
          \<and> joint_vel ! i * f = violated_limit (joint_vel ! i, fst limits ! i, snd limits ! i)"
      by auto
    with i' have bind: "\<exists>i < length joint_vel.
                       outside_vel_limit (joint_vel ! i, fst limits ! i, snd limits ! i)
                       \<and> joint_vel ! i * f
                           = violated_limit (joint_vel ! i, fst limits ! i, snd limits ! i)"
      by blast
    from res within fmin bind ne fs show ?thesis
      by (intro exI [of _ f]) simp
  qed
qed

subsection \<open>Weights and joint velocities\<close>

lemma filter_action_config:
  "robot_joint_vel_limit_scaled (fst (filter_action self c a)) = robot_joint_vel_limit_scaled self"
  "sim_dt (fst (filter_action self c a)) = sim_dt self"
  "z_position_control_tolerance (fst (filter_action self c a)) = z_position_control_tolerance self"
  "evaluate (fst (filter_action self c a)) = evaluate self"
  "ee_table_minmax (fst (filter_action self c a)) = ee_table_minmax self"
  "robot_ee_desired_height (fst (filter_action self c a)) = robot_ee_desired_height self"
  by (simp_all add: filter_action_def Let_def)

lemma process_raw_act_Inr:
  assumes "process_raw_act kin self rnd action = Inr (self', joint_pos, joint_vel)"
  shows "\<exists>q ee ee_xy_norm v.
           current_joint_pos self = Some q \<and> current_ee_pos self = Some ee
         \<and> current_ee_pos_xy_norm self = Some ee_xy_norm
         \<and> self' = fst (filter_action self ee_xy_norm action)
         \<and> joint_vel_raw kin self' q
              (sub3 (target_ee_pos self' rnd (snd (filter_action self ee_xy_norm action))) ee)
             = Inr v
         \<and> limit_joint_vel (robot_joint_vel_limit_scaled self) v = Inr joint_vel
         \<and> length q = length joint_vel
         \<and> joint_pos = map (\<lambda>(p, v). p + sim_dt self * v) (zip q joint_vel)"
proof -
  from assms obtain q ee c where cur: "current_joint_pos self = Some q"
      "current_ee_pos self = Some ee" "current_ee_pos_xy_norm self = Some c"
    by (auto simp: process_raw_act_def split: option.splits)
  obtain self1 t where fa: "filter_action self c action = (self1, t)" by (cases "filter_action self c action")
  from assms cur fa obtain v where
    v: "joint_vel_raw kin self1 q (sub3 (target_ee_pos self1 rnd t) ee) = Inr v"
    by (auto simp: process_raw_act_def split: sum.splits)
  from assms cur fa v obtain jv where
    jv: "limit_joint_vel (robot_joint_vel_limit_scaled self1) v = Inr jv"
    by (auto simp: process_raw_act_def split: sum.splits)
  from assms cur fa v jv have res: "length q = length jv" "self' = self1" "joint_vel = jv"
      "joint_pos = map (\<lambda>(p, v). p + sim_dt self1 * v) (zip q jv)"
    by (auto simp: process_raw_act_def split: if_splits)
  from fa have s1: "self1 = fst (filter_action self c action)" "t = snd (filter_action self c action)"
    by simp_all
  show ?thesis
    using cur v jv res unfolding s1 by (simp add: filter_action_config)
qed

lemma ik_weights_unfold:
  "ik_weights tolerance s =
     (if (fst s + fst (snd s)) / 2 = 0 \<or> snd (snd s) * tolerance = 0 then Inl NotFinite
      else if sum3 (1 / ((fst s + fst (snd s)) / 2), 1 / ((fst s + fst (snd s)) / 2),
                    1 / (snd (snd s) * tolerance)) = 0 then Inl NotFinite
      else Inr (spec_weights tolerance s))"
  unfolding ik_weights_def spec_weights_def Let_def sum3_def fst_conv snd_conv by (rule refl)

lemma sum3_spec_weights:
  assumes "sum3 (1 / ((fst s + fst (snd s)) / 2), 1 / ((fst s + fst (snd s)) / 2),
                 1 / (snd (snd s) * tolerance)) \<noteq> 0"
  shows "sum3 (spec_weights tolerance s) = 1"
proof -
  define a where "a = 1 / ((fst s + fst (snd s)) / 2)"
  define b where "b = 1 / (snd (snd s) * tolerance)"
  from assms have t: "a + a + b \<noteq> 0" unfolding a_def b_def sum3_def fst_conv snd_conv .
  have "sum3 (spec_weights tolerance s) = a / (a + a + b) + a / (a + a + b) + b / (a + a + b)"
    unfolding spec_weights_def Let_def sum3_def fst_conv snd_conv a_def b_def by (rule refl)
  also have "\<dots> = (a + a + b) / (a + a + b)" by (simp only: add_divide_distrib)
  also have "\<dots> = 1" using t by simp
  finally show ?thesis .
qed

lemma ik_weights_spec:
  assumes "ik_weights tolerance s = Inr w"
  shows "w = spec_weights tolerance s \<and> sum3 w = 1"
proof -
  from assms have nz: "sum3 (1 / ((fst s + fst (snd s)) / 2), 1 / ((fst s + fst (snd s)) / 2),
                 1 / (snd (snd s) * tolerance)) \<noteq> 0" and w: "w = spec_weights tolerance s"
    unfolding ik_weights_unfold by (simp_all only: split: if_splits, simp_all)
  from sum3_spec_weights [OF nz] w show ?thesis by simp
qed

lemma joint_vel_raw_formula:
  assumes "joint_vel_raw kin self q delta_ee = Inr v"
  shows "v = map (weighted_joint_vel (spec_weights (z_position_control_tolerance self) (jac_svd kin q))
                    delta_ee (sim_dt self)) (jac_pinv kin q)
         \<and> sum3 (spec_weights (z_position_control_tolerance self) (jac_svd kin q)) = 1"
proof -
  from assms obtain w where w: "ik_weights (z_position_control_tolerance self) (jac_svd kin q) = Inr w"
    by (auto simp: joint_vel_raw_def split: sum.splits)
  then have ws: "w = spec_weights (z_position_control_tolerance self) (jac_svd kin q)" "sum3 w = 1"
    using ik_weights_spec by blast+
  from assms w ws(2) have "v = map (\<lambda>d. d / sim_dt self)
                    (map (\<lambda>row. sum3 (mul3 row w) / 1) (map (\<lambda>row. mul3 row delta_ee) (jac_pinv kin q)))"
    by (auto simp: joint_vel_raw_def np_average_rows_def split: sum.splits if_splits)
  then have "v = map (weighted_joint_vel w delta_ee (sim_dt self)) (jac_pinv kin q)"
    by (simp add: weighted_joint_vel_def sum3_def mul3_def o_def algebra_simps)
  with ws show ?thesis by simp
qed

lemma joint_vel_raw_defined:
  assumes "0 < fst (jac_svd kin q)" "0 < fst (snd (jac_svd kin q))" "0 < snd (snd (jac_svd kin q))"
    and "0 < z_position_control_tolerance self" and "sim_dt self \<noteq> 0"
  shows "\<exists>v. joint_vel_raw kin self q delta_ee = Inr v"
proof -
  define m where "m = (fst (jac_svd kin q) + fst (snd (jac_svd kin q))) / 2"
  define z where "z = snd (snd (jac_svd kin q)) * z_position_control_tolerance self"
  from assms have pos: "0 < m" "0 < z" by (simp_all add: m_def z_def)
  then have "0 < 1 / m + 1 / m + 1 / z" by (intro add_pos_pos) simp_all
  then have t: "sum3 (1 / m, 1 / m, 1 / z) \<noteq> 0" unfolding sum3_def fst_conv snd_conv by simp
  from pos have mz: "\<not> (m = 0 \<or> z = 0)" by simp
  have w: "ik_weights (z_position_control_tolerance self) (jac_svd kin q)
           = Inr (spec_weights (z_position_control_tolerance self) (jac_svd kin q))"
    unfolding ik_weights_unfold using mz t unfolding m_def z_def by (simp only: if_False)
  have "sum3 (spec_weights (z_position_control_tolerance self) (jac_svd kin q)) = 1"
    using t unfolding m_def z_def by (rule sum3_spec_weights)
  with w assms(5) show ?thesis
    by (simp add: joint_vel_raw_def np_average_rows_def)
qed

subsection \<open>Bounds of the features and the histories\<close>

lemma same_config_refl: "same_config a a"
  by (simp add: same_config_def)

lemma same_config_trans: "same_config a b \<Longrightarrow> same_config b c \<Longrightarrow> same_config a c"
  by (simp add: same_config_def)

lemma in_unit_clip: "in_unit (clip x (- 1) 1)"
  by (simp add: in_unit_def clip_def)

lemma in_unit2_norm_clip_xy: "in_unit2 (norm_clip_xy mm p)"
  by (simp add: in_unit2_def norm_clip_xy_def in_unit_clip)

lemma in_unit_norm_clip_joints: "list_all in_unit (norm_clip_joints limits q)"
  by (auto simp: norm_clip_joints_def list_all_iff in_unit_clip)

lemma length_norm_clip_joints:
  "length (fst limits) = length q \<Longrightarrow> length (snd limits) = length q
   \<Longrightarrow> length (norm_clip_joints limits q) = length q"
  by (simp add: norm_clip_joints_def)

lemma in_unit_clip_all: "list_all in_unit (clip_all v)"
  by (simp add: clip_all_def list_all_iff in_unit_clip)

lemma length_clip_all: "length (clip_all v) = length v"
  by (simp add: clip_all_def)

lemma in_unit_flatten2: "list_all in_unit2 xs \<Longrightarrow> list_all in_unit (flatten2 xs)"
  by (induction xs) (auto simp: flatten2_def in_unit2_def)

lemma features_in_unit_extract: "features_in_unit (extract_features kin self rnd obs)"
  by (simp add: features_in_unit_def extract_features_def in_unit2_norm_clip_xy
      in_unit_norm_clip_joints, simp add: in_unit2_def in_unit_def)

lemma list_all_deque_append:
  "list_all P xs \<Longrightarrow> P x \<Longrightarrow> list_all P (deque_append n xs x)"
  using set_deque_append [of n xs x] by (auto simp: list_all_iff)

lemma list_all_fill_deque:
  "list_all P xs \<Longrightarrow> P x \<Longrightarrow> list_all P (fill_deque n xs x)"
  using set_fill_deque [of n xs x] by (auto simp: list_all_iff)

lemma list_all_stack_fill:
  "list_all P xs \<Longrightarrow> P x \<Longrightarrow> list_all P (stack_fill n xs x)"
  by (simp add: stack_fill_def list_all_fill_deque list_all_deque_append)

lemma length_stack_fill: "length (stack_fill n xs x) = n"
  by (simp add: stack_fill_def length_fill_deque)

lemma list_all_deque_extend:
  "list_all P xs \<Longrightarrow> P x \<Longrightarrow> list_all P (deque_extend n xs (replicate k x))"
  using set_deque_extend [of n xs "replicate k x"] by (auto simp: list_all_iff)

lemma length_deque_extend_replicate:
  "n \<le> k \<Longrightarrow> 0 < n \<Longrightarrow> length (deque_extend n xs (replicate k x)) = n"
  by (simp add: length_deque_extend)

lemma list_all_stack_episode:
  "list_all P xs \<Longrightarrow> P x \<Longrightarrow> list_all P (stack_episode new k n xs x)"
  by (simp add: stack_episode_def list_all_deque_extend list_all_deque_append)

lemma length_stack_episode:
  "n \<le> k \<Longrightarrow> 0 < n \<Longrightarrow> (\<not> new \<longrightarrow> length xs = n) \<Longrightarrow> length (stack_episode new k n xs x) = n"
  by (simp add: stack_episode_def length_deque_extend_replicate length_deque_append)

subsection \<open>One tick of each scheme\<close>

lemma signed_penalty_timer_shape:
  "\<exists>a b. fst (signed_penalty_timer self x) = self\<lparr>penalty_side := a, penalty_timer := b\<rparr>"
proof (cases "penalty_side self")
  case None
  then have "fst (signed_penalty_timer self x)
             = self\<lparr>penalty_side := Some (np_sign x), penalty_timer := penalty_timer self\<rparr>"
    by (simp add: signed_penalty_timer_def)
  then show ?thesis by blast
next
  case (Some s)
  show ?thesis
  proof (cases "np_sign x = s")
    case True
    with Some have "fst (signed_penalty_timer self x)
             = self\<lparr>penalty_side := Some s, penalty_timer := penalty_timer self + sim_dt self\<rparr>"
      by (simp add: signed_penalty_timer_def)
    then show ?thesis by blast
  next
    case False
    with Some have "fst (signed_penalty_timer self x)
             = self\<lparr>penalty_side := Some (s * (- 1)), penalty_timer := 0\<rparr>"
      by (simp add: signed_penalty_timer_def)
    then show ?thesis by blast
  qed
qed

lemma unsigned_penalty_timer_shape:
  "\<exists>b. fst (unsigned_penalty_timer self x) = self\<lparr>penalty_timer := b\<rparr>"
  by (cases "x < 0") (auto simp: unsigned_penalty_timer_def)

lemma obs_scheme2_post:
  assumes "scheme self = 2" "buffers_in_unit self" "features_in_unit f"
  shows "tick_post self f (fst (obs_scheme2 self f)) (snd (obs_scheme2 self f))"
proof -
  let ?s1 = "stack_fill_all self f"
  obtain b where pt: "fst (unsigned_penalty_timer ?s1 (fst (puck_pos_xy_norm f))) = ?s1\<lparr>penalty_timer := b\<rparr>"
    using unsigned_penalty_timer_shape by blast
  obtain t where r: "unsigned_penalty_timer ?s1 (fst (puck_pos_xy_norm f)) = (?s1\<lparr>penalty_timer := b\<rparr>, t)"
    using pt by (cases "unsigned_penalty_timer ?s1 (fst (puck_pos_xy_norm f))") simp
  have res: "obs_scheme2 self f
             = (?s1\<lparr>penalty_timer := b\<rparr>, clip_all (t # stacked_obs_flat (?s1\<lparr>penalty_timer := b\<rparr>)))"
    by (simp add: obs_scheme2_def Let_def r)
  show ?thesis
    using assms unfolding res tick_post_def
    by (simp add: stack_fill_all_def same_config_def buffers_full_def buffers_in_unit_def
        features_in_unit_def length_stack_fill list_all_stack_fill in_unit_clip_all
        length_clip_all stacked_obs_flat_def length_flatten2 observation_space_def)
qed

lemma obs_scheme34_post:
  assumes "scheme self = 3 \<or> scheme self = 4" "buffers_in_unit self" "features_in_unit f"
  shows "tick_post self f (fst (obs_scheme34 self f)) (snd (obs_scheme34 self f))"
proof -
  let ?s1 = "stack_fill_all self f"
  obtain a b where pt: "fst (signed_penalty_timer ?s1 (fst (puck_pos_xy_norm f)))
                        = ?s1\<lparr>penalty_side := a, penalty_timer := b\<rparr>"
    using signed_penalty_timer_shape by blast
  obtain t where r: "signed_penalty_timer ?s1 (fst (puck_pos_xy_norm f))
                     = (?s1\<lparr>penalty_side := a, penalty_timer := b\<rparr>, t)"
    using pt by (cases "signed_penalty_timer ?s1 (fst (puck_pos_xy_norm f))") simp
  have res: "obs_scheme34 self f
             = (?s1\<lparr>penalty_side := a, penalty_timer := b\<rparr>,
                clip_all (t # stacked_obs_flat (?s1\<lparr>penalty_side := a, penalty_timer := b\<rparr>)))"
    by (simp add: obs_scheme34_def Let_def r)
  show ?thesis
    using assms unfolding res tick_post_def
    by (auto simp: stack_fill_all_def same_config_def buffers_full_def buffers_in_unit_def
        features_in_unit_def length_stack_fill list_all_stack_fill in_unit_clip_all
        length_clip_all stacked_obs_flat_def length_flatten2 observation_space_def)
qed

lemma stack_episode_all_post:
  assumes depths: "n_stacked_obs self = 4" "n_stacked_obs_participant_ee_pos self = 4"
      "n_stacked_obs_opponent_ee_pos self = 4" "n_stacked_obs_puck_pos self = 4"
    and sch: "scheme self \<noteq> 7"
    and full: "\<not> new_episode self \<longrightarrow> buffers_full self"
    and unit: "buffers_in_unit self" "features_in_unit f"
  shows "same_config self (stack_episode_all self f)
       \<and> buffers_full (stack_episode_all self f)
       \<and> buffers_in_unit (stack_episode_all self f)
       \<and> length (stacked_obs_flat (stack_episode_all self f)) = 24
       \<and> list_all in_unit (stacked_obs_flat (stack_episode_all self f))"
  using assms
  by (simp add: stack_episode_all_def same_config_def buffers_full_def buffers_in_unit_def
      features_in_unit_def length_stack_episode list_all_stack_episode
      stacked_obs_flat_def length_flatten2 in_unit_flatten2)

lemma obs_scheme5_post:
  assumes "scheme self = 5" "agent_inv self" "features_in_unit f"
  shows "tick_post self f (fst (obs_scheme5 self f)) (snd (obs_scheme5 self f))"
proof -
  obtain a b where pt: "fst (signed_penalty_timer self (fst (puck_pos_xy_norm f)))
                        = self\<lparr>penalty_side := a, penalty_timer := b\<rparr>"
    using signed_penalty_timer_shape by blast
  let ?s1 = "self\<lparr>penalty_side := a, penalty_timer := b\<rparr>"
  obtain t where r: "signed_penalty_timer self (fst (puck_pos_xy_norm f)) = (?s1, t)"
    using pt by (cases "signed_penalty_timer self (fst (puck_pos_xy_norm f))") simp
  have res: "obs_scheme5 self f
             = (stack_episode_all ?s1 f, clip t (- 1) 1 # stacked_obs_flat (stack_episode_all ?s1 f))"
    by (simp add: obs_scheme5_def Let_def r)
  from assms have pre: "n_stacked_obs ?s1 = 4" "n_stacked_obs_participant_ee_pos ?s1 = 4"
      "n_stacked_obs_opponent_ee_pos ?s1 = 4" "n_stacked_obs_puck_pos ?s1 = 4"
      "scheme ?s1 \<noteq> 7" "\<not> new_episode ?s1 \<longrightarrow> buffers_full ?s1" "buffers_in_unit ?s1"
    by (simp_all add: agent_inv_def scheme_depths_def buffers_full_def buffers_in_unit_def)
  from stack_episode_all_post [OF pre assms(3)]
  have post: "same_config ?s1 (stack_episode_all ?s1 f)"
      "buffers_full (stack_episode_all ?s1 f)" "buffers_in_unit (stack_episode_all ?s1 f)"
      "length (stacked_obs_flat (stack_episode_all ?s1 f)) = 24"
      "list_all in_unit (stacked_obs_flat (stack_episode_all ?s1 f))"
    by simp_all
  have sc: "same_config self (stack_episode_all ?s1 f)"
    using post(1) by (simp add: same_config_def)
  have os: "observation_space (stack_episode_all ?s1 f) = 25"
    using sc assms pre by (simp add: observation_space_def same_config_def)
  show ?thesis
    unfolding res tick_post_def using sc post os by (simp add: in_unit_clip)
qed

lemma obs_scheme6_post:
  assumes "scheme self = 6" "agent_inv self" "features_in_unit f"
  shows "tick_post self f (fst (obs_scheme6 self f)) (snd (obs_scheme6 self f))"
proof -
  obtain a b where pt: "fst (signed_penalty_timer self (fst (puck_pos_xy_norm f)))
                        = self\<lparr>penalty_side := a, penalty_timer := b\<rparr>"
    using signed_penalty_timer_shape by blast
  let ?s1 = "self\<lparr>penalty_side := a, penalty_timer := b\<rparr>"
  obtain t where r: "signed_penalty_timer self (fst (puck_pos_xy_norm f)) = (?s1, t)"
    using pt by (cases "signed_penalty_timer self (fst (puck_pos_xy_norm f))") simp
  have res: "obs_scheme6 self f
             = (stack_episode_all ?s1 f,
                clip t (- 1) 1 # joint_pos_norm f @ stacked_obs_flat (stack_episode_all ?s1 f))"
    by (simp add: obs_scheme6_def Let_def r)
  from assms have pre: "n_stacked_obs ?s1 = 4" "n_stacked_obs_participant_ee_pos ?s1 = 4"
      "n_stacked_obs_opponent_ee_pos ?s1 = 4" "n_stacked_obs_puck_pos ?s1 = 4"
      "scheme ?s1 \<noteq> 7" "\<not> new_episode ?s1 \<longrightarrow> buffers_full ?s1" "buffers_in_unit ?s1"
    by (simp_all add: agent_inv_def scheme_depths_def buffers_full_def buffers_in_unit_def)
  from stack_episode_all_post [OF pre assms(3)]
  have post: "same_config ?s1 (stack_episode_all ?s1 f)"
      "buffers_full (stack_episode_all ?s1 f)" "buffers_in_unit (stack_episode_all ?s1 f)"
      "length (stacked_obs_flat (stack_episode_all ?s1 f)) = 24"
      "list_all in_unit (stacked_obs_flat (stack_episode_all ?s1 f))"
    by simp_all
  have sc: "same_config self (stack_episode_all ?s1 f)"
    using post(1) by (simp add: same_config_def)
  have os: "observation_space (stack_episode_all ?s1 f) = 32"
    using sc assms pre by (simp add: observation_space_def same_config_def)
  have ju: "list_all in_unit (joint_pos_norm f)"
    using assms(3) by (simp add: features_in_unit_def)
  show ?thesis
    unfolding res tick_post_def using sc post os ju assms(1) by (simp add: in_unit_clip)
qed

lemma push_puck_keep:
  "(push_puck self p r)\<lparr>lose_tracking_n_steps_remaining := lose_tracking_n_steps_remaining self,
                            lose_tracking_probability := lose_tracking_probability self\<rparr>
   = push_puck self p r"
  by (simp add: push_puck_def)

lemma track_puck_shape:
  assumes "track_puck self rnd f = Inr s1"
  shows "\<exists>p r n pr.
           s1 = (push_puck self p r)\<lparr>lose_tracking_n_steps_remaining := n,
                                       lose_tracking_probability := pr\<rparr>
         \<and> ((p = puck_pos_xy_norm f \<and> r = puck_rot_yaw_norm f)
            \<or> (\<not> evaluate self \<and> stacked_obs_puck_pos self \<noteq> []
                \<and> stacked_obs_puck_rot self \<noteq> []
                \<and> p = last (stacked_obs_puck_pos self) \<and> r = last (stacked_obs_puck_rot self)))"
proof (cases "evaluate self")
  case True
  with assms have "s1 = push_puck self (puck_pos_xy_norm f) (puck_rot_yaw_norm f)"
    by (simp add: track_puck_def)
  then have "s1 = (push_puck self (puck_pos_xy_norm f) (puck_rot_yaw_norm f))
                     \<lparr>lose_tracking_n_steps_remaining := lose_tracking_n_steps_remaining self,
                      lose_tracking_probability := lose_tracking_probability self\<rparr>"
    by (simp only: push_puck_keep)
  then show ?thesis by blast
next
  case False
  note train = this
  show ?thesis
  proof (cases "lose_tracking_n_steps_remaining self > 0")
    case True
    with assms train have ne: "stacked_obs_puck_pos self \<noteq> []" "stacked_obs_puck_rot self \<noteq> []"
      by (auto simp: track_puck_def split: if_splits)
    with assms train True have "s1 = (push_puck self (last (stacked_obs_puck_pos self))
                               (last (stacked_obs_puck_rot self)))
                     \<lparr>lose_tracking_n_steps_remaining := lose_tracking_n_steps_remaining self - 1\<rparr>"
      by (simp add: track_puck_def)
    then have "s1 = (push_puck self (last (stacked_obs_puck_pos self))
                               (last (stacked_obs_puck_rot self)))
                     \<lparr>lose_tracking_n_steps_remaining := lose_tracking_n_steps_remaining self - 1,
                      lose_tracking_probability := lose_tracking_probability self\<rparr>"
      by (simp add: push_puck_def)
    with ne train show ?thesis by blast
  next
    case False
    let ?s = "push_puck self (puck_pos_xy_norm f) (puck_rot_yaw_norm f)"
    show ?thesis
    proof (cases "rand_uniform rnd < lose_tracking_probability ?s")
      case True
      with assms train False have "s1 = ?s\<lparr>lose_tracking_n_steps_remaining := rand_int rnd,
                                              lose_tracking_probability := 0\<rparr>"
        by (auto simp: track_puck_def Let_def split: if_splits)
      then show ?thesis by blast
    next
      case nt: False
      with assms train False have "s1 = ?s\<lparr>lose_tracking_probability :=
                                                lose_tracking_probability ?s
                                                + loss_of_tracking_prob_inc_per_step ?s\<rparr>"
        by (auto simp: track_puck_def Let_def split: if_splits)
      then have "s1 = ?s\<lparr>lose_tracking_n_steps_remaining :=
                                                lose_tracking_n_steps_remaining self,
                                              lose_tracking_probability :=
                                                lose_tracking_probability ?s
                                                + loss_of_tracking_prob_inc_per_step ?s\<rparr>"
        by (simp add: push_puck_def)
      then show ?thesis by blast
    qed
  qed
qed

lemma track_puck_defined:
  assumes "evaluate self \<or> loss_of_tracking_min_steps self < loss_of_tracking_max_steps self"
    and "stacked_obs_puck_pos self \<noteq> []" "stacked_obs_puck_rot self \<noteq> []"
  shows "\<exists>s1. track_puck self rnd f = Inr s1"
  using assms by (auto simp: track_puck_def Let_def push_puck_def)

lemma track_puck_post:
  assumes sch: "scheme self = 7" and inv: "agent_inv self" and ne: "\<not> new_episode self"
    and f: "features_in_unit f" and res: "track_puck self rnd f = Inr s1"
  shows "same_config self s1 \<and> buffers_full s1 \<and> buffers_in_unit s1 \<and> \<not> new_episode s1"
proof -
  from track_puck_shape [OF res] obtain p r n pr where
    s1: "s1 = (push_puck self p r)\<lparr>lose_tracking_n_steps_remaining := n,
                                     lose_tracking_probability := pr\<rparr>"
    and pr: "(p = puck_pos_xy_norm f \<and> r = puck_rot_yaw_norm f)
            \<or> (stacked_obs_puck_pos self \<noteq> [] \<and> stacked_obs_puck_rot self \<noteq> []
                \<and> p = last (stacked_obs_puck_pos self) \<and> r = last (stacked_obs_puck_rot self))"
    by blast
  from inv ne sch have full: "buffers_full self" and unit: "buffers_in_unit self"
    by (simp_all add: agent_inv_def)
  from unit sch have u: "list_all in_unit2 (stacked_obs_puck_pos self)"
      "list_all in_unit2 (stacked_obs_puck_rot self)"
    by (simp_all add: buffers_in_unit_def)
  from pr u f have pu: "in_unit2 p" "in_unit2 r"
    by (auto simp: features_in_unit_def list_all_iff)
  show ?thesis
    using full unit sch ne pu unfolding s1
    by (simp add: push_puck_def same_config_def buffers_full_def buffers_in_unit_def
        length_deque_append list_all_deque_append)
qed

lemma stack_scheme7_post:
  assumes sch: "scheme self = 7" and inv: "agent_inv self" and f: "features_in_unit f"
    and res: "stack_scheme7 self rnd f = Inr s2"
  shows "same_config self s2 \<and> buffers_full s2 \<and> buffers_in_unit s2 \<and> \<not> new_episode s2"
proof (cases "new_episode self")
  case True
  from inv sch have d: "n_stacked_obs_participant_ee_pos self = 2"
      "n_stacked_obs_opponent_ee_pos self = 2" "n_stacked_obs_puck_pos self = 10"
      "n_stacked_obs_puck_rot self = 2"
    by (simp_all add: agent_inv_def scheme_depths_def)
  from inv have unit: "buffers_in_unit self" by (simp add: agent_inv_def)
  from res True have s2: "s2 = self\<lparr> stacked_obs_puck_pos :=
                       deque_extend (n_stacked_obs_puck_pos self) (stacked_obs_puck_pos self)
                         (replicate (n_stacked_obs_puck_pos self) (puck_pos_xy_norm f)),
                     stacked_obs_puck_rot :=
                       deque_extend (n_stacked_obs_puck_rot self) (stacked_obs_puck_rot self)
                         (replicate (n_stacked_obs_puck_rot self) (puck_rot_yaw_norm f)),
                     stacked_obs_participant_ee_pos :=
                       deque_extend (n_stacked_obs_participant_ee_pos self)
                         (stacked_obs_participant_ee_pos self)
                         (replicate (n_stacked_obs_participant_ee_pos self) (ee_pos_xy_norm f)),
                     stacked_obs_opponent_ee_pos :=
                       deque_extend (n_stacked_obs_opponent_ee_pos self)
                         (stacked_obs_opponent_ee_pos self)
                         (replicate (n_stacked_obs_opponent_ee_pos self)
                            (opponent_ee_pos_xy_norm f)),
                     new_episode := False \<rparr>"
    by (simp add: stack_scheme7_def)
  show ?thesis
    using unit sch f unfolding s2
    by (simp add: same_config_def buffers_full_def buffers_in_unit_def features_in_unit_def
        length_deque_extend_replicate list_all_deque_extend d)
next
  case False
  with res obtain s1 where s1: "track_puck self rnd f = Inr s1"
    and s2: "s2 = s1\<lparr> stacked_obs_participant_ee_pos :=
                              deque_append (n_stacked_obs_participant_ee_pos s1)
                                (stacked_obs_participant_ee_pos s1) (ee_pos_xy_norm f),
                            stacked_obs_opponent_ee_pos :=
                              deque_append (n_stacked_obs_opponent_ee_pos s1)
                                (stacked_obs_opponent_ee_pos s1)
                                (opponent_ee_pos_xy_norm f) \<rparr>"
    by (auto simp: stack_scheme7_def split: sum.splits)
  from track_puck_post [OF sch inv False f s1]
  have p1: "same_config self s1" "buffers_full s1" "buffers_in_unit s1" "\<not> new_episode s1"
    by simp_all
  show ?thesis
    using p1 f unfolding s2
    by (simp add: same_config_def buffers_full_def buffers_in_unit_def features_in_unit_def
        length_deque_append list_all_deque_append)
qed

lemma stack_scheme7_defined:
  assumes sch: "scheme self = 7" and inv: "agent_inv self"
    and ok: "evaluate self \<or> loss_of_tracking_min_steps self < loss_of_tracking_max_steps self"
  shows "\<exists>s2. stack_scheme7 self rnd f = Inr s2"
proof (cases "new_episode self")
  case True
  then show ?thesis by (simp add: stack_scheme7_def)
next
  case False
  with inv sch have "buffers_full self" "n_stacked_obs_puck_pos self = 10"
      "n_stacked_obs_puck_rot self = 2"
    by (simp_all add: agent_inv_def scheme_depths_def)
  with sch have "stacked_obs_puck_pos self \<noteq> []" "stacked_obs_puck_rot self \<noteq> []"
    by (auto simp: buffers_full_def)
  from track_puck_defined [OF ok this] obtain s1 where "track_puck self rnd f = Inr s1" by blast
  with False show ?thesis by (simp add: stack_scheme7_def)
qed

lemma stack_scheme7_not_assertion:
  "stack_scheme7 self rnd f \<noteq> Inl AssertionError"
  by (simp add: stack_scheme7_def track_puck_def Let_def split: sum.splits)

lemma obs_scheme7_unfold:
  "\<exists>a b t. obs_scheme7 self rnd f
     = (case stack_scheme7 (self\<lparr>penalty_side := a, penalty_timer := b\<rparr>) rnd f of
          Inl e \<Rightarrow> Inl e
        | Inr self2 \<Rightarrow>
             Inr (self2,
                  clip t (- 1) 1 # joint_pos_norm f
                  @ flatten2 (stacked_obs_puck_pos self2)
                  @ flatten2 (stacked_obs_puck_rot self2)
                  @ flatten2 (stacked_obs_participant_ee_pos self2)
                  @ flatten2 (stacked_obs_opponent_ee_pos self2)))"
proof -
  obtain a b where pt: "fst (signed_penalty_timer self (fst (puck_pos_xy_norm f)))
                        = self\<lparr>penalty_side := a, penalty_timer := b\<rparr>"
    using signed_penalty_timer_shape by blast
  obtain t where r: "signed_penalty_timer self (fst (puck_pos_xy_norm f))
                     = (self\<lparr>penalty_side := a, penalty_timer := b\<rparr>, t)"
    using pt by (cases "signed_penalty_timer self (fst (puck_pos_xy_norm f))") simp
  show ?thesis
    by (intro exI [of _ a] exI [of _ b] exI [of _ t]) (simp add: obs_scheme7_def Let_def r)
qed

lemma obs_scheme7_post:
  assumes sch: "scheme self = 7" and inv: "agent_inv self" and f: "features_in_unit f"
    and res: "obs_scheme7 self rnd f = Inr (s2, out)"
  shows "tick_post self f s2 out \<and> \<not> new_episode s2"
proof -
  from obs_scheme7_unfold [of self rnd f] obtain a b t where
    unf: "obs_scheme7 self rnd f
     = (case stack_scheme7 (self\<lparr>penalty_side := a, penalty_timer := b\<rparr>) rnd f of
          Inl e \<Rightarrow> Inl e
        | Inr self2 \<Rightarrow>
             Inr (self2,
                  clip t (- 1) 1 # joint_pos_norm f
                  @ flatten2 (stacked_obs_puck_pos self2)
                  @ flatten2 (stacked_obs_puck_rot self2)
                  @ flatten2 (stacked_obs_participant_ee_pos self2)
                  @ flatten2 (stacked_obs_opponent_ee_pos self2)))"
    by blast
  let ?s1 = "self\<lparr>penalty_side := a, penalty_timer := b\<rparr>"
  from res unf have st: "stack_scheme7 ?s1 rnd f = Inr s2"
    and out: "out = clip t (- 1) 1 # joint_pos_norm f
                  @ flatten2 (stacked_obs_puck_pos s2)
                  @ flatten2 (stacked_obs_puck_rot s2)
                  @ flatten2 (stacked_obs_participant_ee_pos s2)
                  @ flatten2 (stacked_obs_opponent_ee_pos s2)"
    by (auto split: sum.splits)
  from sch inv have pre: "scheme ?s1 = 7" "agent_inv ?s1"
    by (simp_all add: agent_inv_def scheme_depths_def buffers_full_def buffers_in_unit_def)
  from stack_scheme7_post [OF pre f st]
  have p: "same_config ?s1 s2" "buffers_full s2" "buffers_in_unit s2" "\<not> new_episode s2"
    by simp_all
  then have sc: "same_config self s2" by (simp add: same_config_def)
  from sc sch have sch2: "scheme s2 = 7" by (simp add: same_config_def)
  from inv sch sc have d: "n_stacked_obs_participant_ee_pos s2 = 2"
      "n_stacked_obs_opponent_ee_pos s2 = 2" "n_stacked_obs_puck_pos s2 = 10"
      "n_stacked_obs_puck_rot s2 = 2"
    by (simp_all add: agent_inv_def scheme_depths_def same_config_def)
  from p(2) sch2 d have len: "length (stacked_obs_participant_ee_pos s2) = 2"
      "length (stacked_obs_opponent_ee_pos s2) = 2" "length (stacked_obs_puck_pos s2) = 10"
      "length (stacked_obs_puck_rot s2) = 2"
    by (simp_all add: buffers_full_def)
  from p(3) sch2 have u: "list_all in_unit2 (stacked_obs_participant_ee_pos s2)"
      "list_all in_unit2 (stacked_obs_opponent_ee_pos s2)"
      "list_all in_unit2 (stacked_obs_puck_pos s2)"
      "list_all in_unit2 (stacked_obs_puck_rot s2)"
    by (simp_all add: buffers_in_unit_def)
  from f have ju: "list_all in_unit (joint_pos_norm f)" by (simp add: features_in_unit_def)
  have "list_all in_unit out"
    unfolding out using u ju by (simp add: in_unit_clip in_unit_flatten2)
  moreover have "length (joint_pos_norm f) = 7 \<longrightarrow> length out = observation_space s2"
    unfolding out using len d sch2 by (simp add: length_flatten2 observation_space_def)
  ultimately show ?thesis
    using sc p sch by (simp add: tick_post_def)
qed

lemma encode_scheme_post:
  assumes inv: "agent_inv self" and f: "features_in_unit f"
    and res: "encode_scheme self rnd f = Inr (s2, out)"
  shows "tick_post self f s2 out \<and> agent_inv s2"
proof -
  from inv have unit: "buffers_in_unit self" by (simp add: agent_inv_def)
  from inv have sch: "scheme self = 2 \<or> scheme self = 3 \<or> scheme self = 4 \<or> scheme self = 5
                      \<or> scheme self = 6 \<or> scheme self = 7"
    by (auto simp: agent_inv_def scheme_depths_def)
  have post: "tick_post self f s2 out"
  proof -
    consider "scheme self = 2" | "scheme self = 3 \<or> scheme self = 4" | "scheme self = 5"
      | "scheme self = 6" | "scheme self = 7"
      using sch by blast
    then show ?thesis
    proof cases
      case 1
      with res have "obs_scheme2 self f = (s2, out)" by (simp add: encode_scheme_def)
      with obs_scheme2_post [OF 1 unit f] show ?thesis by simp
    next
      case 2
      with res have "obs_scheme34 self f = (s2, out)" by (auto simp: encode_scheme_def)
      with obs_scheme34_post [OF 2 unit f] show ?thesis by simp
    next
      case 3
      with res have "obs_scheme5 self f = (s2, out)" by (simp add: encode_scheme_def)
      with obs_scheme5_post [OF 3 inv f] show ?thesis by simp
    next
      case 4
      with res have "obs_scheme6 self f = (s2, out)" by (simp add: encode_scheme_def)
      with obs_scheme6_post [OF 4 inv f] show ?thesis by simp
    next
      case 5
      with res have "obs_scheme7 self rnd f = Inr (s2, out)" by (simp add: encode_scheme_def)
      with obs_scheme7_post [OF 5 inv f] show ?thesis by simp
    qed
  qed
  from post have sc: "same_config self s2" and full: "buffers_full s2"
    and u: "buffers_in_unit s2"
    by (simp_all add: tick_post_def)
  from inv sc have "scheme_depths s2"
    by (simp add: agent_inv_def scheme_depths_def same_config_def)
  with full u post show ?thesis by (simp add: agent_inv_def)
qed

lemma encode_scheme_not_assertion:
  "encode_scheme self rnd f \<noteq> Inl AssertionError"
proof -
  have "obs_scheme7 self rnd f \<noteq> Inl AssertionError"
  proof
    assume a: "obs_scheme7 self rnd f = Inl AssertionError"
    from obs_scheme7_unfold [of self rnd f] obtain a b t where
      unf: "obs_scheme7 self rnd f
       = (case stack_scheme7 (self\<lparr>penalty_side := a, penalty_timer := b\<rparr>) rnd f of
            Inl e \<Rightarrow> Inl e
          | Inr self2 \<Rightarrow>
               Inr (self2,
                    clip t (- 1) 1 # joint_pos_norm f
                    @ flatten2 (stacked_obs_puck_pos self2)
                    @ flatten2 (stacked_obs_puck_rot self2)
                    @ flatten2 (stacked_obs_participant_ee_pos self2)
                    @ flatten2 (stacked_obs_opponent_ee_pos self2)))"
      by blast
    from a unf have "stack_scheme7 (self\<lparr>penalty_side := a, penalty_timer := b\<rparr>) rnd f
                     = Inl AssertionError"
      by (cases "stack_scheme7 (self\<lparr>penalty_side := a, penalty_timer := b\<rparr>) rnd f") simp_all
    with stack_scheme7_not_assertion show False by blast
  qed
  then show ?thesis by (simp add: encode_scheme_def)
qed

lemma encode_scheme_defined:
  assumes inv: "agent_inv self"
    and ok: "evaluate self \<or> loss_of_tracking_min_steps self < loss_of_tracking_max_steps self"
  shows "\<exists>s2 out. encode_scheme self rnd f = Inr (s2, out)"
proof (cases "scheme self = 7")
  case True
  from obs_scheme7_unfold [of self rnd f] obtain a b t where
    unf: "obs_scheme7 self rnd f
     = (case stack_scheme7 (self\<lparr>penalty_side := a, penalty_timer := b\<rparr>) rnd f of
          Inl e \<Rightarrow> Inl e
        | Inr self2 \<Rightarrow>
             Inr (self2,
                  clip t (- 1) 1 # joint_pos_norm f
                  @ flatten2 (stacked_obs_puck_pos self2)
                  @ flatten2 (stacked_obs_puck_rot self2)
                  @ flatten2 (stacked_obs_participant_ee_pos self2)
                  @ flatten2 (stacked_obs_opponent_ee_pos self2)))"
    by blast
  let ?s1 = "self\<lparr>penalty_side := a, penalty_timer := b\<rparr>"
  from True inv ok have pre: "scheme ?s1 = 7" "agent_inv ?s1"
      "evaluate ?s1 \<or> loss_of_tracking_min_steps ?s1 < loss_of_tracking_max_steps ?s1"
    by (simp_all add: agent_inv_def scheme_depths_def buffers_full_def buffers_in_unit_def)
  from stack_scheme7_defined [OF pre] obtain s2 where "stack_scheme7 ?s1 rnd f = Inr s2"
    by blast
  with unf True show ?thesis by (simp add: encode_scheme_def)
next
  case False
  with inv have "scheme self = 2 \<or> scheme self = 3 \<or> scheme self = 4 \<or> scheme self = 5
                      \<or> scheme self = 6"
    by (auto simp: agent_inv_def scheme_depths_def)
  then show ?thesis
    by (auto simp: encode_scheme_def intro: prod.exhaust)
qed

subsection \<open>Ticks and runs keep the invariants\<close>

lemma agent_inv_current:
  "agent_inv (self\<lparr>current_joint_pos := a, current_ee_pos := b, current_ee_pos_xy_norm := c\<rparr>)
   = agent_inv self"
  by (simp add: agent_inv_def scheme_depths_def buffers_full_def buffers_in_unit_def)

lemma same_config_current:
  "same_config (self\<lparr>current_joint_pos := a, current_ee_pos := b, current_ee_pos_xy_norm := c\<rparr>) s
   = same_config self s"
  by (simp add: same_config_def)

lemma observation_space_same_config:
  "same_config a b \<Longrightarrow> observation_space b = observation_space a"
  by (simp add: same_config_def observation_space_def)

lemma process_raw_obs_Inr:
  assumes "process_raw_obs kin self rnd obs = Inr (s', out)"
  shows "length (obs_joint_pos obs) = length (fst (robot_joint_pos_limit self))
       \<and> length (obs_joint_pos obs) = length (snd (robot_joint_pos_limit self))
       \<and> \<not> degenerate_ranges self
       \<and> encode_scheme
            (self\<lparr> current_joint_pos := Some (obs_joint_pos obs),
                   current_ee_pos := Some (noisy_ee_pos kin self rnd obs),
                   current_ee_pos_xy_norm :=
                     Some (ee_pos_xy_norm (extract_features kin self rnd obs)) \<rparr>)
            rnd (extract_features kin self rnd obs) = Inr (s', out)
       \<and> length out = observation_space s'"
  using assms
  by (auto simp: process_raw_obs_def Let_def split: if_splits sum.splits prod.splits)

lemma process_raw_obs_post:
  assumes inv: "agent_inv self" and res: "process_raw_obs kin self rnd obs = Inr (s', out)"
  shows "agent_inv s' \<and> same_config self s' \<and> list_all in_unit out
       \<and> length out = observation_space self"
proof -
  let ?f = "extract_features kin self rnd obs"
  let ?s1 = "self\<lparr> current_joint_pos := Some (obs_joint_pos obs),
                   current_ee_pos := Some (noisy_ee_pos kin self rnd obs),
                   current_ee_pos_xy_norm := Some (ee_pos_xy_norm ?f) \<rparr>"
  from process_raw_obs_Inr [OF res]
  have enc: "encode_scheme ?s1 rnd ?f = Inr (s', out)" and len: "length out = observation_space s'"
    by simp_all
  from inv have inv1: "agent_inv ?s1" by (simp only: agent_inv_current)
  from encode_scheme_post [OF inv1 features_in_unit_extract enc]
  have post: "tick_post ?s1 ?f s' out" and inv': "agent_inv s'" by simp_all
  from post have sc: "same_config self s'" and u: "list_all in_unit out"
    by (simp_all add: tick_post_def same_config_current)
  from len observation_space_same_config [OF sc] have "length out = observation_space self"
    by simp
  with inv' sc u show ?thesis by simp
qed

lemma process_raw_obs_not_assertion:
  assumes inv: "agent_inv self"
    and j7: "scheme self = 6 \<or> scheme self = 7 \<longrightarrow> length (obs_joint_pos obs) = 7"
  shows "process_raw_obs kin self rnd obs \<noteq> Inl AssertionError"
proof
  assume a: "process_raw_obs kin self rnd obs = Inl AssertionError"
  let ?f = "extract_features kin self rnd obs"
  let ?s1 = "self\<lparr> current_joint_pos := Some (obs_joint_pos obs),
                   current_ee_pos := Some (noisy_ee_pos kin self rnd obs),
                   current_ee_pos_xy_norm := Some (ee_pos_xy_norm ?f) \<rparr>"
  from a have shape: "length (fst (robot_joint_pos_limit self)) = length (obs_joint_pos obs)"
      "length (snd (robot_joint_pos_limit self)) = length (obs_joint_pos obs)"
    by (auto simp: process_raw_obs_def split: if_splits)
  from a shape have nd: "\<not> degenerate_ranges self"
    by (auto simp: process_raw_obs_def split: if_splits)
  from a shape nd encode_scheme_not_assertion [of ?s1 rnd ?f]
  obtain s2 out where enc: "encode_scheme ?s1 rnd ?f = Inr (s2, out)"
    and bad: "length out \<noteq> observation_space s2"
    by (auto simp: process_raw_obs_def Let_def split: sum.splits prod.splits if_splits)
  from inv have inv1: "agent_inv ?s1" by (simp only: agent_inv_current)
  from encode_scheme_post [OF inv1 features_in_unit_extract enc]
  have post: "tick_post ?s1 ?f s2 out" by simp
  have "length (joint_pos_norm ?f) = length (obs_joint_pos obs)"
    using shape by (simp add: extract_features_def length_norm_clip_joints)
  with j7 post have "length out = observation_space s2"
    by (simp add: tick_post_def)
  with bad show False by simp
qed

lemma process_raw_obs_defined:
  assumes inv: "agent_inv self"
    and shape: "length (fst (robot_joint_pos_limit self)) = length (obs_joint_pos obs)"
      "length (snd (robot_joint_pos_limit self)) = length (obs_joint_pos obs)"
    and j7: "scheme self = 6 \<or> scheme self = 7 \<longrightarrow> length (obs_joint_pos obs) = 7"
    and nd: "\<not> degenerate_ranges self"
    and ok: "evaluate self \<or> loss_of_tracking_min_steps self < loss_of_tracking_max_steps self"
  shows "\<exists>s' out. process_raw_obs kin self rnd obs = Inr (s', out)"
proof -
  let ?f = "extract_features kin self rnd obs"
  let ?s1 = "self\<lparr> current_joint_pos := Some (obs_joint_pos obs),
                   current_ee_pos := Some (noisy_ee_pos kin self rnd obs),
                   current_ee_pos_xy_norm := Some (ee_pos_xy_norm ?f) \<rparr>"
  from inv have inv1: "agent_inv ?s1" by (simp only: agent_inv_current)
  from ok have ok1: "evaluate ?s1 \<or> loss_of_tracking_min_steps ?s1 < loss_of_tracking_max_steps ?s1"
    by simp
  from encode_scheme_defined [OF inv1 ok1] obtain s2 out where
    enc: "encode_scheme ?s1 rnd ?f = Inr (s2, out)" by blast
  from encode_scheme_post [OF inv1 features_in_unit_extract enc]
  have post: "tick_post ?s1 ?f s2 out" by simp
  have "length (joint_pos_norm ?f) = length (obs_joint_pos obs)"
    using shape by (simp add: extract_features_def length_norm_clip_joints)
  with j7 post have "length out = observation_space s2"
    by (simp add: tick_post_def)
  with enc shape nd show ?thesis
    by (simp add: process_raw_obs_def Let_def)
qed

lemma run_obs_post:
  assumes "agent_inv self" and "run_obs kin self ticks = Inr (s', outs)"
  shows "agent_inv s' \<and> same_config self s'
       \<and> (\<forall>out \<in> set outs. list_all in_unit out \<and> length out = observation_space self)"
  using assms
proof (induction ticks arbitrary: self outs)
  case Nil
  then show ?case by (simp add: same_config_refl)
next
  case (Cons t ts)
  from Cons.prems(2) obtain s1 out where
    tick: "process_raw_obs kin self (fst t) (snd t) = Inr (s1, out)"
    by (auto split: sum.splits)
  with Cons.prems(2) obtain outs1 where
    rest: "run_obs kin s1 ts = Inr (s', outs1)" and outs: "outs = out # outs1"
    by (auto split: sum.splits)
  from process_raw_obs_post [OF Cons.prems(1) tick]
  have p1: "agent_inv s1" "same_config self s1" "list_all in_unit out"
      "length out = observation_space self"
    by simp_all
  from Cons.IH [OF p1(1) rest]
  have p2: "agent_inv s'" "same_config s1 s'"
      "\<forall>out \<in> set outs1. list_all in_unit out \<and> length out = observation_space s1"
    by simp_all
  from p1(2) p2(2) have sc: "same_config self s'" by (rule same_config_trans)
  from observation_space_same_config [OF p1(2)] p2(3)
  have "\<forall>out \<in> set outs1. list_all in_unit out \<and> length out = observation_space self"
    by simp
  with p1 p2(1) sc outs show ?case by simp
qed

lemma run_obs_not_assertion:
  assumes "agent_inv self"
    and "\<forall>t \<in> set ticks. scheme self = 6 \<or> scheme self = 7 \<longrightarrow> length (obs_joint_pos (snd t)) = 7"
  shows "run_obs kin self ticks \<noteq> Inl AssertionError"
  using assms
proof (induction ticks arbitrary: self)
  case Nil
  then show ?case by simp
next
  case (Cons t ts)
  from Cons.prems have j: "scheme self = 6 \<or> scheme self = 7 \<longrightarrow> length (obs_joint_pos (snd t)) = 7"
    by simp
  from process_raw_obs_not_assertion [OF Cons.prems(1) j]
  have na: "process_raw_obs kin self (fst t) (snd t) \<noteq> Inl AssertionError" .
  show ?case
  proof (cases "process_raw_obs kin self (fst t) (snd t)")
    case (Inl e)
    with na show ?thesis by auto
  next
    case (Inr r)
    obtain s1 out where r: "r = (s1, out)" by (cases r)
    from process_raw_obs_post [OF Cons.prems(1) Inr [unfolded r]]
    have p1: "agent_inv s1" "same_config self s1" by simp_all
    from p1(2) Cons.prems(2)
    have "\<forall>t \<in> set ts. scheme s1 = 6 \<or> scheme s1 = 7 \<longrightarrow> length (obs_joint_pos (snd t)) = 7"
      by (simp add: same_config_def)
    from Cons.IH [OF p1(1) this] have "run_obs kin s1 ts \<noteq> Inl AssertionError" .
    with Inr r show ?thesis by (auto split: sum.splits)
  qed
qed

lemma run_obs_defined:
  assumes "agent_inv self"
    and "\<forall>t \<in> set ticks. well_shaped self (snd t)
                       \<and> (scheme self = 6 \<or> scheme self = 7 \<longrightarrow> length (obs_joint_pos (snd t)) = 7)"
    and "\<not> degenerate_ranges self"
    and "evaluate self \<or> loss_of_tracking_min_steps self < loss_of_tracking_max_steps self"
  shows "\<exists>s' outs. run_obs kin self ticks = Inr (s', outs)"
  using assms
proof (induction ticks arbitrary: self)
  case Nil
  then show ?case by simp
next
  case (Cons t ts)
  from Cons.prems(2) have w: "length (fst (robot_joint_pos_limit self)) = length (obs_joint_pos (snd t))"
      "length (snd (robot_joint_pos_limit self)) = length (obs_joint_pos (snd t))"
      "scheme self = 6 \<or> scheme self = 7 \<longrightarrow> length (obs_joint_pos (snd t)) = 7"
    by (simp_all add: well_shaped_def)
  from process_raw_obs_defined [OF Cons.prems(1) w Cons.prems(3,4)]
  obtain s1 out where tick: "process_raw_obs kin self (fst t) (snd t) = Inr (s1, out)" by blast
  from process_raw_obs_post [OF Cons.prems(1) tick]
  have p1: "agent_inv s1" "same_config self s1" by simp_all
  from p1(2) have eqs: "robot_joint_pos_limit s1 = robot_joint_pos_limit self"
      "scheme s1 = scheme self" "puck_table_minmax s1 = puck_table_minmax self"
      "evaluate s1 = evaluate self"
      "loss_of_tracking_min_steps s1 = loss_of_tracking_min_steps self"
      "loss_of_tracking_max_steps s1 = loss_of_tracking_max_steps self"
    by (simp_all add: same_config_def)
  have ws: "\<And>ob. well_shaped s1 ob = well_shaped self ob"
    by (simp add: well_shaped_def eqs)
  have dg: "degenerate_ranges s1 = degenerate_ranges self"
    by (simp add: degenerate_ranges_def eqs)
  from Cons.prems(2)
  have "\<forall>t \<in> set ts. well_shaped self (snd t)
                       \<and> (scheme self = 6 \<or> scheme self = 7 \<longrightarrow> length (obs_joint_pos (snd t)) = 7)"
    by simp
  then have pre1: "\<forall>t \<in> set ts. well_shaped s1 (snd t)
                       \<and> (scheme s1 = 6 \<or> scheme s1 = 7 \<longrightarrow> length (obs_joint_pos (snd t)) = 7)"
    by (simp only: ws eqs)
  from Cons.prems(3,4)
  have pre2: "\<not> degenerate_ranges s1"
      "evaluate s1 \<or> loss_of_tracking_min_steps s1 < loss_of_tracking_max_steps s1"
    by (simp_all add: dg eqs)
  note pre = pre1 pre2
  from Cons.IH [OF p1(1) pre] obtain s' outs where "run_obs kin s1 ts = Inr (s', outs)" by blast
  with tick show ?case by simp
qed



lemma new_episode_reset: "new_episode (reset self)"
  by (simp add: reset_def)





lemma run_calls_ticks:
  "run_calls kin self (map (\<lambda>t. Observe (fst t) (snd t)) ticks) = run_obs kin self ticks"
  by (induction ticks arbitrary: self) (simp_all split: sum.splits)

subsection \<open>The constructor\<close>

lemma scheme_setup_cases:
  assumes "scheme_setup a = Inr s0"
  shows "(scheme a = 2 \<and> s0 = set_depths a 1 1 1)
       \<or> (scheme a = 3 \<and> s0 = set_depths (a\<lparr>penalty_side := None\<rparr>) 3 5 9)
       \<or> (scheme a = 4 \<and> s0 = set_depths (a\<lparr>penalty_side := None\<rparr>) 2 2 2)
       \<or> ((scheme a = 5 \<or> scheme a = 6)
            \<and> s0 = set_depths (a\<lparr>penalty_side := None, n_stacked_obs := 4\<rparr>) 4 4 4)
       \<or> (scheme a = 7
            \<and> s0 = (set_depths (a\<lparr>penalty_side := None\<rparr>) 2 2 10)
                     \<lparr>n_stacked_obs_puck_rot := 2, stacked_obs_puck_rot := []\<rparr>)"
proof -
  have "scheme a = 1 \<or> scheme a = 2 \<or> scheme a = 3 \<or> scheme a = 4 \<or> scheme a = 5
        \<or> scheme a = 6 \<or> scheme a = 7
        \<or> (scheme a \<noteq> 1 \<and> scheme a \<noteq> 2 \<and> scheme a \<noteq> 3 \<and> scheme a \<noteq> 4 \<and> scheme a \<noteq> 5
        \<and> scheme a \<noteq> 6 \<and> scheme a \<noteq> 7)"
    by blast
  then consider "scheme a = 1" | "scheme a = 2" | "scheme a = 3" | "scheme a = 4"
    | "scheme a = 5" | "scheme a = 6" | "scheme a = 7"
    | "scheme a \<noteq> 1 \<and> scheme a \<noteq> 2 \<and> scheme a \<noteq> 3 \<and> scheme a \<noteq> 4 \<and> scheme a \<noteq> 5
        \<and> scheme a \<noteq> 6 \<and> scheme a \<noteq> 7"
    by blast
  then show ?thesis
  proof cases
    case 1 with assms show ?thesis by (simp add: scheme_setup_def)
  next
    case 2 with assms show ?thesis by (simp add: scheme_setup_def)
  next
    case 3 with assms show ?thesis by (simp add: scheme_setup_def)
  next
    case 4 with assms show ?thesis by (simp add: scheme_setup_def)
  next
    case 5 with assms show ?thesis by (simp add: scheme_setup_def)
  next
    case 6 with assms show ?thesis by (simp add: scheme_setup_def)
  next
    case 7 with assms show ?thesis by (simp add: scheme_setup_def)
  next
    case 8 with assms show ?thesis by (simp add: scheme_setup_def)
  qed
qed

lemma SpaceRAgent_init_inv:
  assumes "SpaceRAgent_init args = Inr self"
  shows "agent_inv self \<and> new_episode self \<and> scheme self = scheme args
       \<and> robot_joint_pos_limit self = robot_joint_pos_limit args
       \<and> puck_table_minmax self = puck_table_minmax args
       \<and> evaluate self = evaluate args
       \<and> loss_of_tracking_min_steps self = loss_of_tracking_min_steps args
       \<and> loss_of_tracking_max_steps self = loss_of_tracking_max_steps args
       \<and> penalty_timer self = 0
       \<and> (scheme self \<noteq> 2 \<longrightarrow> penalty_side self = None)"
proof -
  let ?a = "args\<lparr> lose_tracking_probability := 0,
                               lose_tracking_n_steps_remaining := 0,
                               previous_ee_pos_xy_norm := None,
                               current_joint_pos := None,
                               current_ee_pos := None,
                               current_ee_pos_xy_norm := None \<rparr>"
  from assms obtain s0 where s0: "scheme_setup ?a = Inr s0" and self: "self = reset s0"
    by (auto simp: SpaceRAgent_init_def split: sum.splits)
  from scheme_setup_cases [OF s0] show ?thesis
    unfolding self
    by (elim disjE conjE)
       (simp_all add: reset_def set_depths_def agent_inv_def
          scheme_depths_def buffers_full_def buffers_in_unit_def)
qed

subsection \<open>The returned velocities and the limits\<close>

lemma example_raw_vel:
  "joint_vel_raw example_kin (example_observed\<lparr>previous_ee_pos_xy_norm := Some (- 1/8, 1/4)\<rparr>)
     [0, 0, 0, 0, 0, 0, 0] (- 3/32, 1/10, 0)
   = Inr [- 175/48, 7/54, 0, 7/864, 0, 35/288, - 70/27]"
  by (simp add: joint_vel_raw_def ik_weights_def np_average_rows_def sum3_def mul3_def Let_def
      example_kin_def example_observed_def example_args_def)

lemma example_limit:
  "limit_joint_vel ([- 1, - 1, - 1, - 1, - 1, - 1, - 1], [1, 1, 1, 1, 1, 1, 1]) [- 175/48, 7/54, 0, 7/864, 0, 35/288, - 70/27]
   = Inr [- 1, 8/225, 0, 1/450, 0, 1/30, - 32/45]"
  by (simp add: limit_joint_vel_def outside_vel_limit_def Let_def numeral_eq_Suc)

lemma example_act:
  "process_raw_act example_kin example_observed example_rnd (1, 1)
   = Inr (example_observed\<lparr>previous_ee_pos_xy_norm := Some (- 1/8, 1/4)\<rparr>,
          [- 1/10, 4/1125, 0, 1/4500, 0, 1/300, - 16/225],
          [- 1, 8/225, 0, 1/450, 0, 1/30, - 32/45])"
proof -
  have cur: "current_joint_pos example_observed = Some [0, 0, 0, 0, 0, 0, 0]"
      "current_ee_pos example_observed = Some (1, 0, 1/5)"
      "current_ee_pos_xy_norm example_observed = Some (- 1/2, 0)"
    by (simp_all add: example_observed_def)
  have fa: "filter_action example_observed (- 1/2, 0) (1, 1)
            = (example_observed\<lparr>previous_ee_pos_xy_norm := Some (- 1/8, 1/4)\<rparr>, (- 1/8, 1/4))"
    by (simp add: filter_action_def Let_def add2_def scale2_def example_observed_def example_args_def)
  have tg: "target_ee_pos (example_observed\<lparr>previous_ee_pos_xy_norm := Some (- 1/8, 1/4)\<rparr>)
              example_rnd (- 1/8, 1/4) = (29/32, 1/10, 1/5)"
    by (simp add: target_ee_pos_def unnormalize_value_def Let_def example_observed_def example_args_def)
  have lim: "robot_joint_vel_limit_scaled (example_observed\<lparr>previous_ee_pos_xy_norm := Some (- 1/8, 1/4)\<rparr>)
             = ([- 1, - 1, - 1, - 1, - 1, - 1, - 1], [1, 1, 1, 1, 1, 1, 1])"
      "sim_dt (example_observed\<lparr>previous_ee_pos_xy_norm := Some (- 1/8, 1/4)\<rparr>) = 1/10"
    by (simp_all add: example_observed_def example_args_def)
  have sb: "sub3 (29/32, 1/10, 1/5) (1, 0, 1/5) = (- 3/32, 1/10, 0)"
    by (simp add: sub3_def)
  show ?thesis
    unfolding process_raw_act_def cur option.case fa Let_def prod.case tg sb
      example_raw_vel sum.case lim example_limit
    by (simp add: numeral_eq_Suc)
qed

text \<open>
  The limiting step in exact arithmetic. When every scaled lower velocity limit is negative
  and every upper one positive, then over the reals: the joint velocities
  \<open>process_raw_act\<close> returns lie within the limits of their joints; and for every
  proposed velocity vector with one entry per joint the limiting step returns (a joint
  with zero velocity is never divided by, since it is not outside its limits) the whole
  vector multiplied by one factor \<open>f\<close>, with every joint within its limits; \<open>f\<close> is 1
  when no joint is outside its limits, and otherwise the minimum over the offending joints
  of \<open>1 - (v - limit) / v\<close>, and then some offending joint lands exactly on the limit
  it violated. The code evaluates the same expressions in binary64, where each operation
  rounds; what it returns there is the subject of the next statements.
\<close>

lemma velocity_limits_exact_arithmetic:
  assumes "limits_straddle_zero (robot_joint_vel_limit_scaled self)"
  shows "(\<forall>self' joint_pos joint_vel.
            process_raw_act kin self rnd action = Inr (self', joint_pos, joint_vel) \<longrightarrow>
              (\<forall>i < length joint_vel.
                 fst (robot_joint_vel_limit_scaled self) ! i \<le> joint_vel ! i
                 \<and> joint_vel ! i \<le> snd (robot_joint_vel_limit_scaled self) ! i))
       \<and> (\<forall>v. length (fst (robot_joint_vel_limit_scaled self)) = length v
              \<and> length (snd (robot_joint_vel_limit_scaled self)) = length v \<longrightarrow>
            (\<exists>f. limit_joint_vel (robot_joint_vel_limit_scaled self) v
                   = Inr (map (\<lambda>x. x * f) v)
               \<and> (\<forall>i < length v.
                     fst (robot_joint_vel_limit_scaled self) ! i \<le> v ! i * f
                     \<and> v ! i * f \<le> snd (robot_joint_vel_limit_scaled self) ! i)
               \<and> (offending_factors (robot_joint_vel_limit_scaled self) v = [] \<longrightarrow> f = 1)
               \<and> (offending_factors (robot_joint_vel_limit_scaled self) v \<noteq> [] \<longrightarrow>
                     f = Min (set (offending_factors (robot_joint_vel_limit_scaled self) v))
                     \<and> (\<exists>i < length v.
                           outside_vel_limit
                             (v ! i, fst (robot_joint_vel_limit_scaled self) ! i,
                              snd (robot_joint_vel_limit_scaled self) ! i)
                           \<and> v ! i * f
                               = violated_limit
                                   (v ! i, fst (robot_joint_vel_limit_scaled self) ! i,
                                    snd (robot_joint_vel_limit_scaled self) ! i)))))"
proof -
  have ret: "\<forall>self' joint_pos joint_vel.
            process_raw_act kin self rnd action = Inr (self', joint_pos, joint_vel) \<longrightarrow>
              (\<forall>i < length joint_vel.
                 fst (robot_joint_vel_limit_scaled self) ! i \<le> joint_vel ! i
                 \<and> joint_vel ! i \<le> snd (robot_joint_vel_limit_scaled self) ! i)"
  proof (intro allI impI)
    fix self' joint_pos joint_vel i
    assume res: "process_raw_act kin self rnd action = Inr (self', joint_pos, joint_vel)"
      and i: "i < length joint_vel"
    from process_raw_act_Inr [OF res] obtain v where
      lim: "limit_joint_vel (robot_joint_vel_limit_scaled self) v = Inr joint_vel"
      by blast
    then have len: "length (fst (robot_joint_vel_limit_scaled self)) = length v"
        "length (snd (robot_joint_vel_limit_scaled self)) = length v"
      by (auto simp: limit_joint_vel_def split: if_splits)
    from limit_joint_vel_scaling [OF assms len] obtain f where
      f: "limit_joint_vel (robot_joint_vel_limit_scaled self) v = Inr (map (\<lambda>x. x * f) v)"
      and within: "\<forall>i < length v.
                     fst (robot_joint_vel_limit_scaled self) ! i \<le> v ! i * f
                     \<and> v ! i * f \<le> snd (robot_joint_vel_limit_scaled self) ! i"
      by blast
    from lim f have jv: "joint_vel = map (\<lambda>x. x * f) v" by simp
    from i within show "fst (robot_joint_vel_limit_scaled self) ! i \<le> joint_vel ! i
          \<and> joint_vel ! i \<le> snd (robot_joint_vel_limit_scaled self) ! i"
      unfolding jv by simp
  qed
  have step: "\<forall>v. length (fst (robot_joint_vel_limit_scaled self)) = length v
              \<and> length (snd (robot_joint_vel_limit_scaled self)) = length v \<longrightarrow>
            (\<exists>f. limit_joint_vel (robot_joint_vel_limit_scaled self) v
                   = Inr (map (\<lambda>x. x * f) v)
               \<and> (\<forall>i < length v.
                     fst (robot_joint_vel_limit_scaled self) ! i \<le> v ! i * f
                     \<and> v ! i * f \<le> snd (robot_joint_vel_limit_scaled self) ! i)
               \<and> (offending_factors (robot_joint_vel_limit_scaled self) v = [] \<longrightarrow> f = 1)
               \<and> (offending_factors (robot_joint_vel_limit_scaled self) v \<noteq> [] \<longrightarrow>
                     f = Min (set (offending_factors (robot_joint_vel_limit_scaled self) v))
                     \<and> (\<exists>i < length v.
                           outside_vel_limit
                             (v ! i, fst (robot_joint_vel_limit_scaled self) ! i,
                              snd (robot_joint_vel_limit_scaled self) ! i)
                           \<and> v ! i * f
                               = violated_limit
                                   (v ! i, fst (robot_joint_vel_limit_scaled self) ! i,
                                    snd (robot_joint_vel_limit_scaled self) ! i))))"
    by (intro allI impI, elim conjE, rule limit_joint_vel_scaling [OF assms])
  from ret step show ?thesis by (rule conjI)
qed

lemma velocity_limits_exact_arithmetic_example:
  "limits_straddle_zero (robot_joint_vel_limit_scaled example_observed)
   \<and> process_raw_act example_kin example_observed example_rnd (1, 1)
       = Inr (example_observed\<lparr>previous_ee_pos_xy_norm := Some (- 1/8, 1/4)\<rparr>,
              [- 1/10, 4/1125, 0, 1/4500, 0, 1/300, - 16/225],
              [- 1, 8/225, 0, 1/450, 0, 1/30, - 32/45])
   \<and> list_all2 (\<le>) (fst (robot_joint_vel_limit_scaled example_observed))
        [- 1, 8/225, 0, 1/450, 0, 1/30, - 32/45]
   \<and> list_all2 (\<le>) [- 1, 8/225, 0, 1/450, 0, 1/30, - 32/45]
        (snd (robot_joint_vel_limit_scaled example_observed))"
proof -
  let ?jv = "[- 1, 8/225, 0, 1/450, 0, 1/30, - 32/45] :: real list"
  have h: "limits_straddle_zero (robot_joint_vel_limit_scaled example_observed)"
    by (simp add: limits_straddle_zero_def example_observed_def example_args_def)
  have len: "length (fst (robot_joint_vel_limit_scaled example_observed)) = length ?jv"
      "length (snd (robot_joint_vel_limit_scaled example_observed)) = length ?jv"
    by (simp_all add: example_observed_def example_args_def)
  from velocity_limits_exact_arithmetic [OF h, of example_kin example_rnd "(1, 1)"] example_act
  have "\<forall>i < length ?jv.
          fst (robot_joint_vel_limit_scaled example_observed) ! i \<le> ?jv ! i
          \<and> ?jv ! i \<le> snd (robot_joint_vel_limit_scaled example_observed) ! i"
    by blast
  with len have "list_all2 (\<le>) (fst (robot_joint_vel_limit_scaled example_observed)) ?jv"
      "list_all2 (\<le>) ?jv (snd (robot_joint_vel_limit_scaled example_observed))"
    unfolding list_all2_conv_all_nth by simp_all
  with h example_act show ?thesis by blast
qed

text \<open>
  Over the reals the call of the example returns the first joint exactly on its limit.
  When the smallest singular value of the Jacobian is 0, \<open>1 / s\<close> is \<open>inf\<close> in NumPy,
  the weights and with them all returned velocities are \<open>nan\<close>; the model stops with
  \<open>NotFinite\<close>.
\<close>

lemma dyadic_raw_vel:
  "joint_vel_raw dyadic_kin dyadic_observed [0, 0, 0, 0, 0, 0, 0] (7/16, - 1/4, 0)
   = Inr [7, - 4, 0, 0, 0, 0, 0]"
  by (simp add: joint_vel_raw_def ik_weights_def np_average_rows_def sum3_def mul3_def Let_def
      dyadic_kin_def dyadic_observed_def example_args_def)

lemma dyadic_target:
  "sub3 (target_ee_pos dyadic_observed example_rnd (7/8, - 1/2)) (1, 0, 1/4) = (7/16, - 1/4, 0)"
  by (simp add: target_ee_pos_def unnormalize_value_def Let_def sub3_def dyadic_observed_def
      example_args_def)

lemma dyadic_limit:
  "limit_joint_vel ([- 1, - 1, - 1, - 1, - 1, - 1, - 1], [1, 1, 1, 1, 1, 1, 1]) [7, - 4, 0, 0, 0, 0, 0]
   = Inr [1, - 4/7, 0, 0, 0, 0, 0]"
  by (simp add: limit_joint_vel_def outside_vel_limit_def Let_def numeral_eq_Suc)

lemma dyadic_act:
  "process_raw_act dyadic_kin dyadic_observed example_rnd (7/8, - 1/2)
   = Inr (dyadic_observed, [1/64, - 1/112, 0, 0, 0, 0, 0], [1, - 4/7, 0, 0, 0, 0, 0])"
proof -
  have cur: "current_joint_pos dyadic_observed = Some [0, 0, 0, 0, 0, 0, 0]"
      "current_ee_pos dyadic_observed = Some (1, 0, 1/4)"
      "current_ee_pos_xy_norm dyadic_observed = Some (- 1/2, 0)"
    by (simp_all add: dyadic_observed_def)
  have fa: "filter_action dyadic_observed (- 1/2, 0) (7/8, - 1/2) = (dyadic_observed, (7/8, - 1/2))"
    by (simp add: filter_action_def dyadic_observed_def)
  have lim: "robot_joint_vel_limit_scaled dyadic_observed
             = ([- 1, - 1, - 1, - 1, - 1, - 1, - 1], [1, 1, 1, 1, 1, 1, 1])"
      "sim_dt dyadic_observed = 1/64"
    by (simp_all add: dyadic_observed_def example_args_def)
  show ?thesis
    unfolding process_raw_act_def cur option.case fa Let_def prod.case dyadic_target
      dyadic_raw_vel sum.case lim dyadic_limit
    by (simp add: numeral_eq_Suc)
qed

lemma singular_jacobian_not_finite:
  assumes "snd (snd (jac_svd kin q)) = 0"
  shows "joint_vel_raw kin self q target_ee_disp = Inl NotFinite"
  using assms by (simp add: joint_vel_raw_def ik_weights_def Let_def)

text \<open>
  The limiting step in binary64, on the call of the example: the significands and
  exponents of the numbers involved, the two candidate factors (0.1428571428571429 for
  the first joint, 0.25 for the second), and the velocities scaled by the smaller one.
\<close>

lemma bit_length_numeral:
  "bit_length 0 = 0"
  "bit_length 1 = Suc 0"
  "bit_length (numeral (Num.Bit0 n)) = Suc (bit_length (numeral n))"
  "bit_length (numeral (Num.Bit1 n)) = Suc (bit_length (numeral n))"
  "bit_length (- numeral n) = 0"
  by (subst bit_length.simps, simp add: bit_length.simps [of 0])+

lemmas f64_eval = round_f64_def f64_sub_def f64_mul_def f64_div_def
  f64_less_def Let_def bit_length_numeral

lemma f64_of_int_values:
  "f64_of_int 0 = (0, 0)"
  "f64_of_int 1 = (4503599627370496, - 52)"
  "f64_of_int (- 1) = (- 4503599627370496, - 52)"
  "f64_of_int 7 = (7881299347898368, - 50)"
  "f64_of_int (- 4) = (- 4503599627370496, - 50)"
  by (simp_all add: f64_of_int_def f64_eval)

lemma float64_val_values:
  "float64_val (0, 0) = 0"
  "float64_val (4503599627370496, - 52) = 1"
  "float64_val (- 4503599627370496, - 52) = - 1"
  "float64_val (7881299347898368, - 50) = 7"
  "float64_val (- 4503599627370496, - 50) = - 4"
  "float64_val (4503599627370498, - 52) = 1 + 1 / 2 ^ 51"
  by (simp_all add: float64_val_def)

lemma candidate_joint_0:
  "downscaling_candidate_f64
     ((7881299347898368, - 50), (- 4503599627370496, - 52), (4503599627370496, - 52))
   = (5146971002709140, - 55)"
proof -
  have lt: "f64_less (4503599627370496, - 52) (7881299347898368, - 50)"
    by (simp add: f64_less_def)
  have s: "f64_sub (7881299347898368, - 50) (4503599627370496, - 52) = (6755399441055744, - 50)"
    by (simp add: f64_eval)
  have d: "f64_div (6755399441055744, - 50) (7881299347898368, - 50) = (7720456504063707, - 53)"
    by (simp add: f64_eval)
  have f: "f64_sub (4503599627370496, - 52) (7720456504063707, - 53) = (5146971002709140, - 55)"
    by (simp add: f64_eval)
  show ?thesis
    by (simp add: downscaling_candidate_f64_def lt s d f f64_of_int_values)
qed

lemma candidate_joint_1:
  "downscaling_candidate_f64
     ((- 4503599627370496, - 50), (- 4503599627370496, - 52), (4503599627370496, - 52))
   = (4503599627370496, - 54)"
proof -
  have lt: "\<not> f64_less (4503599627370496, - 52) (- 4503599627370496, - 50)"
    by (simp add: f64_less_def)
  have s: "f64_sub (- 4503599627370496, - 50) (- 4503599627370496, - 52) = (- 6755399441055744, - 51)"
    by (simp add: f64_eval)
  have d: "f64_div (- 6755399441055744, - 51) (- 4503599627370496, - 50) = (6755399441055744, - 53)"
    by (simp add: f64_eval)
  have f: "f64_sub (4503599627370496, - 52) (6755399441055744, - 53) = (4503599627370496, - 54)"
    by (simp add: f64_eval)
  show ?thesis
    by (simp add: downscaling_candidate_f64_def lt s d f f64_of_int_values)
qed

lemma outside_values:
  "outside_vel_limit_f64
     ((7881299347898368, - 50), (- 4503599627370496, - 52), (4503599627370496, - 52))"
  "outside_vel_limit_f64
     ((- 4503599627370496, - 50), (- 4503599627370496, - 52), (4503599627370496, - 52))"
  "\<not> outside_vel_limit_f64 ((0, 0), (- 4503599627370496, - 52), (4503599627370496, - 52))"
  by (simp_all add: outside_vel_limit_f64_def f64_less_def)

lemma factor_order:
  "f64_less (5146971002709140, - 55) (4503599627370496, - 52)"
  "\<not> f64_less (4503599627370496, - 54) (5146971002709140, - 55)"
  by (simp_all add: f64_less_def)

lemma scaled_values:
  "f64_mul (7881299347898368, - 50) (5146971002709140, - 55) = (4503599627370498, - 52)"
  "f64_mul (- 4503599627370496, - 50) (5146971002709140, - 55) = (- 5146971002709140, - 53)"
  "f64_mul (0, 0) (5146971002709140, - 55) = (0, 0)"
  by (simp_all add: f64_eval)

lemma binary64_limit_example:
  "limit_joint_vel_f64 binary64_limits binary64_proposed
   = Inr [(4503599627370498, - 52), (- 5146971002709140, - 53), (0, 0), (0, 0), (0, 0), (0, 0),
          (0, 0)]"
  unfolding limit_joint_vel_f64_def binary64_limits_def binary64_proposed_def f64_of_int_values
  by (simp add: Let_def outside_values candidate_joint_0 candidate_joint_1 factor_order
      scaled_values)


text \<open>
  Claim C1, in the arithmetic of the code. On the call of the example the scaled limits
  are -1 and 1 for every joint, and the proposed joint velocities are
  \<open>[7, -4, 0, 0, 0, 0, 0]\<close>, all of them binary64 numbers. The limiting step of lines
  695 to 718, computed in binary64, returns \<open>1 + 2 ^ -51\<close> (1.0000000000000004) for the
  first joint: the velocity of the binding joint is above its upper limit 1 and not on
  it. So the returned velocities do not lie within the limits on every call, although
  the limits are negative below and positive above.
\<close>

theorem C1_binary64_velocity_exceeds_limit:
  "joint_vel_raw dyadic_kin dyadic_observed [0, 0, 0, 0, 0, 0, 0]
     (sub3 (target_ee_pos dyadic_observed example_rnd (7/8, - 1/2)) (1, 0, 1/4))
   = Inr (map float64_val binary64_proposed)
   \<and> robot_joint_vel_limit_scaled dyadic_observed
       = (map float64_val (fst binary64_limits), map float64_val (snd binary64_limits))
   \<and> limit_joint_vel_f64 binary64_limits binary64_proposed
       = Inr [(4503599627370498, - 52), (- 5146971002709140, - 53), (0, 0), (0, 0), (0, 0),
              (0, 0), (0, 0)]
   \<and> float64_val (4503599627370498, - 52) = 1 + 1 / 2 ^ 51
   \<and> float64_val (hd (snd binary64_limits)) = 1
   \<and> f64_less (hd (snd binary64_limits)) (4503599627370498, - 52)"
proof -
  have a: "joint_vel_raw dyadic_kin dyadic_observed [0, 0, 0, 0, 0, 0, 0]
     (sub3 (target_ee_pos dyadic_observed example_rnd (7/8, - 1/2)) (1, 0, 1/4))
   = Inr (map float64_val binary64_proposed)"
    unfolding dyadic_target dyadic_raw_vel
    by (simp add: binary64_proposed_def f64_of_int_values float64_val_values)
  have b: "robot_joint_vel_limit_scaled dyadic_observed
       = (map float64_val (fst binary64_limits), map float64_val (snd binary64_limits))"
    by (simp add: binary64_limits_def f64_of_int_values float64_val_values dyadic_observed_def
        example_args_def)
  have c: "float64_val (hd (snd binary64_limits)) = 1"
    by (simp add: binary64_limits_def f64_of_int_values float64_val_values)
  have d: "f64_less (hd (snd binary64_limits)) (4503599627370498, - 52)"
    by (simp add: binary64_limits_def f64_of_int_values f64_less_def)
  from a b binary64_limit_example float64_val_values(6) c d show ?thesis
    by (intro conjI)
qed


subsection \<open>The action decoder\<close>

text \<open>
  Claim C6. Whenever \<open>process_raw_act\<close> returns, the joint velocity before the limits are
  enforced is, for each joint, the sum over the three Cartesian directions of weight
  times the joint's entry of the pseudo-inverse times the displacement of the target from
  the current end-effector position, divided by the time step; the weights are those the
  specification describes (\<open>spec_weights\<close>: the first two singular values replaced by
  their mean, the third multiplied by the z tolerance, inverted, divided by their sum)
  and sum to 1; and the returned joint positions are the current ones plus the time step
  times the returned (limited) velocities. The pseudo-inverse and the singular values are
  those NumPy returns for the Jacobian, taken as given.
\<close>

theorem C6_weighted_pinv_velocity:
  assumes "process_raw_act kin self rnd action = Inr (self', joint_pos, joint_vel)"
  shows "\<exists>q ee ee_xy_norm v.
           current_joint_pos self = Some q \<and> current_ee_pos self = Some ee
         \<and> current_ee_pos_xy_norm self = Some ee_xy_norm
         \<and> joint_vel_raw kin self' q
              (sub3 (target_ee_pos self' rnd (snd (filter_action self ee_xy_norm action))) ee)
             = Inr v
         \<and> v = map (weighted_joint_vel
                       (spec_weights (z_position_control_tolerance self) (jac_svd kin q))
                       (sub3 (target_ee_pos self' rnd (snd (filter_action self ee_xy_norm action))) ee)
                       (sim_dt self))
                  (jac_pinv kin q)
         \<and> sum3 (spec_weights (z_position_control_tolerance self) (jac_svd kin q)) = 1
         \<and> limit_joint_vel (robot_joint_vel_limit_scaled self) v = Inr joint_vel
         \<and> length joint_vel = length q
         \<and> joint_pos = map (\<lambda>(p, v). p + sim_dt self * v) (zip q joint_vel)"
proof -
  from process_raw_act_Inr [OF assms] obtain q ee c v where
    cur: "current_joint_pos self = Some q" "current_ee_pos self = Some ee"
      "current_ee_pos_xy_norm self = Some c"
    and s': "self' = fst (filter_action self c action)"
    and raw: "joint_vel_raw kin self' q
                (sub3 (target_ee_pos self' rnd (snd (filter_action self c action))) ee) = Inr v"
    and lim: "limit_joint_vel (robot_joint_vel_limit_scaled self) v = Inr joint_vel"
    and len: "length q = length joint_vel"
    and jp: "joint_pos = map (\<lambda>(p, v). p + sim_dt self * v) (zip q joint_vel)"
    by blast
  have cfg: "z_position_control_tolerance self' = z_position_control_tolerance self"
      "sim_dt self' = sim_dt self"
    unfolding s' by (simp_all add: filter_action_config)
  from joint_vel_raw_formula [OF raw]
  have "v = map (weighted_joint_vel
                       (spec_weights (z_position_control_tolerance self) (jac_svd kin q))
                       (sub3 (target_ee_pos self' rnd (snd (filter_action self c action))) ee)
                       (sim_dt self))
                  (jac_pinv kin q)"
    and "sum3 (spec_weights (z_position_control_tolerance self) (jac_svd kin q)) = 1"
    unfolding cfg by simp_all
  with cur raw lim len jp show ?thesis by (intro exI [of _ q] exI [of _ ee] exI [of _ c] exI [of _ v]) simp
qed

theorem C6_weighted_pinv_velocity_witness:
  "joint_vel_raw example_kin (example_observed\<lparr>previous_ee_pos_xy_norm := Some (- 1/8, 1/4)\<rparr>)
     [0, 0, 0, 0, 0, 0, 0] (- 3/32, 1/10, 0)
   = Inr [- 175/48, 7/54, 0, 7/864, 0, 35/288, - 70/27]
   \<and> spec_weights (7/20) (3, 1, 1) = (7/54, 7/54, 20/27)
   \<and> [- 175/48, 7/54, 0, 7/864, 0, 35/288, - 70/27]
      = map (weighted_joint_vel (7/54, 7/54, 20/27) (- 3/32, 1/10, 0) (1/10))
          [(30, 0, 0), (0, 1, 0), (0, 0, 1), (1, 1, 0), (0, 0, 0), (- 1, 0, 0), (0, - 20, 0)]
   \<and> [- 1/10, 4/1125, 0, 1/4500, 0, 1/300, - 16/225]
      = map (\<lambda>(p, v). p + 1/10 * v)
          (zip [0, 0, 0, 0, 0, 0, 0] [- 1, 8/225, 0, 1/450, 0, 1/30, - 32/45 :: real])"
proof -
  let ?s' = "example_observed\<lparr>previous_ee_pos_xy_norm := Some (- 1/8, 1/4)\<rparr>"
  from C6_weighted_pinv_velocity [OF example_act]
  obtain q ee c v where
    cur: "current_joint_pos example_observed = Some q" "current_ee_pos example_observed = Some ee"
      "current_ee_pos_xy_norm example_observed = Some c"
    and raw: "joint_vel_raw example_kin ?s' q
              (sub3 (target_ee_pos ?s' example_rnd (snd (filter_action example_observed c (1, 1)))) ee)
             = Inr v"
    and v: "v = map (weighted_joint_vel
                       (spec_weights (z_position_control_tolerance example_observed)
                          (jac_svd example_kin q))
                       (sub3 (target_ee_pos ?s' example_rnd
                                (snd (filter_action example_observed c (1, 1)))) ee)
                       (sim_dt example_observed))
                  (jac_pinv example_kin q)"
    and jp: "[- 1/10, 4/1125, 0, 1/4500, 0, 1/300, - 16/225]
             = map (\<lambda>(p, v). p + sim_dt example_observed * v)
                 (zip q [- 1, 8/225, 0, 1/450, 0, 1/30, - 32/45])"
    by (elim exE conjE) (rule that, assumption+)
  from cur have q: "q = [0, 0, 0, 0, 0, 0, 0]" and ee: "ee = (1, 0, 1/5)" and c: "c = (- 1/2, 0)"
    by (simp_all add: example_observed_def)
  have w: "spec_weights (7/20) (3, 1, 1) = (7/54, 7/54, 20/27)"
    by (simp add: spec_weights_def Let_def)
  have d: "sub3 (target_ee_pos ?s' example_rnd (snd (filter_action example_observed c (1, 1)))) ee
           = (- 3/32, 1/10, 0)"
    unfolding q ee c
    by (simp add: filter_action_def Let_def add2_def scale2_def target_ee_pos_def
        unnormalize_value_def sub3_def example_observed_def example_args_def)
  have cfg: "z_position_control_tolerance example_observed = 7/20"
      "sim_dt example_observed = 1/10" "jac_svd example_kin q = (3, 1, 1)"
      "jac_pinv example_kin q
       = [(30, 0, 0), (0, 1, 0), (0, 0, 1), (1, 1, 0), (0, 0, 0), (- 1, 0, 0), (0, - 20, 0)]"
    by (simp_all add: example_observed_def example_args_def example_kin_def)
  from raw have r: "v = [- 175/48, 7/54, 0, 7/864, 0, 35/288, - 70/27]"
    unfolding d q using example_raw_vel by simp
  from v have "[- 175/48, 7/54, 0, 7/864, 0, 35/288, - 70/27]
      = map (weighted_joint_vel (7/54, 7/54, 20/27) (- 3/32, 1/10, 0) (1/10))
          [(30, 0, 0), (0, 1, 0), (0, 0, 1), (1, 1, 0), (0, 0, 0), (- 1, 0, 0), (0, - 20, 0)]"
    unfolding r d cfg w .
  moreover from jp have "[- 1/10, 4/1125, 0, 1/4500, 0, 1/300, - 16/225]
      = map (\<lambda>(p, v). p + 1/10 * v)
          (zip [0, 0, 0, 0, 0, 0, 0] [- 1, 8/225, 0, 1/450, 0, 1/30, - 32/45 :: real])"
    unfolding q cfg .
  ultimately show ?thesis using example_raw_vel w by blast
qed

text \<open>
  Claim C7. With action filtering enabled the filter returns
  \<open>alpha * previous + (1 - alpha) * target\<close> and stores it as the new previous value, where
  previous is the stored value, or the current normalised end-effector position when none
  is stored; with \<open>alpha = 1\<close> it returns previous, with \<open>alpha = 0\<close> the target; a reset
  clears the stored value, so the first call after it smooths from the current normalised
  end-effector position; and the agent \<open>process_raw_act\<close> returns is the one the filter
  returns.
\<close>

theorem C7_action_filter:
  assumes "filter_actions_enabled self"
  shows "filter_action self current_xy_norm target
         = (self\<lparr>previous_ee_pos_xy_norm :=
                   Some (filter_actions_coefficient self
                           * fst (case previous_ee_pos_xy_norm self of
                                    None \<Rightarrow> current_xy_norm | Some p \<Rightarrow> p)
                         + (1 - filter_actions_coefficient self) * fst target,
                         filter_actions_coefficient self
                           * snd (case previous_ee_pos_xy_norm self of
                                    None \<Rightarrow> current_xy_norm | Some p \<Rightarrow> p)
                         + (1 - filter_actions_coefficient self) * snd target)\<rparr>,
            (filter_actions_coefficient self
               * fst (case previous_ee_pos_xy_norm self of
                        None \<Rightarrow> current_xy_norm | Some p \<Rightarrow> p)
             + (1 - filter_actions_coefficient self) * fst target,
             filter_actions_coefficient self
               * snd (case previous_ee_pos_xy_norm self of
                        None \<Rightarrow> current_xy_norm | Some p \<Rightarrow> p)
             + (1 - filter_actions_coefficient self) * snd target))
       \<and> (filter_actions_coefficient self = 1 \<longrightarrow>
            snd (filter_action self current_xy_norm target)
            = (case previous_ee_pos_xy_norm self of None \<Rightarrow> current_xy_norm | Some p \<Rightarrow> p))
       \<and> (filter_actions_coefficient self = 0 \<longrightarrow>
            snd (filter_action self current_xy_norm target) = target)
       \<and> previous_ee_pos_xy_norm (reset self) = None
       \<and> snd (filter_action (reset self) current_xy_norm target)
          = (filter_actions_coefficient self * fst current_xy_norm
             + (1 - filter_actions_coefficient self) * fst target,
             filter_actions_coefficient self * snd current_xy_norm
             + (1 - filter_actions_coefficient self) * snd target)
       \<and> (\<forall>self' joint_pos joint_vel.
            process_raw_act kin self rnd target = Inr (self', joint_pos, joint_vel) \<longrightarrow>
            (\<exists>c. current_ee_pos_xy_norm self = Some c
                 \<and> self' = fst (filter_action self c target)))"
proof -
  have a: "filter_action self current_xy_norm target
         = (self\<lparr>previous_ee_pos_xy_norm :=
                   Some (filter_actions_coefficient self
                           * fst (case previous_ee_pos_xy_norm self of
                                    None \<Rightarrow> current_xy_norm | Some p \<Rightarrow> p)
                         + (1 - filter_actions_coefficient self) * fst target,
                         filter_actions_coefficient self
                           * snd (case previous_ee_pos_xy_norm self of
                                    None \<Rightarrow> current_xy_norm | Some p \<Rightarrow> p)
                         + (1 - filter_actions_coefficient self) * snd target)\<rparr>,
            (filter_actions_coefficient self
               * fst (case previous_ee_pos_xy_norm self of
                        None \<Rightarrow> current_xy_norm | Some p \<Rightarrow> p)
             + (1 - filter_actions_coefficient self) * fst target,
             filter_actions_coefficient self
               * snd (case previous_ee_pos_xy_norm self of
                        None \<Rightarrow> current_xy_norm | Some p \<Rightarrow> p)
             + (1 - filter_actions_coefficient self) * snd target))"
    using assms by (simp add: filter_action_def Let_def add2_def scale2_def)
  have b: "filter_actions_coefficient self = 1 \<longrightarrow>
            snd (filter_action self current_xy_norm target)
            = (case previous_ee_pos_xy_norm self of None \<Rightarrow> current_xy_norm | Some p \<Rightarrow> p)"
    unfolding a by simp
  have c: "filter_actions_coefficient self = 0 \<longrightarrow>
            snd (filter_action self current_xy_norm target) = target"
    unfolding a by simp
  have d: "previous_ee_pos_xy_norm (reset self) = None"
    using assms by (simp add: reset_def)
  have e: "snd (filter_action (reset self) current_xy_norm target)
          = (filter_actions_coefficient self * fst current_xy_norm
             + (1 - filter_actions_coefficient self) * fst target,
             filter_actions_coefficient self * snd current_xy_norm
             + (1 - filter_actions_coefficient self) * snd target)"
    using assms by (simp add: filter_action_def Let_def add2_def scale2_def reset_def)
  have f: "\<forall>self' joint_pos joint_vel.
            process_raw_act kin self rnd target = Inr (self', joint_pos, joint_vel) \<longrightarrow>
            (\<exists>c. current_ee_pos_xy_norm self = Some c
                 \<and> self' = fst (filter_action self c target))"
    using process_raw_act_Inr by blast
  from a b c d e f show ?thesis by (intro conjI)
qed

theorem C7_action_filter_witness:
  "filter_action example_observed (- 1/2, 0) (1, 1)
   = (example_observed\<lparr>previous_ee_pos_xy_norm := Some (- 1/8, 1/4)\<rparr>, (- 1/8, 1/4))
   \<and> snd (filter_action (example_observed\<lparr>filter_actions_coefficient := 1\<rparr>) (- 1/2, 0) (1, 1))
     = (- 1/2, 0)
   \<and> snd (filter_action (example_observed\<lparr>filter_actions_coefficient := 0\<rparr>) (- 1/2, 0) (1, 1))
     = (1, 1)"
proof -
  have h: "filter_actions_enabled example_observed"
      "filter_actions_enabled (example_observed\<lparr>filter_actions_coefficient := 1\<rparr>)"
      "filter_actions_enabled (example_observed\<lparr>filter_actions_coefficient := 0\<rparr>)"
    by (simp_all add: example_observed_def example_args_def)
  have p: "previous_ee_pos_xy_norm example_observed = None"
      "filter_actions_coefficient example_observed = 3/4"
    by (simp_all add: example_observed_def example_args_def)
  from C7_action_filter [OF h(1), of "(- 1/2, 0)" "(1, 1)"]
  have 1: "filter_action example_observed (- 1/2, 0) (1, 1)
   = (example_observed\<lparr>previous_ee_pos_xy_norm := Some (- 1/8, 1/4)\<rparr>, (- 1/8, 1/4))"
    by (simp add: p)
  from C7_action_filter [OF h(2), of "(- 1/2, 0)" "(1, 1)"]
  have 2: "snd (filter_action (example_observed\<lparr>filter_actions_coefficient := 1\<rparr>) (- 1/2, 0) (1, 1))
     = (- 1/2, 0)"
    by (simp add: p)
  from C7_action_filter [OF h(3), of "(- 1/2, 0)" "(1, 1)"]
  have 3: "snd (filter_action (example_observed\<lparr>filter_actions_coefficient := 0\<rparr>) (- 1/2, 0) (1, 1))
     = (1, 1)"
    by (simp add: p)
  from 1 2 3 show ?thesis by (intro conjI)
qed

subsection \<open>Runs of the observation encoder\<close>

lemma SpaceRAgent_init_defined:
  assumes "2 \<le> scheme args" "scheme args \<le> 7"
  shows "\<exists>self. SpaceRAgent_init args = Inr self"
proof -
  from assms have "scheme args = 2 \<or> scheme args = 3 \<or> scheme args = 4 \<or> scheme args = 5
                   \<or> scheme args = 6 \<or> scheme args = 7"
    by arith
  then show ?thesis
    by (elim disjE) (simp_all add: SpaceRAgent_init_def scheme_setup_def)
qed

lemma example_agent_init:
  assumes "2 \<le> sch" "sch \<le> 7"
  shows "SpaceRAgent_init (example_args sch ev) = Inr (example_agent sch ev)"
proof -
  have "scheme (example_args sch ev) = sch" by (simp add: example_args_def)
  with assms SpaceRAgent_init_defined [of "example_args sch ev"]
  obtain self where "SpaceRAgent_init (example_args sch ev) = Inr self" by auto
  then show ?thesis by (simp add: example_agent_def)
qed

lemma run_obs_length:
  "run_obs kin self ticks = Inr (s', outs) \<Longrightarrow> length outs = length ticks"
proof (induction ticks arbitrary: self outs)
  case Nil
  then show ?case by simp
next
  case (Cons t ts)
  from Cons.prems obtain s1 out outs1 where
    "run_obs kin s1 ts = Inr (s', outs1)" "outs = out # outs1"
    by (auto split: sum.splits)
  with Cons.IH show ?case by auto
qed

lemma in_unit_bounds: "list_all in_unit out \<Longrightarrow> \<forall>x \<in> set out. - 1 \<le> x \<and> x \<le> 1"
  by (simp add: list_all_iff in_unit_def)

text \<open>
  Claim C2. For an agent the constructor returns (so its scheme is one of 2 to 7), in
  training or in evaluation, every element of every vector \<open>process_raw_obs\<close> returns
  during a run lies in \<open>[-1, 1]\<close>, whatever the raw observations are.
\<close>

theorem C2_observation_in_unit_range:
  assumes "SpaceRAgent_init args = Inr self0"
    and "run_obs kin self0 ticks = Inr (self', outs)"
  shows "\<forall>out \<in> set outs. \<forall>x \<in> set out. - 1 \<le> x \<and> x \<le> 1"
proof -
  from SpaceRAgent_init_inv [OF assms(1)] have "agent_inv self0" by simp
  from run_obs_post [OF this assms(2)]
  have "\<forall>out \<in> set outs. list_all in_unit out" by simp
  then show ?thesis using in_unit_bounds by blast
qed

lemma example_well_formed:
  assumes "2 \<le> sch" "sch \<le> 7"
  shows "agent_inv (example_agent sch ev)"
    and "well_shaped (example_agent sch ev) (example_obs x)"
    and "length (obs_joint_pos (example_obs x)) = 7"
    and "\<not> degenerate_ranges (example_agent sch ev)"
    and "evaluate (example_agent sch ev)
         \<or> loss_of_tracking_min_steps (example_agent sch ev)
            < loss_of_tracking_max_steps (example_agent sch ev)"
proof -
  note init = SpaceRAgent_init_inv [OF example_agent_init [OF assms, of ev]]
  from init show "agent_inv (example_agent sch ev)" by simp
  from init have lim: "robot_joint_pos_limit (example_agent sch ev)
                       = ([- 2, - 2, - 2, - 2, - 2, - 2, - 2], [2, 2, 2, 2, 2, 2, 2])"
    and mm: "puck_table_minmax (example_agent sch ev) = ((1/2, 5/2), (- 1/2, 1/2))"
    and tr: "loss_of_tracking_min_steps (example_agent sch ev) = 2"
      "loss_of_tracking_max_steps (example_agent sch ev) = 5"
    by (simp_all add: example_args_def)
  show "well_shaped (example_agent sch ev) (example_obs x)"
    by (simp add: well_shaped_def lim example_obs_def)
  show "length (obs_joint_pos (example_obs x)) = 7" by (simp add: example_obs_def)
  show "\<not> degenerate_ranges (example_agent sch ev)"
    by (simp add: degenerate_ranges_def lim mm)
  show "evaluate (example_agent sch ev)
         \<or> loss_of_tracking_min_steps (example_agent sch ev)
            < loss_of_tracking_max_steps (example_agent sch ev)"
    by (simp add: tr)
qed

lemma example_run_defined:
  assumes "2 \<le> sch" "sch \<le> 7" and "\<forall>t \<in> set ticks. \<exists>x. snd t = example_obs x"
  shows "\<exists>s' outs. run_obs kin (example_agent sch ev) ticks = Inr (s', outs)"
proof (rule run_obs_defined)
  show "agent_inv (example_agent sch ev)" by (rule example_well_formed [OF assms(1,2)])
  show "\<not> degenerate_ranges (example_agent sch ev)" by (rule example_well_formed [OF assms(1,2)])
  show "evaluate (example_agent sch ev)
         \<or> loss_of_tracking_min_steps (example_agent sch ev)
            < loss_of_tracking_max_steps (example_agent sch ev)"
    by (rule example_well_formed [OF assms(1,2)])
  show "\<forall>t\<in>set ticks. well_shaped (example_agent sch ev) (snd t)
          \<and> (scheme (example_agent sch ev) = 6 \<or> scheme (example_agent sch ev) = 7
               \<longrightarrow> length (obs_joint_pos (snd t)) = 7)"
    using assms(3) example_well_formed(2,3) [OF assms(1,2)] by fastforce
qed

theorem C2_observation_in_unit_range_witness:
  "\<exists>self' outs.
     run_obs example_kin (example_agent 7 False)
       [(example_rnd, example_obs 2), (example_rnd, example_obs 3), (example_rnd, example_obs 1)]
     = Inr (self', outs)
   \<and> list_all (list_all in_unit) outs"
proof -
  let ?ticks = "[(example_rnd, example_obs 2), (example_rnd, example_obs 3), (example_rnd, example_obs 1)]"
  have init: "SpaceRAgent_init (example_args 7 False) = Inr (example_agent 7 False)"
    by (rule example_agent_init) simp_all
  have "\<forall>t \<in> set ?ticks. \<exists>x. snd t = example_obs x" by auto
  from example_run_defined [OF _ _ this, of 7 example_kin False]
  obtain s' outs where run: "run_obs example_kin (example_agent 7 False) ?ticks = Inr (s', outs)"
    by auto
  from C2_observation_in_unit_range [OF init run]
  have "list_all (list_all in_unit) outs" by (simp add: list_all_iff in_unit_def)
  with run show ?thesis by blast
qed



lemma process_raw_obs_scheme7_assertion:
  assumes inv: "agent_inv self" and sch: "scheme self = 7"
    and shape: "well_shaped self obs" and nd: "\<not> degenerate_ranges self"
    and ok: "evaluate self \<or> loss_of_tracking_min_steps self < loss_of_tracking_max_steps self"
    and j: "length (obs_joint_pos obs) \<noteq> 7"
  shows "process_raw_obs kin self rnd obs = Inl AssertionError"
proof -
  let ?f = "extract_features kin self rnd obs"
  let ?s1 = "self\<lparr> current_joint_pos := Some (obs_joint_pos obs),
                   current_ee_pos := Some (noisy_ee_pos kin self rnd obs),
                   current_ee_pos_xy_norm := Some (ee_pos_xy_norm ?f) \<rparr>"
  from inv have inv1: "agent_inv ?s1" by (simp only: agent_inv_current)
  from sch have sch1: "scheme ?s1 = 7" by simp
  from obs_scheme7_unfold [of ?s1 rnd ?f] obtain a b t where
    unf: "obs_scheme7 ?s1 rnd ?f
     = (case stack_scheme7 (?s1\<lparr>penalty_side := a, penalty_timer := b\<rparr>) rnd ?f of
          Inl e \<Rightarrow> Inl e
        | Inr self2 \<Rightarrow>
             Inr (self2,
                  clip t (- 1) 1 # joint_pos_norm ?f
                  @ flatten2 (stacked_obs_puck_pos self2)
                  @ flatten2 (stacked_obs_puck_rot self2)
                  @ flatten2 (stacked_obs_participant_ee_pos self2)
                  @ flatten2 (stacked_obs_opponent_ee_pos self2)))"
    by blast
  let ?s2 = "?s1\<lparr>penalty_side := a, penalty_timer := b\<rparr>"
  from sch1 inv1 ok have pre: "scheme ?s2 = 7" "agent_inv ?s2"
      "evaluate ?s2 \<or> loss_of_tracking_min_steps ?s2 < loss_of_tracking_max_steps ?s2"
    by (simp_all add: agent_inv_def scheme_depths_def buffers_full_def buffers_in_unit_def)
  from stack_scheme7_defined [OF pre] obtain s3 where st: "stack_scheme7 ?s2 rnd ?f = Inr s3"
    by blast
  from stack_scheme7_post [OF pre(1,2) features_in_unit_extract st]
  have p: "same_config ?s2 s3" "buffers_full s3" by simp_all
  from p(1) sch have sch3: "scheme s3 = 7" by (simp add: same_config_def)
  from inv sch p(1) have d: "n_stacked_obs_participant_ee_pos s3 = 2"
      "n_stacked_obs_opponent_ee_pos s3 = 2" "n_stacked_obs_puck_pos s3 = 10"
      "n_stacked_obs_puck_rot s3 = 2"
    by (simp_all add: agent_inv_def scheme_depths_def same_config_def)
  from p(2) sch3 d have len: "length (stacked_obs_participant_ee_pos s3) = 2"
      "length (stacked_obs_opponent_ee_pos s3) = 2" "length (stacked_obs_puck_pos s3) = 10"
      "length (stacked_obs_puck_rot s3) = 2"
    by (simp_all add: buffers_full_def)
  have os: "observation_space s3 = 40"
    using sch3 d by (simp add: observation_space_def)
  have lj: "length (joint_pos_norm ?f) = length (obs_joint_pos obs)"
    using shape by (simp add: extract_features_def length_norm_clip_joints well_shaped_def)
  have enc: "encode_scheme ?s1 rnd ?f
             = Inr (s3, clip t (- 1) 1 # joint_pos_norm ?f
                  @ flatten2 (stacked_obs_puck_pos s3)
                  @ flatten2 (stacked_obs_puck_rot s3)
                  @ flatten2 (stacked_obs_participant_ee_pos s3)
                  @ flatten2 (stacked_obs_opponent_ee_pos s3))"
    using sch by (simp add: encode_scheme_def unf st)
  from j have ne: "length (clip t (- 1) 1 # joint_pos_norm ?f
                  @ flatten2 (stacked_obs_puck_pos s3)
                  @ flatten2 (stacked_obs_puck_rot s3)
                  @ flatten2 (stacked_obs_participant_ee_pos s3)
                  @ flatten2 (stacked_obs_opponent_ee_pos s3))
                   \<noteq> observation_space s3"
    by (simp add: os lj len length_flatten2)
  from shape nd show ?thesis
    unfolding process_raw_obs_def Let_def enc sum.case prod.case
    using ne by (simp add: well_shaped_def)
qed







subsection \<open>Evaluation mode\<close>

lemma extract_features_eval:
  "evaluate self \<Longrightarrow> extract_features kin self r1 obs = extract_features kin self r2 obs"
  by (simp add: extract_features_def noisy_ee_pos_def noisy_opponent_xy_def noisy_puck_pos_def)

lemma noisy_ee_pos_eval:
  "evaluate self \<Longrightarrow> noisy_ee_pos kin self r1 obs = noisy_ee_pos kin self r2 obs"
  by (simp add: noisy_ee_pos_def)

lemma extract_features_eval_puck:
  "evaluate self \<Longrightarrow>
   puck_pos_xy_norm (extract_features kin self rnd obs)
     = norm_clip_xy (puck_table_minmax self) (xy (obs_puck_pos obs))
   \<and> puck_rot_yaw_norm (extract_features kin self rnd obs)
     = (sin (snd (snd (obs_puck_pos obs))), cos (snd (snd (obs_puck_pos obs))))"
  by (simp add: extract_features_def noisy_puck_pos_def)

lemma track_puck_eval:
  "evaluate self \<Longrightarrow> track_puck self r1 f = track_puck self r2 f"
  by (simp add: track_puck_def)

lemma stack_scheme7_eval:
  "evaluate self \<Longrightarrow> stack_scheme7 self r1 f = stack_scheme7 self r2 f"
  by (simp add: stack_scheme7_def track_puck_eval [of self r1 f r2])

lemma signed_penalty_timer_evaluate:
  "evaluate (fst (signed_penalty_timer self x)) = evaluate self"
  using signed_penalty_timer_shape [of self x] by auto

lemma obs_scheme7_eval:
  assumes "evaluate self"
  shows "obs_scheme7 self r1 f = obs_scheme7 self r2 f"
proof -
  obtain s1 t where sp: "signed_penalty_timer self (fst (puck_pos_xy_norm f)) = (s1, t)"
    by (cases "signed_penalty_timer self (fst (puck_pos_xy_norm f))")
  with assms signed_penalty_timer_evaluate [of self "fst (puck_pos_xy_norm f)"]
  have "evaluate s1" by simp
  then have "stack_scheme7 s1 r1 f = stack_scheme7 s1 r2 f" by (rule stack_scheme7_eval)
  then show ?thesis by (simp add: obs_scheme7_def sp Let_def)
qed

lemma encode_scheme_eval:
  "evaluate self \<Longrightarrow> encode_scheme self r1 f = encode_scheme self r2 f"
  by (simp add: encode_scheme_def obs_scheme7_eval [of self r1 f r2])

lemma process_raw_obs_eval:
  assumes "evaluate self"
  shows "process_raw_obs kin self r1 obs = process_raw_obs kin self r2 obs"
proof -
  have f: "extract_features kin self r1 obs = extract_features kin self r2 obs"
    using assms by (rule extract_features_eval)
  have e: "noisy_ee_pos kin self r1 obs = noisy_ee_pos kin self r2 obs"
    using assms by (rule noisy_ee_pos_eval)
  let ?s1 = "self\<lparr> current_joint_pos := Some (obs_joint_pos obs),
                   current_ee_pos := Some (noisy_ee_pos kin self r2 obs),
                   current_ee_pos_xy_norm :=
                     Some (ee_pos_xy_norm (extract_features kin self r2 obs)) \<rparr>"
  from assms have "evaluate ?s1" by simp
  then have "encode_scheme ?s1 r1 (extract_features kin self r2 obs)
             = encode_scheme ?s1 r2 (extract_features kin self r2 obs)"
    by (rule encode_scheme_eval)
  then show ?thesis
    unfolding process_raw_obs_def f e Let_def by simp
qed

lemma process_raw_act_eval:
  assumes "evaluate self"
  shows "process_raw_act kin self r1 action = process_raw_act kin self r2 action"
proof -
  have "\<And>s t. evaluate s \<Longrightarrow> target_ee_pos s r1 t = target_ee_pos s r2 t"
    by (simp add: target_ee_pos_def)
  moreover have "\<And>c. evaluate (fst (filter_action self c action))"
    using assms by (simp add: filter_action_config)
  ultimately have t: "\<And>c. target_ee_pos (fst (filter_action self c action)) r1
                             (snd (filter_action self c action))
                       = target_ee_pos (fst (filter_action self c action)) r2
                             (snd (filter_action self c action))"
    by blast
  show ?thesis
    unfolding process_raw_act_def Let_def split_beta t ..
qed

lemma run_obs_eval:
  assumes "agent_inv self" "evaluate self" "map snd ticks1 = map snd ticks2"
  shows "run_obs kin self ticks1 = run_obs kin self ticks2"
  using assms
proof (induction ticks1 arbitrary: self ticks2)
  case Nil
  then show ?case by simp
next
  case (Cons t ts)
  from Cons.prems(3) obtain u us where t2: "ticks2 = u # us" and hd: "snd t = snd u"
    and tl: "map snd ts = map snd us"
    by (cases ticks2) auto
  have tick: "process_raw_obs kin self (fst t) (snd t) = process_raw_obs kin self (fst u) (snd u)"
    unfolding hd using Cons.prems(2) by (rule process_raw_obs_eval)
  show ?case
  proof (cases "process_raw_obs kin self (fst u) (snd u)")
    case (Inl e)
    with tick show ?thesis by (simp add: t2)
  next
    case (Inr r)
    obtain s1 out where r: "r = (s1, out)" by (cases r)
    from process_raw_obs_post [OF Cons.prems(1) Inr [unfolded r]]
    have "agent_inv s1" "same_config self s1" by simp_all
    with Cons.prems(2) have "agent_inv s1" "evaluate s1" by (simp_all add: same_config_def)
    from Cons.IH [OF this tl] have "run_obs kin s1 ts = run_obs kin s1 us" .
    with tick Inr r show ?thesis by (simp add: t2)
  qed
qed

lemma last_fill_deque:
  "0 < n \<Longrightarrow> xs \<noteq> [] \<Longrightarrow> last xs = x \<Longrightarrow> last (fill_deque n xs x) = x"
proof (induction n xs x rule: fill_deque.induct)
  case (1 n xs x)
  show ?case
  proof (cases "n = length xs")
    case True
    with 1 show ?thesis by (subst fill_deque.simps) simp
  next
    case False
    from 1(2) have "deque_append n xs x \<noteq> []" "last (deque_append n xs x) = x"
      by (simp_all add: deque_append_ne last_deque_append)
    with 1 False have "last (fill_deque n (deque_append n xs x) x) = x" by simp
    with False show ?thesis by (subst fill_deque.simps) simp
  qed
qed

lemma last_stack_fill: "0 < n \<Longrightarrow> last (stack_fill n xs x) = x"
  by (simp add: stack_fill_def last_fill_deque deque_append_ne last_deque_append)

lemma last_stack_episode:
  "0 < n \<Longrightarrow> 0 < k \<Longrightarrow> last (stack_episode new k n xs x) = x"
  by (simp add: stack_episode_def last_deque_append last_deque_extend)

lemma obs_scheme2_puck:
  "stacked_obs_puck_pos (fst (obs_scheme2 self f))
   = stack_fill (n_stacked_obs_puck_pos self) (stacked_obs_puck_pos self) (puck_pos_xy_norm f)"
proof -
  let ?s1 = "stack_fill_all self f"
  obtain b where "fst (unsigned_penalty_timer ?s1 (fst (puck_pos_xy_norm f))) = ?s1\<lparr>penalty_timer := b\<rparr>"
    using unsigned_penalty_timer_shape by blast
  then show ?thesis
    by (simp add: obs_scheme2_def Let_def split_beta stack_fill_all_def)
qed

lemma obs_scheme34_puck:
  "stacked_obs_puck_pos (fst (obs_scheme34 self f))
   = stack_fill (n_stacked_obs_puck_pos self) (stacked_obs_puck_pos self) (puck_pos_xy_norm f)"
proof -
  let ?s1 = "stack_fill_all self f"
  obtain a b where "fst (signed_penalty_timer ?s1 (fst (puck_pos_xy_norm f)))
                    = ?s1\<lparr>penalty_side := a, penalty_timer := b\<rparr>"
    using signed_penalty_timer_shape by blast
  then show ?thesis
    by (simp add: obs_scheme34_def Let_def split_beta stack_fill_all_def)
qed

lemma stack_episode_all_puck:
  assumes "fst (signed_penalty_timer self x) = self\<lparr>penalty_side := a, penalty_timer := b\<rparr>"
  shows "stacked_obs_puck_pos (stack_episode_all (fst (signed_penalty_timer self x)) f)
   = stack_episode (new_episode self) (n_stacked_obs self) (n_stacked_obs_puck_pos self)
       (stacked_obs_puck_pos self) (puck_pos_xy_norm f)"
  unfolding assms by (simp add: stack_episode_all_def)

lemma obs_scheme5_puck:
  "stacked_obs_puck_pos (fst (obs_scheme5 self f))
   = stack_episode (new_episode self) (n_stacked_obs self) (n_stacked_obs_puck_pos self)
       (stacked_obs_puck_pos self) (puck_pos_xy_norm f)"
proof -
  obtain a b where sh: "fst (signed_penalty_timer self (fst (puck_pos_xy_norm f)))
                    = self\<lparr>penalty_side := a, penalty_timer := b\<rparr>"
    using signed_penalty_timer_shape by blast
  show ?thesis
    using stack_episode_all_puck [OF sh, of f]
    by (simp add: obs_scheme5_def Let_def split_beta)
qed

lemma obs_scheme6_puck:
  "stacked_obs_puck_pos (fst (obs_scheme6 self f))
   = stack_episode (new_episode self) (n_stacked_obs self) (n_stacked_obs_puck_pos self)
       (stacked_obs_puck_pos self) (puck_pos_xy_norm f)"
proof -
  obtain a b where sh: "fst (signed_penalty_timer self (fst (puck_pos_xy_norm f)))
                    = self\<lparr>penalty_side := a, penalty_timer := b\<rparr>"
    using signed_penalty_timer_shape by blast
  show ?thesis
    using stack_episode_all_puck [OF sh, of f]
    by (simp add: obs_scheme6_def Let_def split_beta)
qed

lemma stack_scheme7_eval_puck:
  assumes "evaluate self" and "stack_scheme7 self rnd f = Inr s2"
    and "0 < n_stacked_obs_puck_pos self" "0 < n_stacked_obs_puck_rot self"
  shows "last (stacked_obs_puck_pos s2) = puck_pos_xy_norm f
       \<and> last (stacked_obs_puck_rot s2) = puck_rot_yaw_norm f"
proof (cases "new_episode self")
  case True
  with assms(2) have "stacked_obs_puck_pos s2
        = deque_extend (n_stacked_obs_puck_pos self) (stacked_obs_puck_pos self)
            (replicate (n_stacked_obs_puck_pos self) (puck_pos_xy_norm f))"
      "stacked_obs_puck_rot s2
        = deque_extend (n_stacked_obs_puck_rot self) (stacked_obs_puck_rot self)
            (replicate (n_stacked_obs_puck_rot self) (puck_rot_yaw_norm f))"
    by (auto simp: stack_scheme7_def)
  with assms(3,4) show ?thesis by (simp add: last_deque_extend)
next
  case False
  with assms(1,2) have "stacked_obs_puck_pos s2
        = deque_append (n_stacked_obs_puck_pos self) (stacked_obs_puck_pos self) (puck_pos_xy_norm f)"
      "stacked_obs_puck_rot s2
        = deque_append (n_stacked_obs_puck_rot self) (stacked_obs_puck_rot self) (puck_rot_yaw_norm f)"
    by (auto simp: stack_scheme7_def track_puck_def push_puck_def)
  with assms(3,4) show ?thesis by (simp add: last_deque_append)
qed

lemma obs_scheme7_eval_puck:
  assumes "evaluate self" and "obs_scheme7 self rnd f = Inr (s2, out)"
    and "0 < n_stacked_obs_puck_pos self" "0 < n_stacked_obs_puck_rot self"
  shows "last (stacked_obs_puck_pos s2) = puck_pos_xy_norm f
       \<and> last (stacked_obs_puck_rot s2) = puck_rot_yaw_norm f"
proof -
  obtain a b where sh: "fst (signed_penalty_timer self (fst (puck_pos_xy_norm f)))
                    = self\<lparr>penalty_side := a, penalty_timer := b\<rparr>"
    using signed_penalty_timer_shape by blast
  let ?s1 = "self\<lparr>penalty_side := a, penalty_timer := b\<rparr>"
  from assms(2) sh have st: "stack_scheme7 ?s1 rnd f = Inr s2"
    by (auto simp: obs_scheme7_def Let_def split_beta split: sum.splits)
  from assms(1,3,4) have "evaluate ?s1" "0 < n_stacked_obs_puck_pos ?s1"
      "0 < n_stacked_obs_puck_rot ?s1"
    by simp_all
  from stack_scheme7_eval_puck [OF this(1) st this(2,3)] show ?thesis .
qed

lemma encode_scheme_fresh:
  assumes inv: "agent_inv self" and ev: "evaluate self" and fu: "features_in_unit f"
    and res: "encode_scheme self rnd f = Inr (s2, out)"
  shows "stacked_obs_puck_pos s2 \<noteq> []
       \<and> last (stacked_obs_puck_pos s2) = puck_pos_xy_norm f
       \<and> (scheme self = 7 \<longrightarrow> stacked_obs_puck_rot s2 \<noteq> []
            \<and> last (stacked_obs_puck_rot s2) = puck_rot_yaw_norm f)"
proof -
  from inv have d: "scheme_depths self" by (simp add: agent_inv_def)
  from d have np: "0 < n_stacked_obs_puck_pos self"
    by (auto simp: scheme_depths_def)
  from d have nr: "scheme self = 7 \<Longrightarrow> 0 < n_stacked_obs_puck_rot self"
    by (auto simp: scheme_depths_def)
  from d have nk: "scheme self = 5 \<or> scheme self = 6 \<Longrightarrow> 0 < n_stacked_obs self"
    by (auto simp: scheme_depths_def)
  from d have sch: "scheme self = 2 \<or> scheme self = 3 \<or> scheme self = 4 \<or> scheme self = 5
                      \<or> scheme self = 6 \<or> scheme self = 7"
    by (auto simp: scheme_depths_def)
  have lastp: "last (stacked_obs_puck_pos s2) = puck_pos_xy_norm f
             \<and> (scheme self = 7 \<longrightarrow> last (stacked_obs_puck_rot s2) = puck_rot_yaw_norm f)"
  proof -
    consider "scheme self = 2" | "scheme self = 3 \<or> scheme self = 4" | "scheme self = 5"
      | "scheme self = 6" | "scheme self = 7"
      using sch by blast
    then show ?thesis
    proof cases
      case 1
      with res have "s2 = fst (obs_scheme2 self f)" by (simp add: encode_scheme_def)
      with 1 np show ?thesis by (simp add: obs_scheme2_puck last_stack_fill)
    next
      case 2
      with res have "s2 = fst (obs_scheme34 self f)" by (auto simp: encode_scheme_def)
      with 2 np show ?thesis by (auto simp: obs_scheme34_puck last_stack_fill)
    next
      case 3
      with res have "s2 = fst (obs_scheme5 self f)" by (simp add: encode_scheme_def)
      with 3 np nk show ?thesis by (simp add: obs_scheme5_puck last_stack_episode)
    next
      case 4
      with res have "s2 = fst (obs_scheme6 self f)" by (simp add: encode_scheme_def)
      with 4 np nk show ?thesis by (simp add: obs_scheme6_puck last_stack_episode)
    next
      case 5
      with res have "obs_scheme7 self rnd f = Inr (s2, out)" by (simp add: encode_scheme_def)
      from obs_scheme7_eval_puck [OF ev this np nr [OF 5]] show ?thesis by simp
    qed
  qed
  from encode_scheme_post [OF inv fu res]
  have full: "buffers_full s2" and sc: "same_config self s2"
    by (simp_all add: tick_post_def)
  from full sc np have "stacked_obs_puck_pos s2 \<noteq> []"
    by (auto simp: buffers_full_def same_config_def)
  moreover from full sc nr have "scheme self = 7 \<longrightarrow> stacked_obs_puck_rot s2 \<noteq> []"
    by (auto simp: buffers_full_def same_config_def)
  ultimately show ?thesis using lastp by simp
qed

text \<open>
  Claim C5. For an agent constructed in evaluation mode, at any state a run reaches:
  \<open>process_raw_obs\<close> and \<open>process_raw_act\<close> give the same result whatever the random
  samples are (no sample is read, so no observation noise, no action noise and no
  tracking loss takes part), a whole run gives the same result for the same raw
  observations, and the puck position (in scheme 7 also the puck rotation) a tick pushes
  last into the history is the one of the current raw observation.
\<close>

theorem C5_evaluation_deterministic:
  assumes "SpaceRAgent_init args = Inr self0" and "evaluate args"
    and "run_obs kin self0 ticks = Inr (self, outs)"
  shows "process_raw_obs kin self rnd1 obs = process_raw_obs kin self rnd2 obs
       \<and> process_raw_act kin self rnd1 action = process_raw_act kin self rnd2 action
       \<and> (\<forall>ticks1 ticks2. map snd ticks1 = map snd ticks2 \<longrightarrow>
             run_obs kin self0 ticks1 = run_obs kin self0 ticks2)
       \<and> (\<forall>self' out. process_raw_obs kin self rnd1 obs = Inr (self', out) \<longrightarrow>
             stacked_obs_puck_pos self' \<noteq> []
             \<and> last (stacked_obs_puck_pos self')
                 = norm_clip_xy (puck_table_minmax self) (xy (obs_puck_pos obs))
             \<and> (scheme self = 7 \<longrightarrow>
                  stacked_obs_puck_rot self' \<noteq> []
                  \<and> last (stacked_obs_puck_rot self')
                      = (sin (snd (snd (obs_puck_pos obs))), cos (snd (snd (obs_puck_pos obs))))))"
proof -
  note init = SpaceRAgent_init_inv [OF assms(1)]
  from init assms(2) have inv0: "agent_inv self0" and ev0: "evaluate self0" by simp_all
  from run_obs_post [OF inv0 assms(3)] ev0
  have inv: "agent_inv self" and ev: "evaluate self"
    by (simp_all add: same_config_def)
  have a: "process_raw_obs kin self rnd1 obs = process_raw_obs kin self rnd2 obs"
    using ev by (rule process_raw_obs_eval)
  have b: "process_raw_act kin self rnd1 action = process_raw_act kin self rnd2 action"
    using ev by (rule process_raw_act_eval)
  have c: "\<forall>ticks1 ticks2. map snd ticks1 = map snd ticks2 \<longrightarrow>
             run_obs kin self0 ticks1 = run_obs kin self0 ticks2"
    using run_obs_eval [OF inv0 ev0] by blast
  have d: "\<forall>self' out. process_raw_obs kin self rnd1 obs = Inr (self', out) \<longrightarrow>
             stacked_obs_puck_pos self' \<noteq> []
             \<and> last (stacked_obs_puck_pos self')
                 = norm_clip_xy (puck_table_minmax self) (xy (obs_puck_pos obs))
             \<and> (scheme self = 7 \<longrightarrow>
                  stacked_obs_puck_rot self' \<noteq> []
                  \<and> last (stacked_obs_puck_rot self')
                      = (sin (snd (snd (obs_puck_pos obs))), cos (snd (snd (obs_puck_pos obs)))))"
  proof (intro allI impI)
    fix self' out
    assume res: "process_raw_obs kin self rnd1 obs = Inr (self', out)"
    let ?f = "extract_features kin self rnd1 obs"
    let ?s1 = "self\<lparr> current_joint_pos := Some (obs_joint_pos obs),
                   current_ee_pos := Some (noisy_ee_pos kin self rnd1 obs),
                   current_ee_pos_xy_norm := Some (ee_pos_xy_norm ?f) \<rparr>"
    from process_raw_obs_Inr [OF res]
    have enc: "encode_scheme ?s1 rnd1 ?f = Inr (self', out)" by simp
    from inv have inv1: "agent_inv ?s1" by (simp only: agent_inv_current)
    from ev have ev1: "evaluate ?s1" by simp
    from encode_scheme_fresh [OF inv1 ev1 features_in_unit_extract enc]
      extract_features_eval_puck [OF ev, of kin rnd1 obs]
    show "stacked_obs_puck_pos self' \<noteq> []
             \<and> last (stacked_obs_puck_pos self')
                 = norm_clip_xy (puck_table_minmax self) (xy (obs_puck_pos obs))
             \<and> (scheme self = 7 \<longrightarrow>
                  stacked_obs_puck_rot self' \<noteq> []
                  \<and> last (stacked_obs_puck_rot self')
                      = (sin (snd (snd (obs_puck_pos obs))), cos (snd (snd (obs_puck_pos obs)))))"
      by simp
  qed
  from a b c d show ?thesis by (intro conjI)
qed

lemma run_obs_two:
  assumes "run_obs kin self [t1, t2] = Inr (s2, outs)"
  shows "\<exists>s1 o1 o2. run_obs kin self [t1] = Inr (s1, [o1])
           \<and> process_raw_obs kin s1 (fst t2) (snd t2) = Inr (s2, o2)"
  using assms by (auto split: sum.splits)

theorem C5_evaluation_deterministic_witness:
  "\<exists>self outs self' out.
     run_obs example_kin (example_agent 7 True) [(example_rnd, example_obs 2)] = Inr (self, outs)
   \<and> process_raw_obs example_kin self example_rnd (example_obs 1) = Inr (self', out)
   \<and> process_raw_obs example_kin self example_noise (example_obs 1) = Inr (self', out)
   \<and> process_raw_act example_kin self example_rnd (1, 1)
     = process_raw_act example_kin self example_noise (1, 1)
   \<and> last (stacked_obs_puck_pos self') = (- 1/2, 0)
   \<and> last (stacked_obs_puck_rot self') = (0, 1)"
proof -
  have init: "SpaceRAgent_init (example_args 7 True) = Inr (example_agent 7 True)"
    by (rule example_agent_init) simp_all
  have ev: "evaluate (example_args 7 True)" by (simp add: example_args_def)
  have "\<forall>t \<in> set [(example_rnd, example_obs 2), (example_rnd, example_obs 1)].
          \<exists>x. snd t = example_obs x"
    by auto
  from example_run_defined [OF _ _ this, of 7 example_kin True]
  obtain s2 outs2 where
    "run_obs example_kin (example_agent 7 True)
       [(example_rnd, example_obs 2), (example_rnd, example_obs 1)] = Inr (s2, outs2)"
    by auto
  from run_obs_two [OF this] obtain s1 o1 o2 where
    run: "run_obs example_kin (example_agent 7 True) [(example_rnd, example_obs 2)] = Inr (s1, [o1])"
    and tick: "process_raw_obs example_kin s1 example_rnd (example_obs 1) = Inr (s2, o2)"
    by auto
  note c5 = C5_evaluation_deterministic [OF init ev run,
      of example_rnd "example_obs 1" example_noise "(1, 1)"]
  from c5 tick have t2: "process_raw_obs example_kin s1 example_noise (example_obs 1) = Inr (s2, o2)"
    by simp
  from c5 have act: "process_raw_act example_kin s1 example_rnd (1, 1)
                     = process_raw_act example_kin s1 example_noise (1, 1)"
    by simp
  from SpaceRAgent_init_inv [OF init] have inv0: "agent_inv (example_agent 7 True)"
    and sch0: "scheme (example_agent 7 True) = 7"
    and mm0: "puck_table_minmax (example_agent 7 True) = ((1/2, 5/2), (- 1/2, 1/2))"
    by (simp_all add: example_args_def)
  from run_obs_post [OF inv0 run] sch0 mm0 have sch: "scheme s1 = 7"
    and mm: "puck_table_minmax s1 = ((1/2, 5/2), (- 1/2, 1/2))"
    by (simp_all add: same_config_def)
  from c5 tick have "last (stacked_obs_puck_pos s2)
                 = norm_clip_xy (puck_table_minmax s1) (xy (obs_puck_pos (example_obs 1)))"
    and "scheme s1 = 7 \<longrightarrow> last (stacked_obs_puck_rot s2)
                      = (sin (snd (snd (obs_puck_pos (example_obs 1)))),
                         cos (snd (snd (obs_puck_pos (example_obs 1)))))"
    by simp_all
  with sch have "last (stacked_obs_puck_pos s2) = (- 1/2, 0)"
      "last (stacked_obs_puck_rot s2) = (0, 1)"
    by (simp_all add: mm example_obs_def norm_clip_xy_def normalize_value_def clip_def xy_def)
  with run tick t2 act
  have "run_obs example_kin (example_agent 7 True) [(example_rnd, example_obs 2)] = Inr (s1, [o1])
   \<and> process_raw_obs example_kin s1 example_rnd (example_obs 1) = Inr (s2, o2)
   \<and> process_raw_obs example_kin s1 example_noise (example_obs 1) = Inr (s2, o2)
   \<and> process_raw_act example_kin s1 example_rnd (1, 1)
     = process_raw_act example_kin s1 example_noise (1, 1)
   \<and> last (stacked_obs_puck_pos s2) = (- 1/2, 0)
   \<and> last (stacked_obs_puck_rot s2) = (0, 1)"
    by (intro conjI)
  then show ?thesis by (intro exI)
qed

subsection \<open>The penalty timer\<close>

lemma signed_penalty_timer_next:
  "penalty_side (fst (signed_penalty_timer self x)) = Some (next_side (penalty_side self) (np_sign x))"
  "penalty_timer (fst (signed_penalty_timer self x))
   = next_timer (penalty_side self) (penalty_timer self) (sim_dt self) (np_sign x)"
  "snd (signed_penalty_timer self x)
   = next_side (penalty_side self) (np_sign x)
     * next_timer (penalty_side self) (penalty_timer self) (sim_dt self) (np_sign x)
     / MAX_TIME_UNTIL_PENALTY_S"
  by (simp_all add: signed_penalty_timer_def next_side_def next_timer_def split: option.splits)

lemma hd_clip_all: "hd (clip_all (t # v)) = clip t (- 1) 1" "clip_all (t # v) \<noteq> []"
  by (simp_all add: clip_all_def)

lemma obs_scheme34_penalty:
  "penalty_side (fst (obs_scheme34 self f))
     = Some (next_side (penalty_side self) (np_sign (fst (puck_pos_xy_norm f))))
   \<and> penalty_timer (fst (obs_scheme34 self f))
     = next_timer (penalty_side self) (penalty_timer self) (sim_dt self)
         (np_sign (fst (puck_pos_xy_norm f)))
   \<and> snd (obs_scheme34 self f) \<noteq> []
   \<and> hd (snd (obs_scheme34 self f))
     = clip (next_side (penalty_side self) (np_sign (fst (puck_pos_xy_norm f)))
             * next_timer (penalty_side self) (penalty_timer self) (sim_dt self)
                 (np_sign (fst (puck_pos_xy_norm f)))
             / MAX_TIME_UNTIL_PENALTY_S) (- 1) 1"
proof -
  let ?s1 = "stack_fill_all self f"
  have frame: "penalty_side ?s1 = penalty_side self" "penalty_timer ?s1 = penalty_timer self"
      "sim_dt ?s1 = sim_dt self"
    by (simp_all add: stack_fill_all_def)
  show ?thesis
    using signed_penalty_timer_next [of ?s1 "fst (puck_pos_xy_norm f)"]
    unfolding frame
    by (simp add: obs_scheme34_def Let_def split_beta hd_clip_all)
qed

lemma stack_episode_all_penalty:
  "penalty_side (stack_episode_all self f) = penalty_side self"
  "penalty_timer (stack_episode_all self f) = penalty_timer self"
  by (simp_all add: stack_episode_all_def)

lemma obs_scheme5_penalty:
  "penalty_side (fst (obs_scheme5 self f))
     = Some (next_side (penalty_side self) (np_sign (fst (puck_pos_xy_norm f))))
   \<and> penalty_timer (fst (obs_scheme5 self f))
     = next_timer (penalty_side self) (penalty_timer self) (sim_dt self)
         (np_sign (fst (puck_pos_xy_norm f)))
   \<and> snd (obs_scheme5 self f) \<noteq> []
   \<and> hd (snd (obs_scheme5 self f))
     = clip (next_side (penalty_side self) (np_sign (fst (puck_pos_xy_norm f)))
             * next_timer (penalty_side self) (penalty_timer self) (sim_dt self)
                 (np_sign (fst (puck_pos_xy_norm f)))
             / MAX_TIME_UNTIL_PENALTY_S) (- 1) 1"
  using signed_penalty_timer_next [of self "fst (puck_pos_xy_norm f)"]
  by (simp add: obs_scheme5_def Let_def split_beta stack_episode_all_penalty)

lemma obs_scheme6_penalty:
  "penalty_side (fst (obs_scheme6 self f))
     = Some (next_side (penalty_side self) (np_sign (fst (puck_pos_xy_norm f))))
   \<and> penalty_timer (fst (obs_scheme6 self f))
     = next_timer (penalty_side self) (penalty_timer self) (sim_dt self)
         (np_sign (fst (puck_pos_xy_norm f)))
   \<and> snd (obs_scheme6 self f) \<noteq> []
   \<and> hd (snd (obs_scheme6 self f))
     = clip (next_side (penalty_side self) (np_sign (fst (puck_pos_xy_norm f)))
             * next_timer (penalty_side self) (penalty_timer self) (sim_dt self)
                 (np_sign (fst (puck_pos_xy_norm f)))
             / MAX_TIME_UNTIL_PENALTY_S) (- 1) 1"
  using signed_penalty_timer_next [of self "fst (puck_pos_xy_norm f)"]
  by (simp add: obs_scheme6_def Let_def split_beta stack_episode_all_penalty)

lemma stack_scheme7_penalty:
  assumes "stack_scheme7 self rnd f = Inr s2"
  shows "penalty_side s2 = penalty_side self \<and> penalty_timer s2 = penalty_timer self"
proof (cases "new_episode self")
  case True
  with assms show ?thesis by (auto simp: stack_scheme7_def)
next
  case False
  with assms obtain s1 where s1: "track_puck self rnd f = Inr s1"
    and s2: "s2 = s1\<lparr> stacked_obs_participant_ee_pos :=
                              deque_append (n_stacked_obs_participant_ee_pos s1)
                                (stacked_obs_participant_ee_pos s1) (ee_pos_xy_norm f),
                            stacked_obs_opponent_ee_pos :=
                              deque_append (n_stacked_obs_opponent_ee_pos s1)
                                (stacked_obs_opponent_ee_pos s1)
                                (opponent_ee_pos_xy_norm f) \<rparr>"
    by (auto simp: stack_scheme7_def split: sum.splits)
  from track_puck_shape [OF s1] obtain p r n pr where
    "s1 = (push_puck self p r)\<lparr>lose_tracking_n_steps_remaining := n,
                                   lose_tracking_probability := pr\<rparr>"
    by blast
  then show ?thesis unfolding s2 by (simp add: push_puck_def)
qed

lemma obs_scheme7_penalty:
  assumes "obs_scheme7 self rnd f = Inr (s2, out)"
  shows "penalty_side s2
     = Some (next_side (penalty_side self) (np_sign (fst (puck_pos_xy_norm f))))
   \<and> penalty_timer s2
     = next_timer (penalty_side self) (penalty_timer self) (sim_dt self)
         (np_sign (fst (puck_pos_xy_norm f)))
   \<and> out \<noteq> []
   \<and> hd out
     = clip (next_side (penalty_side self) (np_sign (fst (puck_pos_xy_norm f)))
             * next_timer (penalty_side self) (penalty_timer self) (sim_dt self)
                 (np_sign (fst (puck_pos_xy_norm f)))
             / MAX_TIME_UNTIL_PENALTY_S) (- 1) 1"
proof -
  obtain s1 t where sp: "signed_penalty_timer self (fst (puck_pos_xy_norm f)) = (s1, t)"
    by (cases "signed_penalty_timer self (fst (puck_pos_xy_norm f))")
  from assms sp have st: "stack_scheme7 s1 rnd f = Inr s2"
    and out: "out = clip t (- 1) 1 # joint_pos_norm f
                  @ flatten2 (stacked_obs_puck_pos s2)
                  @ flatten2 (stacked_obs_puck_rot s2)
                  @ flatten2 (stacked_obs_participant_ee_pos s2)
                  @ flatten2 (stacked_obs_opponent_ee_pos s2)"
    by (auto simp: obs_scheme7_def Let_def split: sum.splits)
  from stack_scheme7_penalty [OF st]
  have fr: "penalty_side s2 = penalty_side s1" "penalty_timer s2 = penalty_timer s1" by simp_all
  from signed_penalty_timer_next [of self "fst (puck_pos_xy_norm f)"] sp
  show ?thesis unfolding fr out by simp
qed

lemma encode_scheme_penalty:
  assumes "3 \<le> scheme self" "scheme self \<le> 7"
    and res: "encode_scheme self rnd f = Inr (s2, out)"
  shows "penalty_side s2
     = Some (next_side (penalty_side self) (np_sign (fst (puck_pos_xy_norm f))))
   \<and> penalty_timer s2
     = next_timer (penalty_side self) (penalty_timer self) (sim_dt self)
         (np_sign (fst (puck_pos_xy_norm f)))
   \<and> out \<noteq> []
   \<and> hd out
     = clip (next_side (penalty_side self) (np_sign (fst (puck_pos_xy_norm f)))
             * next_timer (penalty_side self) (penalty_timer self) (sim_dt self)
                 (np_sign (fst (puck_pos_xy_norm f)))
             / MAX_TIME_UNTIL_PENALTY_S) (- 1) 1"
proof -
  from assms(1,2) have "scheme self = 3 \<or> scheme self = 4 \<or> scheme self = 5
                        \<or> scheme self = 6 \<or> scheme self = 7"
    by arith
  then consider "scheme self = 3 \<or> scheme self = 4" | "scheme self = 5"
    | "scheme self = 6" | "scheme self = 7"
    by blast
  then show ?thesis
  proof cases
    case 1
    with res have "obs_scheme34 self f = (s2, out)" by (auto simp: encode_scheme_def)
    with obs_scheme34_penalty [of self f] show ?thesis by simp
  next
    case 2
    with res have "obs_scheme5 self f = (s2, out)" by (simp add: encode_scheme_def)
    with obs_scheme5_penalty [of self f] show ?thesis by simp
  next
    case 3
    with res have "obs_scheme6 self f = (s2, out)" by (simp add: encode_scheme_def)
    with obs_scheme6_penalty [of self f] show ?thesis by simp
  next
    case 4
    with res have "obs_scheme7 self rnd f = Inr (s2, out)" by (simp add: encode_scheme_def)
    then show ?thesis by (rule obs_scheme7_penalty)
  qed
qed

lemma process_raw_obs_penalty:
  assumes "3 \<le> scheme self" "scheme self \<le> 7"
    and res: "process_raw_obs kin self rnd obs = Inr (s', out)"
  shows "penalty_side s' = Some (next_side (penalty_side self) (puck_x_sign kin self rnd obs))
   \<and> penalty_timer s'
     = next_timer (penalty_side self) (penalty_timer self) (sim_dt self)
         (puck_x_sign kin self rnd obs)
   \<and> out \<noteq> []
   \<and> hd out
     = clip (next_side (penalty_side self) (puck_x_sign kin self rnd obs)
             * next_timer (penalty_side self) (penalty_timer self) (sim_dt self)
                 (puck_x_sign kin self rnd obs)
             / MAX_TIME_UNTIL_PENALTY_S) (- 1) 1"
proof -
  let ?f = "extract_features kin self rnd obs"
  let ?s1 = "self\<lparr> current_joint_pos := Some (obs_joint_pos obs),
                   current_ee_pos := Some (noisy_ee_pos kin self rnd obs),
                   current_ee_pos_xy_norm := Some (ee_pos_xy_norm ?f) \<rparr>"
  from process_raw_obs_Inr [OF res]
  have enc: "encode_scheme ?s1 rnd ?f = Inr (s', out)" by simp
  from assms(1,2) have sch: "3 \<le> scheme ?s1" "scheme ?s1 \<le> 7" by simp_all
  from encode_scheme_penalty [OF sch enc] show ?thesis
    by (simp add: puck_x_sign_def)
qed

lemma puck_x_sign_config:
  "same_config a b \<Longrightarrow> puck_x_sign kin a rnd obs = puck_x_sign kin b rnd obs"
  by (simp add: puck_x_sign_def extract_features_def noisy_puck_pos_def same_config_def)

lemma SpaceRAgent_init_config:
  assumes "SpaceRAgent_init args = Inr self"
  shows "sim_dt self = sim_dt args"
proof -
  let ?a = "args\<lparr> lose_tracking_probability := 0,
                               lose_tracking_n_steps_remaining := 0,
                               previous_ee_pos_xy_norm := None,
                               current_joint_pos := None,
                               current_ee_pos := None,
                               current_ee_pos_xy_norm := None \<rparr>"
  from assms obtain s0 where s0: "scheme_setup ?a = Inr s0" and self: "self = reset s0"
    by (auto simp: SpaceRAgent_init_def split: sum.splits)
  from scheme_setup_cases [OF s0] show ?thesis
    unfolding self
    by (elim disjE conjE) (simp_all add: reset_def set_depths_def)
qed

lemma clip_unit_id: "\<bar>x\<bar> \<le> 1 \<Longrightarrow> clip x (- 1) 1 = x"
  by (simp add: clip_def)

lemma tick_frame:
  assumes "agent_inv self" "process_raw_obs kin self rnd obs = Inr (s', out)"
  shows "agent_inv s'" "scheme s' = scheme self" "sim_dt s' = sim_dt self"
    "same_config self s'"
  using process_raw_obs_post [OF assms] by (simp_all add: same_config_def)

lemma run_same_side:
  assumes "agent_inv self" "3 \<le> scheme self" "scheme self \<le> 7"
    and "penalty_side self = Some s"
    and "\<forall>t \<in> set ticks. puck_x_sign kin self (fst t) (snd t) = s"
    and "run_obs kin self ticks = Inr (s', outs)"
  shows "penalty_side s' = Some s
       \<and> penalty_timer s' = penalty_timer self + real (length ticks) * sim_dt self
       \<and> (ticks \<noteq> [] \<longrightarrow> outs \<noteq> []
            \<and> hd (last outs) = clip (s * penalty_timer s' / MAX_TIME_UNTIL_PENALTY_S) (- 1) 1)"
  using assms
proof (induction ticks arbitrary: self outs)
  case Nil
  then show ?case by simp
next
  case (Cons t ts)
  from Cons.prems(6) obtain s1 out outs1 where
    tick: "process_raw_obs kin self (fst t) (snd t) = Inr (s1, out)"
    and rest: "run_obs kin s1 ts = Inr (s', outs1)" and outs: "outs = out # outs1"
    by (auto split: sum.splits)
  from Cons.prems(5) have sg: "puck_x_sign kin self (fst t) (snd t) = s" by simp
  from process_raw_obs_penalty [OF Cons.prems(2,3) tick] Cons.prems(4) sg
  have p1: "penalty_side s1 = Some s" "penalty_timer s1 = penalty_timer self + sim_dt self"
      "hd out = clip (s * (penalty_timer self + sim_dt self) / MAX_TIME_UNTIL_PENALTY_S) (- 1) 1"
    by (simp_all add: next_side_def next_timer_def)
  note fr = tick_frame [OF Cons.prems(1) tick]
  from Cons.prems(5) puck_x_sign_config [OF fr(4)]
  have signs: "\<forall>t \<in> set ts. puck_x_sign kin s1 (fst t) (snd t) = s" by simp
  from Cons.prems(2,3) fr(2) have sch: "3 \<le> scheme s1" "scheme s1 \<le> 7" by simp_all
  from Cons.IH [OF fr(1) sch p1(1) signs rest]
  have ih: "penalty_side s' = Some s"
      "penalty_timer s' = penalty_timer s1 + real (length ts) * sim_dt s1"
      "ts \<noteq> [] \<longrightarrow> outs1 \<noteq> []
            \<and> hd (last outs1) = clip (s * penalty_timer s' / MAX_TIME_UNTIL_PENALTY_S) (- 1) 1"
    by simp_all
  have timer: "penalty_timer s' = penalty_timer self + real (length (t # ts)) * sim_dt self"
    unfolding ih(2) p1(2) fr(3) by (simp add: algebra_simps)
  have lastv: "hd (last outs) = clip (s * penalty_timer s' / MAX_TIME_UNTIL_PENALTY_S) (- 1) 1"
  proof (cases "ts = []")
    case True
    with rest have "s' = s1" "outs1 = []" by simp_all
    with p1 outs show ?thesis by simp
  next
    case False
    with ih(3) outs show ?thesis by simp
  qed
  from ih(1) timer lastv outs show ?case by simp
qed

lemma example_puck_x_sign:
  assumes "same_config (example_agent sch True) self" "2 \<le> sch" "sch \<le> 7"
  shows "puck_x_sign kin self rnd (example_obs 2) = 1"
    and "puck_x_sign kin self rnd (example_obs 1) = - 1"
proof -
  note init = SpaceRAgent_init_inv [OF example_agent_init [OF assms(2,3), of True]]
  from init have "evaluate (example_agent sch True)"
      "puck_table_minmax (example_agent sch True) = ((1/2, 5/2), (- 1/2, 1/2))"
    by (simp_all add: example_args_def)
  with assms(1) have cfg: "evaluate self" "puck_table_minmax self = ((1/2, 5/2), (- 1/2, 1/2))"
    by (simp_all add: same_config_def)
  show "puck_x_sign kin self rnd (example_obs 2) = 1"
    by (simp add: puck_x_sign_def extract_features_def noisy_puck_pos_def cfg example_obs_def
        norm_clip_xy_def normalize_value_def clip_def xy_def np_sign_def)
  show "puck_x_sign kin self rnd (example_obs 1) = - 1"
    by (simp add: puck_x_sign_def extract_features_def noisy_puck_pos_def cfg example_obs_def
        norm_clip_xy_def normalize_value_def clip_def xy_def np_sign_def)
qed

text \<open>
  Claim C4, as the code has it. In schemes 3 to 7 one tick moves the penalty timer as the
  state machine says: from the unset state (where a reset leaves the timer at 0) the side
  becomes the sign of the normalised puck x position and the timer stays; when the
  observed sign equals the stored side the timer grows by the time step; otherwise the
  side flips and the timer returns to 0. The first element of the returned vector is
  \<open>side * timer / MAX_TIME_UNTIL_PENALTY_S\<close> clipped to \<open>[-1, 1]\<close>, hence equal to it
  whenever it lies in that range. From a fresh agent whose time step is 0.1, five ticks
  with the puck sides \<open>+, +, +, -, -\<close> give the timers \<open>0, 0.1, 0.2, 0, 0.1\<close>, the sides
  \<open>+, +, +, -, -\<close> (the flip at index 3) and the emitted values
  \<open>0, 0.1/15, 0.2/15, 0, -0.1/15\<close>.
\<close>

theorem C4_penalty_timer:
  "(3 \<le> scheme self \<and> scheme self \<le> 7
      \<and> process_raw_obs kin self rnd obs = Inr (self', out) \<longrightarrow>
        (penalty_side self = None \<longrightarrow>
           penalty_side self' = Some (puck_x_sign kin self rnd obs)
           \<and> penalty_timer self' = penalty_timer self)
      \<and> (\<forall>s. penalty_side self = Some s \<and> puck_x_sign kin self rnd obs = s \<longrightarrow>
             penalty_side self' = Some s
             \<and> penalty_timer self' = penalty_timer self + sim_dt self)
      \<and> (\<forall>s. penalty_side self = Some s \<and> puck_x_sign kin self rnd obs \<noteq> s \<longrightarrow>
             penalty_side self' = Some (- s) \<and> penalty_timer self' = 0)
      \<and> (\<exists>s. penalty_side self' = Some s \<and> out \<noteq> []
             \<and> hd out = clip (s * penalty_timer self' / MAX_TIME_UNTIL_PENALTY_S) (- 1) 1
             \<and> (\<bar>s * penalty_timer self' / MAX_TIME_UNTIL_PENALTY_S\<bar> \<le> 1 \<longrightarrow>
                  hd out = s * penalty_timer self' / MAX_TIME_UNTIL_PENALTY_S)))
   \<and> (scheme self \<noteq> 2 \<longrightarrow>
        penalty_side (reset self) = None \<and> penalty_timer (reset self) = 0)
   \<and> (SpaceRAgent_init args = Inr s0 \<and> 3 \<le> scheme args \<and> scheme args \<le> 7
      \<and> sim_dt args = 1/10
      \<and> process_raw_obs kin s0 r1 o1 = Inr (s1, out1) \<and> puck_x_sign kin s0 r1 o1 = 1
      \<and> process_raw_obs kin s1 r2 o2 = Inr (s2, out2) \<and> puck_x_sign kin s1 r2 o2 = 1
      \<and> process_raw_obs kin s2 r3 o3 = Inr (s3, out3) \<and> puck_x_sign kin s2 r3 o3 = 1
      \<and> process_raw_obs kin s3 r4 o4 = Inr (s4, out4) \<and> puck_x_sign kin s3 r4 o4 = - 1
      \<and> process_raw_obs kin s4 r5 o5 = Inr (s5, out5) \<and> puck_x_sign kin s4 r5 o5 = - 1
      \<longrightarrow> map penalty_timer [s1, s2, s3, s4, s5] = [0, 1/10, 2/10, 0, 1/10]
          \<and> map penalty_side [s1, s2, s3, s4, s5]
              = [Some 1, Some 1, Some 1, Some (- 1), Some (- 1)]
          \<and> map hd [out1, out2, out3, out4, out5] = [0, 1/150, 2/150, 0, - 1/150])"
proof -
  have A: "3 \<le> scheme self \<and> scheme self \<le> 7
      \<and> process_raw_obs kin self rnd obs = Inr (self', out) \<longrightarrow>
        (penalty_side self = None \<longrightarrow>
           penalty_side self' = Some (puck_x_sign kin self rnd obs)
           \<and> penalty_timer self' = penalty_timer self)
      \<and> (\<forall>s. penalty_side self = Some s \<and> puck_x_sign kin self rnd obs = s \<longrightarrow>
             penalty_side self' = Some s
             \<and> penalty_timer self' = penalty_timer self + sim_dt self)
      \<and> (\<forall>s. penalty_side self = Some s \<and> puck_x_sign kin self rnd obs \<noteq> s \<longrightarrow>
             penalty_side self' = Some (- s) \<and> penalty_timer self' = 0)
      \<and> (\<exists>s. penalty_side self' = Some s \<and> out \<noteq> []
             \<and> hd out = clip (s * penalty_timer self' / MAX_TIME_UNTIL_PENALTY_S) (- 1) 1
             \<and> (\<bar>s * penalty_timer self' / MAX_TIME_UNTIL_PENALTY_S\<bar> \<le> 1 \<longrightarrow>
                  hd out = s * penalty_timer self' / MAX_TIME_UNTIL_PENALTY_S))"
  proof (rule impI)
    assume a: "3 \<le> scheme self \<and> scheme self \<le> 7
        \<and> process_raw_obs kin self rnd obs = Inr (self', out)"
    then have sch: "3 \<le> scheme self" "scheme self \<le> 7"
      and res: "process_raw_obs kin self rnd obs = Inr (self', out)"
      by simp_all
    note p = process_raw_obs_penalty [OF sch res]
    from p have side: "penalty_side self'
                       = Some (next_side (penalty_side self) (puck_x_sign kin self rnd obs))"
      and timer: "penalty_timer self'
                  = next_timer (penalty_side self) (penalty_timer self) (sim_dt self)
                      (puck_x_sign kin self rnd obs)"
      and ne: "out \<noteq> []"
      and emitted: "hd out
       = clip (next_side (penalty_side self) (puck_x_sign kin self rnd obs)
               * next_timer (penalty_side self) (penalty_timer self) (sim_dt self)
                   (puck_x_sign kin self rnd obs)
               / MAX_TIME_UNTIL_PENALTY_S) (- 1) 1"
      by simp_all
    show "(penalty_side self = None \<longrightarrow>
             penalty_side self' = Some (puck_x_sign kin self rnd obs)
             \<and> penalty_timer self' = penalty_timer self)
        \<and> (\<forall>s. penalty_side self = Some s \<and> puck_x_sign kin self rnd obs = s \<longrightarrow>
               penalty_side self' = Some s
               \<and> penalty_timer self' = penalty_timer self + sim_dt self)
        \<and> (\<forall>s. penalty_side self = Some s \<and> puck_x_sign kin self rnd obs \<noteq> s \<longrightarrow>
               penalty_side self' = Some (- s) \<and> penalty_timer self' = 0)
        \<and> (\<exists>s. penalty_side self' = Some s \<and> out \<noteq> []
               \<and> hd out = clip (s * penalty_timer self' / MAX_TIME_UNTIL_PENALTY_S) (- 1) 1
               \<and> (\<bar>s * penalty_timer self' / MAX_TIME_UNTIL_PENALTY_S\<bar> \<le> 1 \<longrightarrow>
                    hd out = s * penalty_timer self' / MAX_TIME_UNTIL_PENALTY_S))"
    proof (intro conjI allI impI)
      assume "penalty_side self = None"
      with side timer show "penalty_side self' = Some (puck_x_sign kin self rnd obs)"
          "penalty_timer self' = penalty_timer self"
        by (simp_all add: next_side_def next_timer_def)
    next
      fix s assume "penalty_side self = Some s \<and> puck_x_sign kin self rnd obs = s"
      with side timer show "penalty_side self' = Some s"
          "penalty_timer self' = penalty_timer self + sim_dt self"
        by (simp_all add: next_side_def next_timer_def)
    next
      fix s assume "penalty_side self = Some s \<and> puck_x_sign kin self rnd obs \<noteq> s"
      with side timer show "penalty_side self' = Some (- s)" "penalty_timer self' = 0"
        by (simp_all add: next_side_def next_timer_def)
    next
      let ?s = "next_side (penalty_side self) (puck_x_sign kin self rnd obs)"
      from emitted timer
      have e: "hd out = clip (?s * penalty_timer self' / MAX_TIME_UNTIL_PENALTY_S) (- 1) 1"
        by simp
      then have "\<bar>?s * penalty_timer self' / MAX_TIME_UNTIL_PENALTY_S\<bar> \<le> 1 \<longrightarrow>
                    hd out = ?s * penalty_timer self' / MAX_TIME_UNTIL_PENALTY_S"
        by (simp add: clip_unit_id)
      with side ne e
      show "\<exists>s. penalty_side self' = Some s \<and> out \<noteq> []
               \<and> hd out = clip (s * penalty_timer self' / MAX_TIME_UNTIL_PENALTY_S) (- 1) 1
               \<and> (\<bar>s * penalty_timer self' / MAX_TIME_UNTIL_PENALTY_S\<bar> \<le> 1 \<longrightarrow>
                    hd out = s * penalty_timer self' / MAX_TIME_UNTIL_PENALTY_S)"
        by (intro exI [of _ ?s]) simp
    qed
  qed
  have R: "scheme self \<noteq> 2 \<longrightarrow>
        penalty_side (reset self) = None \<and> penalty_timer (reset self) = 0"
  proof (rule impI)
    assume "scheme self \<noteq> 2"
    then show "penalty_side (reset self) = None \<and> penalty_timer (reset self) = 0"
      by (simp add: reset_def)
  qed
  have B: "SpaceRAgent_init args = Inr s0 \<and> 3 \<le> scheme args \<and> scheme args \<le> 7
      \<and> sim_dt args = 1/10
      \<and> process_raw_obs kin s0 r1 o1 = Inr (s1, out1) \<and> puck_x_sign kin s0 r1 o1 = 1
      \<and> process_raw_obs kin s1 r2 o2 = Inr (s2, out2) \<and> puck_x_sign kin s1 r2 o2 = 1
      \<and> process_raw_obs kin s2 r3 o3 = Inr (s3, out3) \<and> puck_x_sign kin s2 r3 o3 = 1
      \<and> process_raw_obs kin s3 r4 o4 = Inr (s4, out4) \<and> puck_x_sign kin s3 r4 o4 = - 1
      \<and> process_raw_obs kin s4 r5 o5 = Inr (s5, out5) \<and> puck_x_sign kin s4 r5 o5 = - 1
      \<longrightarrow> map penalty_timer [s1, s2, s3, s4, s5] = [0, 1/10, 2/10, 0, 1/10]
          \<and> map penalty_side [s1, s2, s3, s4, s5]
              = [Some 1, Some 1, Some 1, Some (- 1), Some (- 1)]
          \<and> map hd [out1, out2, out3, out4, out5] = [0, 1/150, 2/150, 0, - 1/150]"
  proof (rule impI)
    assume b: "SpaceRAgent_init args = Inr s0 \<and> 3 \<le> scheme args \<and> scheme args \<le> 7
        \<and> sim_dt args = 1/10
        \<and> process_raw_obs kin s0 r1 o1 = Inr (s1, out1) \<and> puck_x_sign kin s0 r1 o1 = 1
        \<and> process_raw_obs kin s1 r2 o2 = Inr (s2, out2) \<and> puck_x_sign kin s1 r2 o2 = 1
        \<and> process_raw_obs kin s2 r3 o3 = Inr (s3, out3) \<and> puck_x_sign kin s2 r3 o3 = 1
        \<and> process_raw_obs kin s3 r4 o4 = Inr (s4, out4) \<and> puck_x_sign kin s3 r4 o4 = - 1
        \<and> process_raw_obs kin s4 r5 o5 = Inr (s5, out5) \<and> puck_x_sign kin s4 r5 o5 = - 1"
    then have init: "SpaceRAgent_init args = Inr s0" and sa: "3 \<le> scheme args" "scheme args \<le> 7"
      and dt: "sim_dt args = 1/10"
      and t1: "process_raw_obs kin s0 r1 o1 = Inr (s1, out1)" and g1: "puck_x_sign kin s0 r1 o1 = 1"
      and t2: "process_raw_obs kin s1 r2 o2 = Inr (s2, out2)" and g2: "puck_x_sign kin s1 r2 o2 = 1"
      and t3: "process_raw_obs kin s2 r3 o3 = Inr (s3, out3)" and g3: "puck_x_sign kin s2 r3 o3 = 1"
      and t4: "process_raw_obs kin s3 r4 o4 = Inr (s4, out4)" and g4: "puck_x_sign kin s3 r4 o4 = - 1"
      and t5: "process_raw_obs kin s4 r5 o5 = Inr (s5, out5)" and g5: "puck_x_sign kin s4 r5 o5 = - 1"
      by simp_all
    note i = SpaceRAgent_init_inv [OF init]
    from i sa have inv0: "agent_inv s0" and sch0: "3 \<le> scheme s0" "scheme s0 \<le> 7"
      and p0: "penalty_side s0 = None" "penalty_timer s0 = 0"
      by simp_all
    from SpaceRAgent_init_config [OF init] dt have dt0: "sim_dt s0 = 1/10" by simp
    note f1 = tick_frame [OF inv0 t1]
    from f1 sch0 dt0 have c1: "3 \<le> scheme s1" "scheme s1 \<le> 7" "sim_dt s1 = 1/10" by simp_all
    note f2 = tick_frame [OF f1(1) t2]
    from f2 c1 have c2: "3 \<le> scheme s2" "scheme s2 \<le> 7" "sim_dt s2 = 1/10" by simp_all
    note f3 = tick_frame [OF f2(1) t3]
    from f3 c2 have c3: "3 \<le> scheme s3" "scheme s3 \<le> 7" "sim_dt s3 = 1/10" by simp_all
    note f4 = tick_frame [OF f3(1) t4]
    from f4 c3 have c4: "3 \<le> scheme s4" "scheme s4 \<le> 7" "sim_dt s4 = 1/10" by simp_all
    from process_raw_obs_penalty [OF sch0 t1] p0 g1
    have q1: "penalty_side s1 = Some 1" "penalty_timer s1 = 0" "hd out1 = 0"
      by (simp_all add: next_side_def next_timer_def clip_def)
    from process_raw_obs_penalty [OF c1(1,2) t2] q1 g2 c1(3)
    have q2: "penalty_side s2 = Some 1" "penalty_timer s2 = 1/10" "hd out2 = 1/150"
      by (simp_all add: next_side_def next_timer_def clip_def MAX_TIME_UNTIL_PENALTY_S_def)
    from process_raw_obs_penalty [OF c2(1,2) t3] q2 g3 c2(3)
    have q3: "penalty_side s3 = Some 1" "penalty_timer s3 = 2/10" "hd out3 = 2/150"
      by (simp_all add: next_side_def next_timer_def clip_def MAX_TIME_UNTIL_PENALTY_S_def)
    from process_raw_obs_penalty [OF c3(1,2) t4] q3 g4 c3(3)
    have q4: "penalty_side s4 = Some (- 1)" "penalty_timer s4 = 0" "hd out4 = 0"
      by (simp_all add: next_side_def next_timer_def clip_def MAX_TIME_UNTIL_PENALTY_S_def)
    from process_raw_obs_penalty [OF c4(1,2) t5] q4 g5 c4(3)
    have q5: "penalty_side s5 = Some (- 1)" "penalty_timer s5 = 1/10" "hd out5 = - 1/150"
      by (simp_all add: next_side_def next_timer_def clip_def MAX_TIME_UNTIL_PENALTY_S_def)
    from q1 q2 q3 q4 q5
    show "map penalty_timer [s1, s2, s3, s4, s5] = [0, 1/10, 2/10, 0, 1/10]
            \<and> map penalty_side [s1, s2, s3, s4, s5]
                = [Some 1, Some 1, Some 1, Some (- 1), Some (- 1)]
            \<and> map hd [out1, out2, out3, out4, out5] = [0, 1/150, 2/150, 0, - 1/150]"
      by simp
  qed
  show ?thesis by (rule conjI [OF A conjI [OF R B]])
qed

lemma run_obs_cons:
  assumes "run_obs kin self (t # ts) = Inr (s', outs)"
  shows "\<exists>s1 out outs1. process_raw_obs kin self (fst t) (snd t) = Inr (s1, out)
           \<and> run_obs kin s1 ts = Inr (s', outs1) \<and> outs = out # outs1"
  using assms by (auto split: sum.splits)

theorem C4_penalty_timer_witness:
  "\<exists>s1 s2 s3 s4 s5 o1 o2 o3 o4 o5.
       process_raw_obs example_kin (example_agent 7 True) example_rnd (example_obs 2) = Inr (s1, o1)
     \<and> process_raw_obs example_kin s1 example_rnd (example_obs 2) = Inr (s2, o2)
     \<and> process_raw_obs example_kin s2 example_rnd (example_obs 2) = Inr (s3, o3)
     \<and> process_raw_obs example_kin s3 example_rnd (example_obs 1) = Inr (s4, o4)
     \<and> process_raw_obs example_kin s4 example_rnd (example_obs 1) = Inr (s5, o5)
     \<and> map penalty_timer [s1, s2, s3, s4, s5] = [0, 1/10, 2/10, 0, 1/10]
     \<and> map penalty_side [s1, s2, s3, s4, s5] = [Some 1, Some 1, Some 1, Some (- 1), Some (- 1)]
     \<and> map hd [o1, o2, o3, o4, o5] = [0, 1/150, 2/150, 0, - 1/150]"
proof -
  let ?A = "example_agent 7 True"
  let ?p = "(example_rnd, example_obs 2)" and ?m = "(example_rnd, example_obs 1)"
  have init: "SpaceRAgent_init (example_args 7 True) = Inr ?A"
    by (rule example_agent_init) simp_all
  have cfg: "3 \<le> scheme (example_args 7 True)" "scheme (example_args 7 True) \<le> 7"
      "sim_dt (example_args 7 True) = 1/10"
    by (simp_all add: example_args_def)
  from SpaceRAgent_init_inv [OF init] have inv0: "agent_inv ?A" by simp
  have "\<forall>t \<in> set [?p, ?p, ?p, ?m, ?m]. \<exists>x. snd t = example_obs x" by auto
  from example_run_defined [OF _ _ this, of 7 example_kin True]
  obtain s5 outs where run: "run_obs example_kin ?A [?p, ?p, ?p, ?m, ?m] = Inr (s5, outs)"
    by auto
  from run_obs_cons [OF run] obtain s1 o1 outs1 where
    t1: "process_raw_obs example_kin ?A example_rnd (example_obs 2) = Inr (s1, o1)"
    and r1: "run_obs example_kin s1 [?p, ?p, ?m, ?m] = Inr (s5, outs1)"
    by auto
  from run_obs_cons [OF r1] obtain s2 o2 outs2 where
    t2: "process_raw_obs example_kin s1 example_rnd (example_obs 2) = Inr (s2, o2)"
    and r2: "run_obs example_kin s2 [?p, ?m, ?m] = Inr (s5, outs2)"
    by auto
  from run_obs_cons [OF r2] obtain s3 o3 outs3 where
    t3: "process_raw_obs example_kin s2 example_rnd (example_obs 2) = Inr (s3, o3)"
    and r3: "run_obs example_kin s3 [?m, ?m] = Inr (s5, outs3)"
    by auto
  from run_obs_cons [OF r3] obtain s4 o4 outs4 where
    t4: "process_raw_obs example_kin s3 example_rnd (example_obs 1) = Inr (s4, o4)"
    and r4: "run_obs example_kin s4 [?m] = Inr (s5, outs4)"
    by auto
  from run_obs_cons [OF r4] obtain o5 where
    t5: "process_raw_obs example_kin s4 example_rnd (example_obs 1) = Inr (s5, o5)"
    by auto
  note f1 = tick_frame [OF inv0 t1]
  note f2 = tick_frame [OF f1(1) t2]
  note f3 = tick_frame [OF f2(1) t3]
  note f4 = tick_frame [OF f3(1) t4]
  have c0: "same_config ?A ?A" by (rule same_config_refl)
  note c1 = f1(4)
  note c2 = same_config_trans [OF c1 f2(4)]
  note c3 = same_config_trans [OF c2 f3(4)]
  note c4 = same_config_trans [OF c3 f4(4)]
  have g: "puck_x_sign example_kin ?A example_rnd (example_obs 2) = 1"
      "puck_x_sign example_kin s1 example_rnd (example_obs 2) = 1"
      "puck_x_sign example_kin s2 example_rnd (example_obs 2) = 1"
      "puck_x_sign example_kin s3 example_rnd (example_obs 1) = - 1"
      "puck_x_sign example_kin s4 example_rnd (example_obs 1) = - 1"
    using example_puck_x_sign [OF c0] example_puck_x_sign [OF c1] example_puck_x_sign [OF c2]
      example_puck_x_sign [OF c3] example_puck_x_sign [OF c4]
    by simp_all
  have inst: "SpaceRAgent_init (example_args 7 True) = Inr (example_agent 7 True)
     \<and> 3 \<le> scheme (example_args 7 True)
     \<and> scheme (example_args 7 True) \<le> 7
     \<and> sim_dt (example_args 7 True) = 1/10
     \<and> process_raw_obs example_kin (example_agent 7 True) example_rnd (example_obs 2) = Inr (s1, o1)
     \<and> puck_x_sign example_kin (example_agent 7 True) example_rnd (example_obs 2) = 1
     \<and> process_raw_obs example_kin s1 example_rnd (example_obs 2) = Inr (s2, o2)
     \<and> puck_x_sign example_kin s1 example_rnd (example_obs 2) = 1
     \<and> process_raw_obs example_kin s2 example_rnd (example_obs 2) = Inr (s3, o3)
     \<and> puck_x_sign example_kin s2 example_rnd (example_obs 2) = 1
     \<and> process_raw_obs example_kin s3 example_rnd (example_obs 1) = Inr (s4, o4)
     \<and> puck_x_sign example_kin s3 example_rnd (example_obs 1) = - 1
     \<and> process_raw_obs example_kin s4 example_rnd (example_obs 1) = Inr (s5, o5)
     \<and> puck_x_sign example_kin s4 example_rnd (example_obs 1) = - 1
     \<longrightarrow> map penalty_timer [s1, s2, s3, s4, s5] = [0, 1/10, 2/10, 0, 1/10]
     \<and> map penalty_side [s1, s2, s3, s4, s5] = [Some 1, Some 1, Some 1, Some (- 1), Some (- 1)]
     \<and> map hd [o1, o2, o3, o4, o5] = [0, 1/150, 2/150, 0, - 1/150]"
    by (rule C4_penalty_timer [THEN conjunct2, THEN conjunct2])
  have "map penalty_timer [s1, s2, s3, s4, s5] = [0, 1/10, 2/10, 0, 1/10]
     \<and> map penalty_side [s1, s2, s3, s4, s5] = [Some 1, Some 1, Some 1, Some (- 1), Some (- 1)]
     \<and> map hd [o1, o2, o3, o4, o5] = [0, 1/150, 2/150, 0, - 1/150]"
    by (rule mp [OF inst]) (intro conjI init cfg t1 t2 t3 t4 t5 g)
  with t1 t2 t3 t4 t5
  have "process_raw_obs example_kin (example_agent 7 True) example_rnd (example_obs 2) = Inr (s1, o1)
     \<and> process_raw_obs example_kin s1 example_rnd (example_obs 2) = Inr (s2, o2)
     \<and> process_raw_obs example_kin s2 example_rnd (example_obs 2) = Inr (s3, o3)
     \<and> process_raw_obs example_kin s3 example_rnd (example_obs 1) = Inr (s4, o4)
     \<and> process_raw_obs example_kin s4 example_rnd (example_obs 1) = Inr (s5, o5)
     \<and> map penalty_timer [s1, s2, s3, s4, s5] = [0, 1/10, 2/10, 0, 1/10]
     \<and> map penalty_side [s1, s2, s3, s4, s5] = [Some 1, Some 1, Some 1, Some (- 1), Some (- 1)]
     \<and> map hd [o1, o2, o3, o4, o5] = [0, 1/150, 2/150, 0, - 1/150]"
    by (intro conjI) simp_all
  then show ?thesis by (intro exI)
qed

theorem C4_emitted_value_counterexample:
  "SpaceRAgent_init (example_args 4 True) = Inr (example_agent 4 True)
   \<and> map_sum id (penalty_side \<circ> fst)
        (run_obs example_kin (example_agent 4 True) (replicate 153 (example_rnd, example_obs 2)))
      = Inr (Some 1)
   \<and> map_sum id (penalty_timer \<circ> fst)
        (run_obs example_kin (example_agent 4 True) (replicate 153 (example_rnd, example_obs 2)))
      = Inr (76/5)
   \<and> map_sum id (hd \<circ> last \<circ> snd)
        (run_obs example_kin (example_agent 4 True) (replicate 153 (example_rnd, example_obs 2)))
      = Inr 1
   \<and> 1 * (76/5) / MAX_TIME_UNTIL_PENALTY_S \<noteq> (1 :: real)"
proof -
  let ?A = "example_agent 4 True"
  let ?t = "(example_rnd, example_obs 2)"
  have init: "SpaceRAgent_init (example_args 4 True) = Inr ?A"
    by (rule example_agent_init) simp_all
  note i = SpaceRAgent_init_inv [OF init]
  from i have inv0: "agent_inv ?A" and sch0: "3 \<le> scheme ?A" "scheme ?A \<le> 7"
    and p0: "penalty_side ?A = None" "penalty_timer ?A = 0"
    by (simp_all add: example_args_def)
  from SpaceRAgent_init_config [OF init] have dt0: "sim_dt ?A = 1/10"
    by (simp add: example_args_def)
  have "\<forall>t \<in> set (replicate 153 ?t). \<exists>x. snd t = example_obs x" by auto
  from example_run_defined [OF _ _ this, of 4 example_kin True]
  obtain s' outs where run: "run_obs example_kin ?A (replicate 153 ?t) = Inr (s', outs)"
    by auto
  have rep: "replicate 153 ?t = ?t # replicate 152 ?t"
    by (simp add: numeral_eq_Suc)
  from run_obs_cons [OF run [unfolded rep]] obtain s1 o1 outs1 where
    t1: "process_raw_obs example_kin ?A example_rnd (example_obs 2) = Inr (s1, o1)"
    and r1: "run_obs example_kin s1 (replicate 152 ?t) = Inr (s', outs1)"
    and outs: "outs = o1 # outs1"
    by auto
  note f1 = tick_frame [OF inv0 t1]
  have g0: "puck_x_sign example_kin ?A example_rnd (example_obs 2) = 1"
    by (rule example_puck_x_sign [OF same_config_refl]) simp_all
  from process_raw_obs_penalty [OF sch0 t1] p0 g0
  have q1: "penalty_side s1 = Some 1" "penalty_timer s1 = 0"
    by (simp_all add: next_side_def next_timer_def)
  from f1 sch0 dt0 have c1: "3 \<le> scheme s1" "scheme s1 \<le> 7" "sim_dt s1 = 1/10" by simp_all
  have signs: "\<forall>t \<in> set (replicate 152 ?t). puck_x_sign example_kin s1 (fst t) (snd t) = 1"
    using example_puck_x_sign(1) [OF f1(4)] by simp
  from run_same_side [OF f1(1) c1(1,2) q1(1) signs r1]
  have fin: "penalty_side s' = Some 1" "penalty_timer s' = 76/5"
      "outs1 \<noteq> []"
      "hd (last outs1) = clip (1 * penalty_timer s' / MAX_TIME_UNTIL_PENALTY_S) (- 1) 1"
    by (simp_all add: q1 c1)
  from fin(3) outs have "last outs = last outs1" by simp
  with fin have "hd (last outs) = 1"
    by (simp add: clip_def MAX_TIME_UNTIL_PENALTY_S_def)
  with init fin(1,2) show ?thesis
    unfolding run by (simp add: MAX_TIME_UNTIL_PENALTY_S_def)
qed

end
